(* ===== verification/Prelude.thy ===== *)
theory Prelude
  imports Main "HOL-Library.Multiset" "HOL-Library.Sublist"
begin

text \<open>
  Shared vocabulary of the development. The seed routine of \<open>src/src/bootstrap.js\<close> is
  asynchronous JavaScript: every \<open>await\<close> is a call into the content platform that reads
  or changes its store, and every \<open>throw\<close> unwinds to the nearest \<open>catch\<close> while leaving
  the store as the completed calls left it. That is a state monad with exceptions whose
  failure branch still returns the state, \<open>('e, 's, 'a) exc\<close> below: an operation takes
  the state and returns its outcome (\<open>Inl\<close> an exception, \<open>Inr\<close> a value) together with
  the state after it. \<open>returnE\<close>, \<open>throwE\<close>, \<open>bindE\<close> (an \<open>await\<close> in sequence) and
  \<open>catchE\<close> (\<open>try\<close>/\<open>catch\<close>) are the only combinators; \<open>mapE\<close> is a sequential
  \<open>for\<close> loop that pushes each result. The collection \<open>exc_simps\<close> holds the rules that
  evaluate them, so that component proofs run by \<open>simp add: exc_simps\<close>.
\<close>

named_theorems exc_simps "evaluation rules of the exception-state combinators"
named_theorems store_simps "evaluation rules of the platform store operations"

type_synonym ('e, 's, 'a) exc = "'s \<Rightarrow> ('e + 'a) \<times> 's"

definition returnE :: "'a \<Rightarrow> ('e, 's, 'a) exc" where
  "returnE x = (\<lambda>s. (Inr x, s))"

definition throwE :: "'e \<Rightarrow> ('e, 's, 'a) exc" where
  "throwE e = (\<lambda>s. (Inl e, s))"

definition bindE :: "('e, 's, 'a) exc \<Rightarrow> ('a \<Rightarrow> ('e, 's, 'b) exc) \<Rightarrow> ('e, 's, 'b) exc" where
  "bindE m f = (\<lambda>s. case m s of (Inl e, s') \<Rightarrow> (Inl e, s') | (Inr x, s') \<Rightarrow> f x s')"

definition catchE :: "('e, 's, 'a) exc \<Rightarrow> ('e \<Rightarrow> ('e, 's, 'a) exc) \<Rightarrow> ('e, 's, 'a) exc" where
  "catchE m h = (\<lambda>s. case m s of (Inl e, s') \<Rightarrow> h e s' | (Inr x, s') \<Rightarrow> (Inr x, s'))"

definition modifyE :: "('s \<Rightarrow> 's) \<Rightarrow> ('e, 's, unit) exc" where
  "modifyE f = (\<lambda>s. (Inr (), f s))"

definition getsE :: "('s \<Rightarrow> 'a) \<Rightarrow> ('e, 's, 'a) exc" where
  "getsE f = (\<lambda>s. (Inr (f s), s))"

primrec mapE :: "('a \<Rightarrow> ('e, 's, 'b) exc) \<Rightarrow> 'a list \<Rightarrow> ('e, 's, 'b list) exc" where
  "mapE f [] = returnE []"
| "mapE f (x # xs) = bindE (f x) (\<lambda>y. bindE (mapE f xs) (\<lambda>ys. returnE (y # ys)))"

subsection \<open>Evaluation rules\<close>

lemma returnE_apply [exc_simps]: "returnE x s = (Inr x, s)"
  by (simp add: returnE_def)

lemma throwE_apply [exc_simps]: "throwE e s = (Inl e, s)"
  by (simp add: throwE_def)

lemma modifyE_apply [exc_simps]: "modifyE f s = (Inr (), f s)"
  by (simp add: modifyE_def)

lemma getsE_apply [exc_simps]: "getsE f s = (Inr (f s), s)"
  by (simp add: getsE_def)

lemma bindE_apply [exc_simps]:
  "bindE m f s = (case m s of (Inl e, s') \<Rightarrow> (Inl e, s') | (Inr x, s') \<Rightarrow> f x s')"
  by (simp add: bindE_def)

lemma catchE_apply [exc_simps]:
  "catchE m h s = (case m s of (Inl e, s') \<Rightarrow> h e s' | (Inr x, s') \<Rightarrow> (Inr x, s'))"
  by (simp add: catchE_def)

lemma bindE_returnE [simp]: "bindE (returnE x) f = f x"
  by (simp add: bindE_def returnE_def)

lemma bindE_throwE [simp]: "bindE (throwE e) f = throwE e"
  by (simp add: bindE_def throwE_def)

lemma bindE_returnE_right [simp]: "bindE m returnE = m"
  by (rule ext) (simp add: bindE_def returnE_def split: prod.splits sum.splits)

lemma bindE_assoc: "bindE (bindE m f) g = bindE m (\<lambda>x. bindE (f x) g)"
  by (rule ext) (simp add: bindE_def split: prod.splits sum.splits)

text \<open>Decomposing an outcome of a sequence: the shapes the proofs reason about.\<close>

lemma bindE_Inr_conv:
  "bindE m f s = (Inr y, s'') \<longleftrightarrow> (\<exists>x s'. m s = (Inr x, s') \<and> f x s' = (Inr y, s''))"
  by (auto simp: bindE_def split: prod.splits sum.splits)

lemma bindE_Inl_conv:
  "bindE m f s = (Inl e, s'') \<longleftrightarrow>
     m s = (Inl e, s'') \<or> (\<exists>x s'. m s = (Inr x, s') \<and> f x s' = (Inl e, s''))"
  by (auto simp: bindE_def split: prod.splits sum.splits)

lemma bindE_cong_state:
  "m s = (Inr x, s') \<Longrightarrow> bindE m f s = f x s'"
  by (simp add: bindE_def)

lemma bindE_cong_err:
  "m s = (Inl e, s') \<Longrightarrow> bindE m f s = (Inl e, s')"
  by (simp add: bindE_def)

subsection \<open>Preservation of a state predicate\<close>

text \<open>
  \<open>keeps P m\<close>: whatever the outcome, running \<open>m\<close> from a state satisfying \<open>P\<close> ends in
  one satisfying \<open>P\<close>. Invariants of the platform store are proved operation by
  operation in this form and composed by the rules below.
\<close>

definition keeps :: "('s \<Rightarrow> bool) \<Rightarrow> ('e, 's, 'a) exc \<Rightarrow> bool" where
  "keeps P m \<longleftrightarrow> (\<forall>s. P s \<longrightarrow> P (snd (m s)))"

lemma keepsI: "(\<And>s. P s \<Longrightarrow> P (snd (m s))) \<Longrightarrow> keeps P m"
  by (simp add: keeps_def)

lemma keepsD: "keeps P m \<Longrightarrow> P s \<Longrightarrow> P (snd (m s))"
  by (simp add: keeps_def)

lemma keeps_returnE [intro, simp]: "keeps P (returnE x)"
  by (simp add: keeps_def returnE_def)

lemma keeps_throwE [intro, simp]: "keeps P (throwE e)"
  by (simp add: keeps_def throwE_def)

lemma keeps_getsE [intro, simp]: "keeps P (getsE f)"
  by (simp add: keeps_def getsE_def)

lemma keeps_bindE [intro]:
  assumes "keeps P m" and "\<And>x. keeps P (f x)"
  shows "keeps P (bindE m f)"
proof (rule keepsI)
  fix s assume "P s"
  with assms(1) have "P (snd (m s))" by (rule keepsD)
  with assms(2) show "P (snd (bindE m f s))"
    by (auto simp: bindE_def keeps_def split: prod.splits sum.splits)
qed

lemma keeps_catchE [intro]:
  assumes "keeps P m" and "\<And>e. keeps P (h e)"
  shows "keeps P (catchE m h)"
proof (rule keepsI)
  fix s assume "P s"
  with assms(1) have "P (snd (m s))" by (rule keepsD)
  with assms(2) show "P (snd (catchE m h s))"
    by (auto simp: catchE_def keeps_def split: prod.splits sum.splits)
qed

lemma keeps_mapE [intro]: "(\<And>x. keeps P (f x)) \<Longrightarrow> keeps P (mapE f xs)"
  by (induction xs) auto

lemma keeps_if [intro]: "keeps P a \<Longrightarrow> keeps P b \<Longrightarrow> keeps P (if c then a else b)"
  by simp

lemma keeps_conj: "keeps P m \<Longrightarrow> keeps Q m \<Longrightarrow> keeps (\<lambda>s. P s \<and> Q s) m"
  by (simp add: keeps_def)

subsection \<open>Sequential loops\<close>

text \<open>A \<open>try\<close> whose \<open>catch\<close> never fails never fails.\<close>

lemma catchE_total:
  fixes m :: "('e, 's, unit) exc"
  assumes "\<And>e s. fst (h e s) = Inr ()"
  shows "fst (catchE m h s) = Inr ()"
  using assms by (cases "m s") (auto simp: catchE_def split: sum.splits)

lemma mapE_length:
  "mapE f xs s = (Inr ys, s') \<Longrightarrow> length ys = length xs"
proof (induction xs arbitrary: s ys)
  case Nil
  then show ?case by (simp add: returnE_def)
next
  case (Cons x xs)
  then show ?case
    by (auto simp: bindE_Inr_conv returnE_def)
qed

lemma mapE_append:
  "mapE f (xs @ ys) = bindE (mapE f xs) (\<lambda>as. bindE (mapE f ys) (\<lambda>bs. returnE (as @ bs)))"
  by (induction xs) (simp_all add: bindE_assoc)

subsection \<open>Frames: what an operation may change\<close>

text \<open>
  \<open>moves R m\<close>: every run of \<open>m\<close> relates its start and end state by \<open>R\<close>. With \<open>R\<close>
  reflexive and transitive this composes through every combinator, so that "this
  component only touches these fields" is proved once per primitive.
\<close>

definition moves :: "('s \<Rightarrow> 's \<Rightarrow> bool) \<Rightarrow> ('e, 's, 'a) exc \<Rightarrow> bool" where
  "moves R m \<longleftrightarrow> (\<forall>s. R s (snd (m s)))"

lemma movesI: "(\<And>s. R s (snd (m s))) \<Longrightarrow> moves R m"
  by (simp add: moves_def)

lemma movesD: "moves R m \<Longrightarrow> m s = (r, s') \<Longrightarrow> R s s'"
  by (metis moves_def snd_conv)

lemma moves_returnE [intro]: "reflp R \<Longrightarrow> moves R (returnE x)"
  by (simp add: moves_def returnE_def reflpD)

lemma moves_throwE [intro]: "reflp R \<Longrightarrow> moves R (throwE e)"
  by (simp add: moves_def throwE_def reflpD)

lemma moves_getsE [intro]: "reflp R \<Longrightarrow> moves R (getsE f)"
  by (simp add: moves_def getsE_def reflpD)

lemma moves_bindE [intro]:
  assumes "transp R" and "moves R m" and "\<And>x. moves R (f x)"
  shows "moves R (bindE m f)"
proof (rule movesI)
  fix s
  obtain r s1 where m: "m s = (r, s1)" by (cases "m s")
  with assms(2) have "R s s1" by (rule movesD)
  show "R s (snd (bindE m f s))"
  proof (cases r)
    case (Inl e)
    with m \<open>R s s1\<close> show ?thesis by (simp add: bindE_def)
  next
    case (Inr x)
    have "R s1 (snd (f x s1))" using assms(3) by (simp add: moves_def)
    with m Inr \<open>R s s1\<close> assms(1) show ?thesis by (auto simp: bindE_def dest: transpD)
  qed
qed

lemma moves_catchE [intro]:
  assumes "transp R" and "moves R m" and "\<And>e. moves R (h e)"
  shows "moves R (catchE m h)"
proof (rule movesI)
  fix s
  obtain r s1 where m: "m s = (r, s1)" by (cases "m s")
  with assms(2) have "R s s1" by (rule movesD)
  show "R s (snd (catchE m h s))"
  proof (cases r)
    case (Inl e)
    have "R s1 (snd (h e s1))" using assms(3) by (simp add: moves_def)
    with m Inl \<open>R s s1\<close> assms(1) show ?thesis by (auto simp: catchE_def dest: transpD)
  next
    case (Inr x)
    with m \<open>R s s1\<close> show ?thesis by (simp add: catchE_def)
  qed
qed

lemma moves_if [intro]: "moves R a \<Longrightarrow> moves R b \<Longrightarrow> moves R (if c then a else b)"
  by simp

lemma moves_case_option [intro]:
  "moves R a \<Longrightarrow> (\<And>x. moves R (b x)) \<Longrightarrow> moves R (case v of None \<Rightarrow> a | Some x \<Rightarrow> b x)"
  by (cases v) simp_all

lemma moves_mapE [intro]:
  "reflp R \<Longrightarrow> transp R \<Longrightarrow> (\<And>x. moves R (f x)) \<Longrightarrow> moves R (mapE f xs)"
  by (induction xs) auto

lemma moves_mono: "moves R m \<Longrightarrow> (\<And>s t. R s t \<Longrightarrow> Q s t) \<Longrightarrow> moves Q m"
  by (simp add: moves_def)

subsection \<open>Lists\<close>

lemma find_map_option: "find P (map f xs) = map_option f (find (\<lambda>x. P (f x)) xs)"
  by (induction xs) auto

end
