(* ===== verification/JsValue.thy ===== *)
theory JsValue
  imports Prelude
begin

text \<open>
  The JavaScript values the seed routine handles. The fixture \<open>data/data.json\<close>, the
  sections built from it and the entities the platform returns are all JSON values:
  \<open>json\<close> has one constructor per JSON type, an object is the list of its own
  enumerable properties in JavaScript's enumeration order, and a property that is
  absent (\<open>undefined\<close>) is \<open>None\<close> where a field is read. Numbers are the integers the
  fixture holds. The theory also models the builtins the code calls on strings:
  \<open>String.prototype.split\<close> with a one-character separator, \<open>Array.prototype.join\<close>,
  \<open>String.prototype.includes\<close>, the regular-expression replacement
  \<open>fileName.replace(/\..*$/, '')\<close> of \<open>checkFileExistsBeforeUpload\<close>, truthiness,
  object spread \<open>{...v}\<close>, property assignment and \<open>delete\<close>. Strings are byte
  strings (UTF-8), which is what the file names of the fixture are.
\<close>

datatype json =
    JNull
  | JBool bool
  | JNum int
  | JStr string
  | JArr "json list"
  | JObj "(string \<times> json) list"

subsection \<open>Truthiness and property access\<close>

fun truthy :: "json \<Rightarrow> bool" where
  "truthy JNull = False"
| "truthy (JBool b) = b"
| "truthy (JNum n) = (n \<noteq> 0)"
| "truthy (JStr s) = (s \<noteq> [])"
| "truthy (JArr xs) = True"
| "truthy (JObj fs) = True"

text \<open>A property read that may be \<open>undefined\<close>.\<close>

fun truthy_opt :: "json option \<Rightarrow> bool" where
  "truthy_opt None = False"
| "truthy_opt (Some v) = truthy v"

text \<open>
  \<open>v.k\<close> on a value that is not \<open>null\<close>: an object's own property, \<open>undefined\<close> on
  the other values for the keys the code reads (none of them is \<open>length\<close>).
\<close>

fun get_field :: "json \<Rightarrow> string \<Rightarrow> json option" where
  "get_field (JObj fs) k = map_of fs k"
| "get_field _ k = None"

text \<open>\<open>o.k = v\<close>: an existing property keeps its place, a new one is appended.\<close>

fun obj_set :: "(string \<times> json) list \<Rightarrow> string \<Rightarrow> json \<Rightarrow> (string \<times> json) list" where
  "obj_set [] k v = [(k, v)]"
| "obj_set ((k', v') # fs) k v = (if k' = k then (k, v) # fs else (k', v') # obj_set fs k v)"

text \<open>\<open>delete o.k\<close>.\<close>

definition obj_del :: "(string \<times> json) list \<Rightarrow> string \<Rightarrow> (string \<times> json) list" where
  "obj_del fs k = filter (\<lambda>p. fst p \<noteq> k) fs"

fun js_is_array :: "json option \<Rightarrow> bool" where
  "js_is_array (Some (JArr xs)) = True"
| "js_is_array _ = False"

subsection \<open>Decimal rendering of indices and numbers\<close>

definition digit_char :: "nat \<Rightarrow> char" where
  "digit_char d = ''0123456789'' ! d"

fun show_nat :: "nat \<Rightarrow> string" where
  "show_nat n = (if n < 10 then [digit_char n] else show_nat (n div 10) @ [digit_char (n mod 10)])"

declare show_nat.simps [simp del]

definition show_int :: "int \<Rightarrow> string" where
  "show_int i = (if i < 0 then CHR ''-'' # show_nat (nat (- i)) else show_nat (nat i))"

text \<open>
  Object spread \<open>{...v}\<close>: an object's own properties; an array's or a string's
  elements under their decimal indices; nothing for \<open>null\<close>, booleans and numbers.
\<close>

fun js_spread :: "json \<Rightarrow> (string \<times> json) list" where
  "js_spread (JObj fs) = fs"
| "js_spread (JArr xs) = zip (map show_nat [0..<length xs]) xs"
| "js_spread (JStr s) = zip (map show_nat [0..<length s]) (map (\<lambda>c. JStr [c]) s)"
| "js_spread _ = []"

subsection \<open>String builtins\<close>

text \<open>\<open>s.split(c)\<close> for a one-character separator \<open>c\<close>.\<close>

fun split_on :: "char \<Rightarrow> string \<Rightarrow> string list" where
  "split_on c [] = [[]]"
| "split_on c (x # xs) =
     (let r = split_on c xs in if x = c then [] # r else (x # hd r) # tl r)"

text \<open>\<open>parts.join(sep)\<close>.\<close>

fun join_with :: "string \<Rightarrow> string list \<Rightarrow> string" where
  "join_with sep [] = []"
| "join_with sep [w] = w"
| "join_with sep (w # ws) = w @ sep @ join_with sep ws"

text \<open>\<open>String(v)\<close>, as a template literal renders a value (\<open>None\<close> is \<open>undefined\<close>).\<close>

fun js_to_string :: "json \<Rightarrow> string" where
  "js_to_string JNull = ''null''"
| "js_to_string (JBool b) = (if b then ''true'' else ''false'')"
| "js_to_string (JNum n) = show_int n"
| "js_to_string (JStr s) = s"
| "js_to_string (JArr xs) =
     join_with '','' (map (\<lambda>x. if x = JNull then [] else js_to_string x) xs)"
| "js_to_string (JObj fs) = ''[object Object]''"

fun js_to_string_opt :: "json option \<Rightarrow> string" where
  "js_to_string_opt None = ''undefined''"
| "js_to_string_opt (Some v) = js_to_string v"

text \<open>\<open>s.includes(t)\<close>, by scanning for a position where \<open>t\<close> is a prefix.\<close>

fun js_includes :: "string \<Rightarrow> string \<Rightarrow> bool" where
  "js_includes [] t = (t = [])"
| "js_includes (c # s) t = (prefix t (c # s) \<or> js_includes s t)"

text \<open>
  \<open>fileName.replace(/\..*$/, '')\<close>: the leftmost match of a literal dot followed by
  characters other than line terminators up to the end of the string is deleted. The
  line terminators \<open>.\<close> refuses are \<open>\n\<close> and \<open>\r\<close> (and U+2028/U+2029, which never
  occur in the file names modelled here).
\<close>

definition line_terminator :: "char \<Rightarrow> bool" where
  "line_terminator c \<longleftrightarrow> c = CHR 0x0A \<or> c = CHR 0x0D"

declare line_terminator_def [simp]

fun strip_ext :: "string \<Rightarrow> string" where
  "strip_ext [] = []"
| "strip_ext (c # s) =
     (if c = CHR ''.'' \<and> \<not> list_ex line_terminator s then [] else c # strip_ext s)"

text \<open>
  The reference semantics of \<open>s.replace(/\..*$/, '')\<close> from ECMA-262: the regular
  expression is tried at each start position from the left; at position \<open>i\<close> it matches
  when \<open>s ! i\<close> is a dot and the rest of the string has no line terminator (\<open>.*\<close>
  cannot cross one and \<open>$\<close> needs the end of the input); the first match is replaced by
  the empty string.
\<close>

definition regex_ext_match :: "string \<Rightarrow> nat option" where
  "regex_ext_match s =
     find (\<lambda>i. s ! i = CHR ''.'' \<and> \<not> list_ex line_terminator (drop (Suc i) s)) [0..<length s]"

definition replace_ext_ref :: "string \<Rightarrow> string" where
  "replace_ext_ref s = (case regex_ext_match s of None \<Rightarrow> s | Some i \<Rightarrow> take i s)"

text \<open>ASCII lower case, as \<open>String.prototype.toLowerCase\<close> acts on the extensions.\<close>

definition lower_char :: "char \<Rightarrow> char" where
  "lower_char c =
     (case map_of (zip ''ABCDEFGHIJKLMNOPQRSTUVWXYZ'' ''abcdefghijklmnopqrstuvwxyz'') c of
        Some d \<Rightarrow> d
      | None \<Rightarrow> c)"

definition lower :: "string \<Rightarrow> string" where
  "lower s = map lower_char s"

subsection \<open>Well-formed values\<close>

text \<open>A value parsed from JSON text: every object has distinct keys.\<close>

fun json_wf :: "json \<Rightarrow> bool" where
  "json_wf (JArr xs) = list_all json_wf xs"
| "json_wf (JObj fs) = (distinct (map fst fs) \<and> list_all (\<lambda>p. json_wf (snd p)) fs)"
| "json_wf _ = True"

subsection \<open>Object operations\<close>

text \<open>Assignment then lookup: the insert/lookup round trip of property assignment.\<close>

lemma map_of_obj_set [simp]: "map_of (obj_set fs k v) = (map_of fs)(k \<mapsto> v)"
  by (induction fs) (auto simp: fun_eq_iff)

lemma keys_obj_set:
  "map fst (obj_set fs k v) = (if k \<in> fst ` set fs then map fst fs else map fst fs @ [k])"
  by (induction fs) (auto simp: rev_image_eqI)

lemma set_keys_obj_set [simp]: "set (map fst (obj_set fs k v)) = insert k (set (map fst fs))"
  by (auto simp: keys_obj_set)

lemma obj_set_existing_keys:
  "k \<in> fst ` set fs \<Longrightarrow> map fst (obj_set fs k v) = map fst fs"
  by (simp add: keys_obj_set)

lemma distinct_obj_set [simp]: "distinct (map fst (obj_set fs k v)) = distinct (map fst fs)"
  by (simp add: keys_obj_set)

lemma map_of_obj_del [simp]: "map_of (obj_del fs k) = (map_of fs)(k := None)"
  by (induction fs) (auto simp: obj_del_def fun_eq_iff)

lemma distinct_obj_del: "distinct (map fst fs) \<Longrightarrow> distinct (map fst (obj_del fs k))"
  by (simp add: obj_del_def distinct_map_filter)

lemma wf_obj_set:
  "list_all (\<lambda>p. json_wf (snd p)) fs \<Longrightarrow> json_wf v \<Longrightarrow>
   list_all (\<lambda>p. json_wf (snd p)) (obj_set fs k v)"
  by (induction fs) auto

lemma json_wf_JObj_obj_set [simp]:
  "json_wf (JObj fs) \<Longrightarrow> json_wf v \<Longrightarrow> json_wf (JObj (obj_set fs k v))"
  by (simp add: wf_obj_set)

lemma json_wf_JObj_obj_del [simp]:
  "json_wf (JObj fs) \<Longrightarrow> json_wf (JObj (obj_del fs k))"
  by (auto simp: distinct_obj_del) (simp add: obj_del_def list_all_iff)

lemma truthy_opt_Some_iff: "truthy_opt v \<longleftrightarrow> (\<exists>x. v = Some x \<and> truthy x)"
  by (cases v) auto

lemma js_is_array_iff: "js_is_array v \<longleftrightarrow> (\<exists>xs. v = Some (JArr xs))"
  by (cases v rule: js_is_array.cases) auto

subsection \<open>Split and join\<close>

lemma split_on_not_Nil [simp]: "split_on c s \<noteq> []"
  by (induction s) (auto simp: Let_def)

lemma split_on_Cons_hd_tl:
  "split_on c (x # xs) =
     (if x = c then [] # split_on c xs else (x # hd (split_on c xs)) # tl (split_on c xs))"
  by (simp add: Let_def)

lemma join_with_Cons_Cons:
  "join_with sep (w # ws) = (if ws = [] then w else w @ sep @ join_with sep ws)"
  by (cases ws) auto

text \<open>\<open>s.split(c).join(c)\<close> gives \<open>s\<close> back.\<close>

lemma join_split_on: "join_with [c] (split_on c s) = s"
proof (induction s)
  case Nil
  then show ?case by simp
next
  case (Cons x xs)
  obtain w ws where r: "split_on c xs = w # ws"
    by (cases "split_on c xs") auto
  show ?case
  proof (cases "x = c")
    case True
    with r Cons.IH show ?thesis by simp
  next
    case False
    with r Cons.IH show ?thesis by (cases ws) simp_all
  qed
qed

text \<open>No piece of a split contains the separator.\<close>

lemma split_on_pieces: "w \<in> set (split_on c s) \<Longrightarrow> c \<notin> set w"
proof (induction s arbitrary: w)
  case Nil
  then show ?case by simp
next
  case (Cons x xs)
  obtain u us where r: "split_on c xs = u # us"
    by (cases "split_on c xs") auto
  have u: "c \<notin> set u" using Cons.IH r by simp
  have us: "\<forall>w' \<in> set us. c \<notin> set w'" using Cons.IH r by simp
  show ?case
  proof (cases "x = c")
    case True
    with Cons.prems have "w = [] \<or> w \<in> set (split_on c xs)" by simp
    with Cons.IH show ?thesis by auto
  next
    case False
    with Cons.prems r have "w = x # u \<or> w \<in> set us" by simp
    with u us False show ?thesis by auto
  qed
qed

lemma split_on_no_sep: "c \<notin> set s \<Longrightarrow> split_on c s = [s]"
  by (induction s) (auto simp: Let_def)

lemma split_on_append_sep: "c \<notin> set a \<Longrightarrow> split_on c (a @ c # b) = a # split_on c b"
  by (induction a) (auto simp: Let_def)

lemma length_split_on_ge2: "c \<in> set s \<Longrightarrow> 2 \<le> length (split_on c s)"
proof (induction s)
  case Nil
  then show ?case by simp
next
  case (Cons x xs)
  show ?case
  proof (cases "x = c")
    case True
    then show ?thesis
      by (simp add: Let_def Suc_le_eq)
  next
    case False
    with Cons have "2 \<le> length (split_on c xs)" by simp
    with False show ?thesis by (simp add: Let_def)
  qed
qed

subsection \<open>\<open>includes\<close> against its specification\<close>

text \<open>The scanning search is exactly the substring relation \<open>sublist\<close> of the library.\<close>

lemma js_includes_sublist: "js_includes s t \<longleftrightarrow> sublist t s"
proof (induction s)
  case Nil
  then show ?case by simp
next
  case (Cons c s)
  then show ?case by (simp add: sublist_Cons_right)
qed

subsection \<open>The extension-stripping replacement\<close>

lemma strip_ext_prefix: "prefix (strip_ext s) s"
  by (induction s) auto

text \<open>
  On a name without line terminators the replacement keeps exactly the characters
  before the first dot: the first dot, not the last, starts the deleted suffix.
\<close>

lemma strip_ext_takeWhile:
  "\<not> list_ex line_terminator s \<Longrightarrow> strip_ext s = takeWhile (\<lambda>c. c \<noteq> CHR ''.'') s"
  by (induction s) auto

lemma show_nat_digits: "set (show_nat n) \<subseteq> set ''0123456789''"
proof (induction n rule: show_nat.induct)
  case (1 n)
  have d: "\<And>d. d < 10 \<Longrightarrow> digit_char d \<in> set ''0123456789''"
    unfolding digit_char_def by (rule nth_mem) simp
  show ?case
  proof (cases "n < 10")
    case True
    then show ?thesis using d by (subst show_nat.simps) simp
  next
    case False
    with "1.IH" d show ?thesis by (subst show_nat.simps) auto
  qed
qed

lemma show_nat_not_key: "CHR ''_'' \<in> set k \<Longrightarrow> show_nat n \<noteq> k"
  using show_nat_digits [of n] by auto

lemma strip_ext_no_dot: "CHR ''.'' \<notin> set s \<Longrightarrow> strip_ext s = s"
  by (induction s) auto

lemma regex_ext_match_Cons:
  "regex_ext_match (c # s) =
     (if c = CHR ''.'' \<and> \<not> list_ex line_terminator s then Some 0
      else map_option Suc (regex_ext_match s))"
proof -
  have "[0..<length (c # s)] = 0 # map Suc [0..<length s]"
    by (simp add: map_Suc_upt upt_conv_Cons del: upt_Suc)
  then show ?thesis
    by (simp add: regex_ext_match_def find_map_option del: upt_Suc line_terminator_def)
qed

text \<open>
  The recursive \<open>strip_ext\<close> is the string replacement it models: for every string it
  gives what \<open>replace(/\..*$/, '')\<close> gives by the regular-expression semantics.
\<close>

lemma strip_ext_regex: "strip_ext s = replace_ext_ref s"
proof (induction s)
  case Nil
  then show ?case by (simp add: replace_ext_ref_def regex_ext_match_def)
next
  case (Cons c s)
  then show ?case
    by (cases "regex_ext_match s")
       (simp_all add: replace_ext_ref_def regex_ext_match_Cons del: line_terminator_def)
qed

end
