(* ===== verification/Platform.thy ===== *)
theory Platform
  imports JsValue
begin

text \<open>
  The content platform (Strapi) the seed code calls, as the state the code threads
  through its \<open>await\<close>s. The platform itself is not code of this repository: this theory
  states the contract the seed code relies on, one definition per entry point it uses
  (\<open>strapi.query('plugin::upload.file').findOne\<close>, the upload service,
  \<open>strapi.query('plugin::users-permissions.role').findOne\<close> and \<open>...permission.create\<close>,
  \<open>strapi.documents(uid).create\<close> and \<open>findOne\<close>, the plugin store's \<open>get\<close> and \<open>set\<close>),
  together with the local file system that \<open>fs.existsSync\<close> and \<open>fs.statSync\<close> read and
  the console the code logs to. Which writes the platform rejects is part of the state
  (\<open>upload_rejects\<close>, \<open>permission_rejects\<close>, \<open>create_rejects\<close>), so that the error
  paths of the uploads, the permission grants and the document creates are branches of
  the model that a theorem can reach. The reads (the two \<open>findOne\<close> queries and the
  plugin store's \<open>get\<close>) and the plugin store's \<open>set\<close> are modelled as calls that always
  succeed: a failure of the database behind them is not a branch of the model. For the
  store calls of the run-once guard this matters, since they run outside the \<open>try\<close> of
  \<open>seedPelagicApp\<close>: in the program a store failure there makes the hook reject.
\<close>

subsection \<open>Errors, entities, log lines\<close>

text \<open>The exceptions the seed code can see, by where they are raised.\<close>

datatype error =
    InvalidFilePath json  \<comment> \<open>\<open>parseFilePath\<close>: \<open>Invalid file path: ...\<close>\<close>
  | FileNotFound string  \<comment> \<open>\<open>getFileData\<close>: \<open>File not found: <fullPath>\<close>\<close>
  | UploadFailed string  \<comment> \<open>the upload service rejected the file at this path\<close>
  | DocumentCreateFailed string string  \<comment> \<open>\<open>documents(uid).create\<close>: uid and message\<close>
  | PermissionCreateFailed string  \<comment> \<open>\<open>permission.create\<close> rejected this action\<close>
  | TypeError string  \<comment> \<open>a property read on \<open>null\<close> or \<open>undefined\<close>\<close>

text \<open>A media-library file entity (\<open>plugin::upload.file\<close>).\<close>

record asset =
  asset_id :: nat
  asset_name :: string
  asset_alt :: string
  asset_caption :: string
  asset_file :: string
  asset_mime :: string
  asset_size :: nat

text \<open>A users-permissions role.\<close>

record role =
  role_id :: nat
  role_type :: string

text \<open>What \<open>getFileData\<close> hands to the upload service.\<close>

record file_data =
  fd_path :: string
  fd_name :: string
  fd_size :: nat
  fd_mime :: string

text \<open>
  A console line: \<open>console.log(text)\<close>, \<open>console.warn(text)\<close>, \<open>console.error(text)\<close>,
  \<open>console.error(error)\<close> and \<open>console.error(text, error)\<close>. The emoji the code prefixes
  to its messages are left out of the texts.
\<close>

datatype log = Info string | Warn string | Err string | ErrObj error | ErrWith string error

text \<open>\<open>error.message\<close> of each exception.\<close>

fun error_message :: "error \<Rightarrow> string" where
  "error_message (InvalidFilePath v) = ''Invalid file path: '' @ js_to_string v"
| "error_message (FileNotFound p) = ''File not found: '' @ p"
| "error_message (UploadFailed p) = ''Upload failed: '' @ p"
| "error_message (DocumentCreateFailed uid msg) = msg"
| "error_message (PermissionCreateFailed act) = ''Permission creation failed: '' @ act"
| "error_message (TypeError msg) = msg"

text \<open>A plugin-store key: environment, type, name, key.\<close>

type_synonym store_key = "string \<times> string \<times> string \<times> string"

record world =
  environment :: string
  plugin_store :: "store_key \<Rightarrow> json option"
  roles :: "role list"
  permissions :: "(string \<times> nat) multiset"
  media :: "asset list"
  next_asset_id :: nat
  documents :: "(string \<times> string \<times> json) list"
  next_doc_id :: nat
  local_files :: "string \<Rightarrow> nat option"
  upload_rejects :: "string \<Rightarrow> bool"
  permission_rejects :: "string \<Rightarrow> bool"
  create_rejects :: "string \<Rightarrow> string option"
  console :: "log list"

type_synonym 'a op = "(error, world, 'a) exc"

subsection \<open>Entry points of the platform\<close>

definition log_line :: "log \<Rightarrow> unit op" where
  "log_line l = modifyE (\<lambda>w. w\<lparr>console := console w @ [l]\<rparr>)"

text \<open>\<open>findOne({where: {name}})\<close> on the media library: the first file with that name.\<close>

definition find_file_by_name :: "string \<Rightarrow> asset option op" where
  "find_file_by_name n = getsE (\<lambda>w. find (\<lambda>a. asset_name a = n) (media w))"

text \<open>
  The upload service: a new entity with a fresh id carrying the given name, alternative
  text and caption, returned in a one-element array; or the service's rejection.
\<close>

definition upload_service :: "file_data \<Rightarrow> string \<Rightarrow> string \<Rightarrow> string \<Rightarrow> asset list op" where
  "upload_service fd alt cap nm = (\<lambda>w.
     if upload_rejects w (fd_path fd) then (Inl (UploadFailed (fd_path fd)), w)
     else let a = \<lparr>asset_id = next_asset_id w, asset_name = nm, asset_alt = alt,
                   asset_caption = cap, asset_file = fd_name fd, asset_mime = fd_mime fd,
                   asset_size = fd_size fd\<rparr>
          in (Inr [a], w\<lparr>media := media w @ [a], next_asset_id := Suc (next_asset_id w)\<rparr>))"

definition find_role_by_type :: "string \<Rightarrow> role option op" where
  "find_role_by_type t = getsE (\<lambda>w. find (\<lambda>r. role_type r = t) (roles w))"

definition create_permission :: "string \<Rightarrow> nat \<Rightarrow> unit op" where
  "create_permission act rid = (\<lambda>w.
     if permission_rejects w act then (Inl (PermissionCreateFailed act), w)
     else (Inr (), w\<lparr>permissions := add_mset (act, rid) (permissions w)\<rparr>))"

definition create_document :: "string \<Rightarrow> json \<Rightarrow> unit op" where
  "create_document uid d = (\<lambda>w.
     case create_rejects w uid of
       Some msg \<Rightarrow> (Inl (DocumentCreateFailed uid msg), w)
     | None \<Rightarrow> (Inr (), w\<lparr>documents := documents w @ [(uid, show_nat (next_doc_id w), d)],
                         next_doc_id := Suc (next_doc_id w)\<rparr>))"

definition find_document :: "string \<Rightarrow> string \<Rightarrow> json option op" where
  "find_document uid did = getsE (\<lambda>w.
     map_option (\<lambda>x. snd (snd x)) (find (\<lambda>x. fst x = uid \<and> fst (snd x) = did) (documents w)))"

definition store_get :: "store_key \<Rightarrow> json option op" where
  "store_get k = getsE (\<lambda>w. plugin_store w k)"

definition store_set :: "store_key \<Rightarrow> json \<Rightarrow> unit op" where
  "store_set k v = modifyE (\<lambda>w. w\<lparr>plugin_store := (plugin_store w)(k \<mapsto> v)\<rparr>)"

definition liftE :: "error + 'a \<Rightarrow> 'a op" where
  "liftE r = (\<lambda>w. (r, w))"

text \<open>The entity as the code passes it on: the JSON object the query or upload returned.\<close>

definition asset_json :: "asset \<Rightarrow> json" where
  "asset_json a = JObj [(''id'', JNum (int (asset_id a))), (''name'', JStr (asset_name a)),
     (''alternativeText'', JStr (asset_alt a)), (''caption'', JStr (asset_caption a)),
     (''url'', JStr (''/uploads/'' @ asset_file a)), (''mime'', JStr (asset_mime a)),
     (''size'', JNum (int (asset_size a)))]"

text \<open>
  A database right after its first start: no content, no media, no grants, the two
  roles the users-permissions plugin creates, an empty plugin store, nothing rejected.
  Concrete witnesses start from it.
\<close>

definition fresh_world :: world where
  "fresh_world =
     \<lparr>environment = ''development'', plugin_store = (\<lambda>_. None),
      roles = [\<lparr>role_id = 1, role_type = ''authenticated''\<rparr>, \<lparr>role_id = 2, role_type = ''public''\<rparr>],
      permissions = {#}, media = [], next_asset_id = 1, documents = [], next_doc_id = 1,
      local_files = (\<lambda>_. None), upload_rejects = (\<lambda>_. False),
      permission_rejects = (\<lambda>_. False), create_rejects = (\<lambda>_. None), console = []\<rparr>"

subsection \<open>Evaluation rules\<close>

lemma log_line_apply [store_simps]:
  "log_line l w = (Inr (), w\<lparr>console := console w @ [l]\<rparr>)"
  by (simp add: log_line_def modifyE_def)

lemma find_file_by_name_apply [store_simps]:
  "find_file_by_name n w = (Inr (find (\<lambda>a. asset_name a = n) (media w)), w)"
  by (simp add: find_file_by_name_def getsE_def)

lemma find_role_by_type_apply [store_simps]:
  "find_role_by_type t w = (Inr (find (\<lambda>r. role_type r = t) (roles w)), w)"
  by (simp add: find_role_by_type_def getsE_def)

lemma store_get_apply [store_simps]: "store_get k w = (Inr (plugin_store w k), w)"
  by (simp add: store_get_def getsE_def)

lemma store_set_apply [store_simps]:
  "store_set k v w = (Inr (), w\<lparr>plugin_store := (plugin_store w)(k \<mapsto> v)\<rparr>)"
  by (simp add: store_set_def modifyE_def)

lemma liftE_apply [store_simps]: "liftE r w = (r, w)"
  by (simp add: liftE_def)

lemma find_document_apply [store_simps]:
  "find_document uid did w = (Inr (map_option (\<lambda>x. snd (snd x))
     (find (\<lambda>x. fst x = uid \<and> fst (snd x) = did) (documents w))), w)"
  by (simp add: find_document_def getsE_def)

lemmas platform_defs [store_simps] = upload_service_def create_permission_def create_document_def

lemma json_wf_asset_json [simp]: "json_wf (asset_json a)"
  by (simp add: asset_json_def)

lemma truthy_asset_json [simp]: "truthy (asset_json a)"
  by (simp add: asset_json_def)

subsection \<open>Frame rules\<close>

text \<open>
  The relations between a state and a later one that the seed operations keep: the
  configuration of the platform (environment, roles, local files, what it rejects) and
  the plugin store are untouched, the media library and the documents only grow, grants
  are only added. The narrower relations say which of these a component may change.
\<close>

definition seed_step :: "world \<Rightarrow> world \<Rightarrow> bool" where
  "seed_step w w' \<longleftrightarrow>
     environment w' = environment w \<and> roles w' = roles w \<and> local_files w' = local_files w \<and>
     upload_rejects w' = upload_rejects w \<and> permission_rejects w' = permission_rejects w \<and>
     create_rejects w' = create_rejects w \<and> plugin_store w' = plugin_store w \<and>
     prefix (media w) (media w') \<and> prefix (documents w) (documents w') \<and>
     permissions w \<subseteq># permissions w'"

definition media_step :: "world \<Rightarrow> world \<Rightarrow> bool" where
  "media_step w w' \<longleftrightarrow> seed_step w w' \<and> permissions w' = permissions w \<and>
     documents w' = documents w \<and> next_doc_id w' = next_doc_id w"

definition import_step :: "world \<Rightarrow> world \<Rightarrow> bool" where
  "import_step w w' \<longleftrightarrow> seed_step w w' \<and> permissions w' = permissions w"

definition perm_step :: "world \<Rightarrow> world \<Rightarrow> bool" where
  "perm_step w w' \<longleftrightarrow> seed_step w w' \<and> media w' = media w \<and> documents w' = documents w \<and>
     next_asset_id w' = next_asset_id w \<and> next_doc_id w' = next_doc_id w"

lemma seed_step_refl [simp]: "seed_step w w"
  by (simp add: seed_step_def)

lemma seed_step_trans: "seed_step u v \<Longrightarrow> seed_step v w \<Longrightarrow> seed_step u w"
  by (auto simp: seed_step_def intro: prefix_order.trans subset_mset.order_trans)

lemma reflp_seed_step [simp]: "reflp seed_step" and transp_seed_step [simp]: "transp seed_step"
  by (auto intro: reflpI transpI seed_step_trans)

lemma reflp_media_step [simp]: "reflp media_step" and transp_media_step [simp]: "transp media_step"
  by (auto intro!: reflpI transpI simp: media_step_def intro: seed_step_trans)

lemma reflp_import_step [simp]: "reflp import_step" and transp_import_step [simp]: "transp import_step"
  by (auto intro!: reflpI transpI simp: import_step_def intro: seed_step_trans)

lemma reflp_perm_step [simp]: "reflp perm_step" and transp_perm_step [simp]: "transp perm_step"
  by (auto intro!: reflpI transpI simp: perm_step_def intro: seed_step_trans)

lemma media_step_import_step: "media_step w w' \<Longrightarrow> import_step w w'"
  by (simp add: media_step_def import_step_def)

lemma import_step_seed_step: "import_step w w' \<Longrightarrow> seed_step w w'"
  by (simp add: import_step_def)

lemma perm_step_seed_step: "perm_step w w' \<Longrightarrow> seed_step w w'"
  by (simp add: perm_step_def)

lemma moves_log_line [intro]: "moves media_step (log_line l)"
  by (rule movesI) (simp add: log_line_apply media_step_def seed_step_def)

lemma moves_log_line_perm [intro]: "moves perm_step (log_line l)"
  by (rule movesI) (simp add: log_line_apply perm_step_def seed_step_def)

lemma moves_upload_service [intro]: "moves media_step (upload_service fd alt cap nm)"
  by (rule movesI) (simp add: upload_service_def media_step_def seed_step_def Let_def)

lemma moves_create_permission [intro]: "moves perm_step (create_permission act rid)"
  by (rule movesI) (simp add: create_permission_def perm_step_def seed_step_def)

lemma moves_create_document [intro]: "moves import_step (create_document uid d)"
  by (rule movesI) (simp add: create_document_def import_step_def seed_step_def split: option.splits)

lemma moves_liftE [intro]: "reflp R \<Longrightarrow> moves R (liftE r)"
  by (simp add: moves_def liftE_def reflpD)

lemma moves_find_file_by_name [intro]: "reflp R \<Longrightarrow> moves R (find_file_by_name n)"
  by (simp add: find_file_by_name_def moves_getsE)

lemma moves_find_role_by_type [intro]: "reflp R \<Longrightarrow> moves R (find_role_by_type n)"
  by (simp add: find_role_by_type_def moves_getsE)

subsection \<open>Frame rules\<close>

text \<open>
  Which parts of the platform each entry point leaves alone. The seed operations are
  compositions of these, so their own frame facts follow from \<open>keeps\<close> rules.
\<close>

lemma keeps_log_line [intro]: "(\<And>w l. P (w\<lparr>console := l\<rparr>) = P w) \<Longrightarrow> keeps P (log_line l)"
  by (rule keepsI) (simp add: log_line_apply)

lemma keeps_find_file_by_name [intro, simp]: "keeps P (find_file_by_name n)"
  by (simp add: find_file_by_name_def)

lemma keeps_find_role_by_type [intro, simp]: "keeps P (find_role_by_type n)"
  by (simp add: find_role_by_type_def)

lemma keeps_store_get [intro, simp]: "keeps P (store_get k)"
  by (simp add: store_get_def)

lemma keeps_liftE [intro, simp]: "keeps P (liftE r)"
  by (simp add: keeps_def liftE_def)

end
