(* ===== verification/FilePath.thy ===== *)
theory FilePath
  imports Platform
begin

text \<open>
  The file resolver of \<open>src/src/bootstrap.js\<close>: \<open>parseFilePath\<close> (lines 93--105) splits
  a fixture path such as \<open>hero/hero-01.jpg\<close> at its last \<open>/\<close>; \<open>getFileData\<close> (lines
  107--125) builds \<open>data/uploads/<dir>/<file>\<close> with \<open>path.join\<close>, refuses a path that does
  not exist, reads the size with \<open>getFileSizeInBytes\<close> (lines 85--88) and derives the MIME
  type from the last extension with \<open>mime.lookup\<close>. The two library functions are
  modelled from their documented behaviour: \<open>path_join\<close> is Node's POSIX
  \<open>path.join\<close> (skip empty arguments, join with \<open>/\<close>, normalise \<open>.\<close>, \<open>..\<close> and
  repeated separators, keep a trailing \<open>/\<close>); \<open>mime_lookup\<close> is the \<open>mime-types\<close>
  lookup on the extensions of the media the seed handles.
\<close>

subsection \<open>Node's \<open>path.join\<close>\<close>

text \<open>
  \<open>normalizeString\<close>: segments pushed on a stack (head = last segment); \<open>''\<close> and \<open>.\<close>
  are dropped, \<open>..\<close> pops a segment that is not itself \<open>..\<close>, and above the start of a
  relative path it is kept.
\<close>

fun norm_segs :: "bool \<Rightarrow> string list \<Rightarrow> string list \<Rightarrow> string list" where
  "norm_segs allow_up acc [] = acc"
| "norm_segs allow_up acc (s # ss) =
     (if s = [] \<or> s = ''.'' then norm_segs allow_up acc ss
      else if s = ''..'' then
        (case acc of
           t # acc' \<Rightarrow> if t \<noteq> ''..'' then norm_segs allow_up acc' ss
                      else norm_segs allow_up (if allow_up then ''..'' # acc else acc) ss
         | [] \<Rightarrow> norm_segs allow_up (if allow_up then [''..''] else []) ss)
      else norm_segs allow_up (s # acc) ss)"

definition path_normalize :: "string \<Rightarrow> string" where
  "path_normalize p =
     (if p = [] then ''.'' else
      let is_abs = (hd p = CHR ''/''); trail = (last p = CHR ''/'');
          body = join_with ''/'' (rev (norm_segs (\<not> is_abs) [] (split_on CHR ''/'' p)))
      in if body = [] then (if is_abs then ''/'' else if trail then ''./'' else ''.'')
         else (if is_abs then ''/'' else []) @ body @ (if trail then ''/'' else []))"

definition path_join :: "string list \<Rightarrow> string" where
  "path_join args =
     (let joined = join_with ''/'' (filter (\<lambda>a. a \<noteq> []) args)
      in if joined = [] then ''.'' else path_normalize joined)"

subsection \<open>The \<open>mime-types\<close> lookup\<close>

text \<open>
  The rows of \<open>mime-db\<close>'s extension table for the image, video, audio and document
  types a media library holds; an extension outside the table looks up as \<open>false\<close>,
  as for an extension \<open>mime-db\<close> does not know.
\<close>

definition mime_types_table :: "(string \<times> string) list" where
  "mime_types_table =
     [(''jpg'', ''image/jpeg''), (''jpeg'', ''image/jpeg''), (''jpe'', ''image/jpeg''),
      (''png'', ''image/png''), (''gif'', ''image/gif''), (''webp'', ''image/webp''),
      (''svg'', ''image/svg+xml''), (''svgz'', ''image/svg+xml''), (''avif'', ''image/avif''),
      (''bmp'', ''image/bmp''), (''tif'', ''image/tiff''), (''tiff'', ''image/tiff''),
      (''mp4'', ''video/mp4''), (''mp4v'', ''video/mp4''), (''mpg4'', ''video/mp4''),
      (''webm'', ''video/webm''), (''mov'', ''video/quicktime''), (''qt'', ''video/quicktime''),
      (''mpeg'', ''video/mpeg''), (''mpg'', ''video/mpeg''), (''ogv'', ''video/ogg''),
      (''avi'', ''video/x-msvideo''), (''mp3'', ''audio/mpeg''), (''oga'', ''audio/ogg''),
      (''ogg'', ''audio/ogg''), (''pdf'', ''application/pdf''), (''json'', ''application/json''),
      (''zip'', ''application/zip''), (''txt'', ''text/plain''), (''csv'', ''text/csv''),
      (''html'', ''text/html''), (''css'', ''text/css'')]"

text \<open>
  \<open>lookup(path)\<close>: \<open>false\<close> (here \<open>None\<close>) for the empty string; otherwise the
  lower-cased extension of \<open>'x.' + path\<close> looked up in the table.
\<close>

definition mime_lookup :: "string \<Rightarrow> string option" where
  "mime_lookup e =
     (if e = [] then None else map_of mime_types_table (lower (last (split_on CHR ''.'' e))))"

subsection \<open>The resolver\<close>

text \<open>\<open>parseFilePath\<close>: a non-string throws; one piece is a file at the asset root.\<close>

definition parseFilePath :: "json \<Rightarrow> error + (string \<times> string)" where
  "parseFilePath v =
     (case v of
        JStr p \<Rightarrow>
          (let parts = split_on CHR ''/'' p in
           if length parts = 1 then Inr ([], hd parts)
           else Inr (join_with ''/'' (butlast parts), last parts))
      | _ \<Rightarrow> Inl (InvalidFilePath v))"

text \<open>\<open>getFileSizeInBytes\<close>: \<open>fs.statSync(filePath).size\<close> (\<open>statSync\<close> throws on a missing path).\<close>

definition getFileSizeInBytes :: "string \<Rightarrow> nat op" where
  "getFileSizeInBytes p = (\<lambda>w.
     case local_files w p of Some n \<Rightarrow> (Inr n, w) | None \<Rightarrow> (Inl (FileNotFound p), w))"

text \<open>A fixture path with no empty, \<open>.\<close> or \<open>..\<close> segment.\<close>

definition plain_path :: "string \<Rightarrow> bool" where
  "plain_path p \<longleftrightarrow> list_all (\<lambda>s. s \<noteq> [] \<and> s \<noteq> ''.'' \<and> s \<noteq> ''..'') (split_on CHR ''/'' p)"

definition getFileData :: "json \<Rightarrow> file_data op" where
  "getFileData v =
     bindE (liftE (parseFilePath v)) (\<lambda>(dir, file).
       let fullPath = path_join [''data'', ''uploads'', dir, file] in
       bindE (getsE (\<lambda>w. local_files w fullPath \<noteq> None)) (\<lambda>exists.
         if \<not> exists then throwE (FileNotFound fullPath)
         else bindE (getFileSizeInBytes fullPath) (\<lambda>size.
           let ext = last (split_on CHR ''.'' file);
               mimeType = (case mime_lookup ext of None \<Rightarrow> [] | Some m \<Rightarrow> m)
           in returnE \<lparr>fd_path = fullPath, fd_name = file, fd_size = size, fd_mime = mimeType\<rparr>)))"

subsection \<open>Splitting a fixture path\<close>

lemma join_with_snoc: "xs \<noteq> [] \<Longrightarrow> join_with sep (xs @ [y]) = join_with sep xs @ sep @ y"
  by (induction sep xs rule: join_with.induct) auto

lemma parseFilePath_no_sep: "CHR ''/'' \<notin> set p \<Longrightarrow> parseFilePath (JStr p) = Inr ([], p)"
  by (simp add: parseFilePath_def split_on_no_sep)

lemma parseFilePath_parts:
  assumes "CHR ''/'' \<in> set p"
  shows "parseFilePath (JStr p) =
           Inr (join_with ''/'' (butlast (split_on CHR ''/'' p)), last (split_on CHR ''/'' p))"
  using length_split_on_ge2 [OF assms] by (simp add: parseFilePath_def Let_def)

lemma parseFilePath_sep:
  assumes sep: "CHR ''/'' \<in> set p"
  shows "join_with ''/'' (butlast (split_on CHR ''/'' p)) @ ''/'' @ last (split_on CHR ''/'' p) = p"
proof -
  let ?parts = "split_on CHR ''/'' p"
  have "2 \<le> length ?parts" using sep by (rule length_split_on_ge2)
  then have ne: "butlast ?parts \<noteq> []" by (cases ?parts rule: rev_cases) auto
  have "p = join_with ''/'' ?parts" by (simp add: join_split_on)
  also have "\<dots> = join_with ''/'' (butlast ?parts @ [last ?parts])" by simp
  also have "\<dots> = join_with ''/'' (butlast ?parts) @ ''/'' @ last ?parts"
    using ne by (rule join_with_snoc)
  finally show ?thesis by simp
qed

lemma last_split_on_no_sep: "c \<notin> set (last (split_on c s))"
  using split_on_pieces [of "last (split_on c s)" c s] by simp

lemma join_with_not_Nil: "x \<in> set xs \<Longrightarrow> x \<noteq> [] \<Longrightarrow> join_with sep xs \<noteq> []"
  by (induction sep xs rule: join_with.induct) auto

subsection \<open>Resolving under the asset root\<close>

lemma norm_segs_plain:
  "list_all (\<lambda>s. s \<noteq> [] \<and> s \<noteq> ''.'' \<and> s \<noteq> ''..'') segs \<Longrightarrow>
   norm_segs b acc segs = rev segs @ acc"
  by (induction segs arbitrary: acc) auto

lemma plain_path_pieces:
  "plain_path p \<Longrightarrow> s \<in> set (split_on CHR ''/'' p) \<Longrightarrow> s \<noteq> []"
  by (auto simp: plain_path_def list_all_iff)

lemma plain_path_last:
  assumes "plain_path p"
  shows "p \<noteq> [] \<and> last p \<noteq> CHR ''/''"
proof -
  let ?f = "last (split_on CHR ''/'' p)"
  have f_ne: "?f \<noteq> []" using plain_path_pieces [OF assms, of ?f] by simp
  have f_no: "CHR ''/'' \<notin> set ?f" by (rule last_split_on_no_sep)
  show ?thesis
  proof (cases "CHR ''/'' \<in> set p")
    case True
    then have "p = join_with ''/'' (butlast (split_on CHR ''/'' p)) @ ''/'' @ ?f"
      using parseFilePath_sep [OF True] by simp
    with f_ne f_no show ?thesis by (metis Nil_is_append_conv last_appendR last_in_set)
  next
    case False
    then have "?f = p" by (simp add: split_on_no_sep)
    with f_ne f_no show ?thesis by (metis last_in_set)
  qed
qed

text \<open>
  The directory and file a plain path splits into, joined under the asset root, give
  \<open>data/uploads/<p>\<close>: what \<open>path.join\<close> is handed before it normalises.
\<close>

lemma joined_asset_path:
  assumes "plain_path p" and "parseFilePath (JStr p) = Inr (d, f)"
  shows "join_with ''/'' (filter (\<lambda>a. a \<noteq> []) [''data'', ''uploads'', d, f]) = ''data/uploads/'' @ p"
proof (cases "CHR ''/'' \<in> set p")
  case True
  let ?parts = "split_on CHR ''/'' p"
  from assms(2) True have d: "d = join_with ''/'' (butlast ?parts)" and f: "f = last ?parts"
    by (simp_all add: parseFilePath_parts)
  have "2 \<le> length ?parts" using True by (rule length_split_on_ge2)
  then have "butlast ?parts \<noteq> []" by (cases ?parts rule: rev_cases) auto
  then obtain s where "s \<in> set (butlast ?parts)" by (cases "butlast ?parts") auto
  then have "s \<in> set ?parts" by (meson in_set_butlastD)
  with assms(1) have "s \<noteq> []" by (rule plain_path_pieces)
  with \<open>s \<in> set (butlast ?parts)\<close> have d_ne: "d \<noteq> []"
    unfolding d by (rule join_with_not_Nil)
  have f_ne: "f \<noteq> []" unfolding f by (rule plain_path_pieces [OF assms(1)]) simp
  have "d @ ''/'' @ f = p" unfolding d f using True by (rule parseFilePath_sep)
  with d_ne f_ne show ?thesis by auto
next
  case False
  with assms(2) have "d = []" and "f = p" by (simp_all add: parseFilePath_no_sep)
  moreover have "p \<noteq> []" using plain_path_last [OF assms(1)] by simp
  ultimately show ?thesis by simp
qed

lemma path_normalize_plain_under_root:
  assumes "plain_path p"
  shows "path_normalize (''data/uploads/'' @ p) = ''data/uploads/'' @ p"
proof -
  let ?segs = "split_on CHR ''/'' p"
  have split: "split_on CHR ''/'' (''data/uploads/'' @ p) = ''data'' # ''uploads'' # ?segs"
    using split_on_append_sep [of "CHR ''/''" "''data''" "''uploads/'' @ p"]
      split_on_append_sep [of "CHR ''/''" "''uploads''" p] by simp
  have plain: "list_all (\<lambda>s. s \<noteq> [] \<and> s \<noteq> ''.'' \<and> s \<noteq> ''..'') ?segs"
    using assms by (simp add: plain_path_def)
  then have "norm_segs True [] (''data'' # ''uploads'' # ?segs) = rev ?segs @ [''uploads'', ''data'']"
    by (simp add: norm_segs_plain)
  then have body: "join_with ''/'' (rev (norm_segs True [] (''data'' # ''uploads'' # ?segs))) =
                   ''data/uploads/'' @ p"
    by (simp add: join_with_Cons_Cons join_split_on)
  have "last (''data/uploads/'' @ p) \<noteq> CHR ''/''" using plain_path_last [OF assms] by simp
  with split body show ?thesis by (simp add: path_normalize_def Let_def)
qed

lemma asset_path_plain:
  assumes "plain_path p" and "parseFilePath (JStr p) = Inr (d, f)"
  shows "path_join [''data'', ''uploads'', d, f] = ''data/uploads/'' @ p"
  using joined_asset_path [OF assms] path_normalize_plain_under_root [OF assms(1)]
  by (simp add: path_join_def Let_def)

subsection \<open>The outcomes of \<open>getFileData\<close>\<close>

lemma getFileData_Inr:
  assumes "parseFilePath v = Inr (d, f)"
    and "local_files w (path_join [''data'', ''uploads'', d, f]) = Some n"
  shows "getFileData v w =
           (Inr \<lparr>fd_path = path_join [''data'', ''uploads'', d, f], fd_name = f, fd_size = n,
                 fd_mime = (case mime_lookup (last (split_on CHR ''.'' f)) of None \<Rightarrow> [] | Some m \<Rightarrow> m)\<rparr>, w)"
  using assms by (simp add: getFileData_def getFileSizeInBytes_def exc_simps store_simps Let_def)

lemma getFileData_missing:
  assumes "parseFilePath v = Inr (d, f)"
    and "local_files w (path_join [''data'', ''uploads'', d, f]) = None"
  shows "getFileData v w = (Inl (FileNotFound (path_join [''data'', ''uploads'', d, f])), w)"
  using assms by (simp add: getFileData_def exc_simps store_simps Let_def)

lemma getFileData_invalid:
  "parseFilePath v = Inl e \<Longrightarrow> getFileData v w = (Inl e, w)"
  by (simp add: getFileData_def exc_simps store_simps)

text \<open>\<open>getFileData\<close> only reads: the platform state is the same after it, whatever the outcome.\<close>

lemma getFileData_state [simp]: "snd (getFileData v w) = w"
proof (cases "parseFilePath v")
  case (Inl e)
  then show ?thesis by (simp add: getFileData_invalid)
next
  case (Inr df)
  then obtain d f where df: "parseFilePath v = Inr (d, f)" by (cases df) auto
  show ?thesis
    by (cases "local_files w (path_join [''data'', ''uploads'', d, f]) = None")
       (auto simp: getFileData_missing getFileData_Inr [OF df] df)
qed

lemma getFileData_same_world: "getFileData v w = (r, w') \<Longrightarrow> w' = w"
  using getFileData_state [of v w] by simp

lemma moves_getFileData [intro]: "reflp R \<Longrightarrow> moves R (getFileData v)"
  by (rule movesI) (simp add: reflpD)

lemma keeps_getFileData [intro, simp]: "keeps P (getFileData v)"
  by (simp add: keeps_def)

subsection \<open>Properties of the resolver\<close>

text \<open>(C16)
  \<open>parseFilePath\<close> throws on every non-string; a string is split at its last \<open>/\<close>: the
  file part has no \<open>/\<close>, and directory, \<open>/\<close> and file give the string back; a string
  without \<open>/\<close> is a file at the asset root with the empty directory.
\<close>

theorem parseFilePath_split:
  "(case v of
      JStr p \<Rightarrow> (\<exists>d f. parseFilePath v = Inr (d, f) \<and> CHR ''/'' \<notin> set f \<and>
                   (if CHR ''/'' \<in> set p then d @ ''/'' @ f = p else d = [] \<and> f = p))
    | _ \<Rightarrow> parseFilePath v = Inl (InvalidFilePath v))"
proof (cases v)
  case (JStr p)
  show ?thesis
  proof (cases "CHR ''/'' \<in> set p")
    case True
    then show ?thesis
      using JStr parseFilePath_parts [OF True] parseFilePath_sep [OF True] last_split_on_no_sep
      by simp
  next
    case False
    then show ?thesis using JStr parseFilePath_no_sep [OF False] by simp
  qed
qed (simp_all add: parseFilePath_def)

text \<open>(C15)
  For a fixture path without empty, \<open>.\<close> or \<open>..\<close> segments, \<open>getFileData\<close> looks at
  exactly \<open>data/uploads/<path>\<close>: it fails with \<open>FileNotFound\<close> of that path when the file
  is missing, and otherwise describes that file with its name, size and the MIME type of
  its last extension; the platform state is not changed.
\<close>

theorem getFileData_plain:
  assumes "plain_path p"
  shows "getFileData (JStr p) w =
           (case local_files w (''data/uploads/'' @ p) of
              None \<Rightarrow> Inl (FileNotFound (''data/uploads/'' @ p))
            | Some n \<Rightarrow> Inr \<lparr>fd_path = ''data/uploads/'' @ p, fd_name = last (split_on CHR ''/'' p),
                             fd_size = n,
                             fd_mime = (case mime_lookup (last (split_on CHR ''.'' (last (split_on CHR ''/'' p))))
                                        of None \<Rightarrow> [] | Some m \<Rightarrow> m)\<rparr>, w)"
proof -
  obtain d f where df: "parseFilePath (JStr p) = Inr (d, f)"
    by (cases "CHR ''/'' \<in> set p") (auto simp: parseFilePath_parts parseFilePath_no_sep)
  have f: "f = last (split_on CHR ''/'' p)"
    using df by (cases "CHR ''/'' \<in> set p") (auto simp: parseFilePath_parts parseFilePath_no_sep split_on_no_sep)
  have j: "path_join [''data'', ''uploads'', d, f] = ''data/uploads/'' @ p"
    by (rule asset_path_plain [OF assms df])
  show ?thesis
    by (cases "local_files w (''data/uploads/'' @ p)")
       (simp_all add: getFileData_missing [OF df, unfolded j] getFileData_Inr [OF df, unfolded j] f)
qed

theorem getFileData_plain_witness:
  "getFileData (JStr ''hero/hero-01.jpg'') (fresh_world\<lparr>local_files := [''data/uploads/hero/hero-01.jpg'' \<mapsto> 2048]\<rparr>) =
     (Inr \<lparr>fd_path = ''data/uploads/hero/hero-01.jpg'', fd_name = ''hero-01.jpg'', fd_size = 2048,
           fd_mime = ''image/jpeg''\<rparr>,
      fresh_world\<lparr>local_files := [''data/uploads/hero/hero-01.jpg'' \<mapsto> 2048]\<rparr>)"
proof -
  have "plain_path ''hero/hero-01.jpg''" by (simp add: plain_path_def)
  from getFileData_plain [OF this, of "fresh_world\<lparr>local_files := [''data/uploads/hero/hero-01.jpg'' \<mapsto> 2048]\<rparr>"]
  show ?thesis by (simp add: mime_lookup_def mime_types_table_def lower_def lower_char_def)
qed

subsection \<open>Paths that climb out of the root\<close>

lemma split_on_up2:
  "split_on CHR ''/'' (''../../'' @ q) = ''..'' # ''..'' # split_on CHR ''/'' q"
  using split_on_append_sep [of "CHR ''/''" "''..''" "''../'' @ q"]
    split_on_append_sep [of "CHR ''/''" "''..''" q] by simp

lemma parseFilePath_up2:
  "\<exists>d. parseFilePath (JStr (''../../'' @ q)) = Inr (d, last (split_on CHR ''/'' q)) \<and> d \<noteq> [] \<and>
       d @ ''/'' @ last (split_on CHR ''/'' q) = ''../../'' @ q"
proof -
  let ?p = "''../../'' @ q"
  have sep: "CHR ''/'' \<in> set ?p" by simp
  let ?d = "join_with ''/'' (butlast (split_on CHR ''/'' ?p))"
  have l: "last (split_on CHR ''/'' ?p) = last (split_on CHR ''/'' q)" by (simp add: split_on_up2)
  have "''..'' \<in> set (butlast (split_on CHR ''/'' ?p))" by (simp add: split_on_up2)
  then have "?d \<noteq> []" by (rule join_with_not_Nil) simp
  moreover have "?d @ ''/'' @ last (split_on CHR ''/'' q) = ?p"
    using parseFilePath_sep [OF sep] by (simp only: l)
  moreover have "parseFilePath (JStr ?p) = Inr (?d, last (split_on CHR ''/'' q))"
    using parseFilePath_parts [OF sep] by (simp only: l)
  ultimately show ?thesis by blast
qed

lemma path_normalize_up2:
  assumes "plain_path q"
  shows "path_normalize (''data/uploads/'' @ ''../../'' @ q) = q"
proof -
  let ?segs = "split_on CHR ''/'' q"
  have split: "split_on CHR ''/'' (''data/uploads/'' @ ''../../'' @ q) =
               ''data'' # ''uploads'' # ''..'' # ''..'' # ?segs"
    using split_on_append_sep [of "CHR ''/''" "''data''" "''uploads/'' @ ''../../'' @ q"]
      split_on_append_sep [of "CHR ''/''" "''uploads''" "''../../'' @ q"] split_on_up2 [of q]
    by simp
  have plain: "list_all (\<lambda>s. s \<noteq> [] \<and> s \<noteq> ''.'' \<and> s \<noteq> ''..'') ?segs"
    using assms by (simp add: plain_path_def)
  then have "norm_segs True [] (''data'' # ''uploads'' # ''..'' # ''..'' # ?segs) = rev ?segs"
    by (simp add: norm_segs_plain)
  then have body: "join_with ''/'' (rev (norm_segs True [] (''data'' # ''uploads'' # ''..'' # ''..'' # ?segs))) = q"
    by (simp add: join_split_on)
  have "q \<noteq> [] \<and> last q \<noteq> CHR ''/''" by (rule plain_path_last [OF assms])
  with split body show ?thesis by (simp add: path_normalize_def Let_def)
qed

lemma asset_path_up2:
  assumes "plain_path q" and "parseFilePath (JStr (''../../'' @ q)) = Inr (d, f)"
    and "d \<noteq> []" and "d @ ''/'' @ f = ''../../'' @ q"
  shows "path_join [''data'', ''uploads'', d, f] = q"
proof -
  have "f \<noteq> []" using assms(2) parseFilePath_up2 [of q] plain_path_pieces [OF assms(1)] by auto
  with assms(3) have "join_with ''/'' (filter (\<lambda>a. a \<noteq> []) [''data'', ''uploads'', d, f]) =
                      ''data/uploads/'' @ ''../../'' @ q"
    using assms(4) by simp
  then show ?thesis using path_normalize_up2 [OF assms(1)] by (simp add: path_join_def Let_def)
qed

text \<open>(C20)
  The resolver does not confine paths to the asset root: for every plain path \<open>q\<close>, the
  fixture path \<open>../../q\<close> makes \<open>getFileData\<close> read and describe the file \<open>q\<close> relative
  to the working directory, outside \<open>data/uploads\<close>, exactly as it would read an asset.
\<close>

theorem getFileData_escapes_root:
  assumes "plain_path q"
  shows "getFileData (JStr (''../../'' @ q)) w =
           (case local_files w q of
              None \<Rightarrow> Inl (FileNotFound q)
            | Some n \<Rightarrow> Inr \<lparr>fd_path = q, fd_name = last (split_on CHR ''/'' q), fd_size = n,
                             fd_mime = (case mime_lookup (last (split_on CHR ''.'' (last (split_on CHR ''/'' q))))
                                        of None \<Rightarrow> [] | Some m \<Rightarrow> m)\<rparr>, w)"
proof -
  obtain d where df: "parseFilePath (JStr (''../../'' @ q)) = Inr (d, last (split_on CHR ''/'' q))"
    and d: "d \<noteq> []" and dq: "d @ ''/'' @ last (split_on CHR ''/'' q) = ''../../'' @ q"
    using parseFilePath_up2 [of q] by blast
  have j: "path_join [''data'', ''uploads'', d, last (split_on CHR ''/'' q)] = q"
    by (rule asset_path_up2 [OF assms df d dq])
  show ?thesis
    using getFileData_missing [OF df, unfolded j] getFileData_Inr [OF df, unfolded j]
    by (cases "local_files w q") simp_all
qed

theorem getFileData_escapes_root_witness:
  "plain_path ''etc/passwd'' \<and>
   getFileData (JStr (''../../'' @ ''etc/passwd'')) (fresh_world\<lparr>local_files := [''etc/passwd'' \<mapsto> 900]\<rparr>) =
     (Inr \<lparr>fd_path = ''etc/passwd'', fd_name = ''passwd'', fd_size = 900, fd_mime = []\<rparr>,
      fresh_world\<lparr>local_files := [''etc/passwd'' \<mapsto> 900]\<rparr>)"
proof -
  have p: "plain_path ''etc/passwd''" by (simp add: plain_path_def)
  from getFileData_escapes_root [OF p, of "fresh_world\<lparr>local_files := [''etc/passwd'' \<mapsto> 900]\<rparr>"]
  show ?thesis using p by (simp add: mime_lookup_def mime_types_table_def lower_def lower_char_def)
qed

end
