(* ===== verification/MediaUploader.thy ===== *)
theory MediaUploader
  imports FilePath
begin

text \<open>
  The media uploader of \<open>src/src/bootstrap.js\<close>: \<open>uploadFile\<close> (lines 131--145) hands a
  file and its metadata to the upload service; \<open>checkFileExistsBeforeUpload\<close> (lines
  152--191) walks the given path or paths in order, skips falsy entries, derives the
  asset name by deleting everything from the first dot of the file name, reuses the
  media-library file of that name when there is one and otherwise resolves and uploads
  the file, logging and re-throwing a failure. Found files and uploaded files are
  collected in two arrays and returned found-first; a single file is returned bare.
  The loop is \<open>check_loop\<close>, with the two arrays as accumulators.
\<close>

definition uploadFile :: "file_data \<Rightarrow> string \<Rightarrow> asset list op" where
  "uploadFile file name = upload_service file (''Uploaded media file: '' @ name) name name"

text \<open>The \<open>try\<close>/\<open>catch\<close> of lines 176--184 for a file the library does not have yet.\<close>

definition upload_missing :: "json \<Rightarrow> string \<Rightarrow> string \<Rightarrow> asset op" where
  "upload_missing filePathString fileName fileNameNoExtension =
     catchE
       (bindE (getFileData filePathString) (\<lambda>fileData.
        bindE (uploadFile fileData fileNameNoExtension) (\<lambda>files.
        bindE (log_line (Info (''   Uploaded: '' @ fileName))) (\<lambda>_.
        returnE (hd files)))))
       (\<lambda>e. bindE (log_line (Err (''   Failed to upload '' @ js_to_string filePathString @ '': '' @
                                    error_message e)))
              (\<lambda>_. throwE e))"

fun check_loop :: "json list \<Rightarrow> asset list \<Rightarrow> asset list \<Rightarrow> (asset list \<times> asset list) op" where
  "check_loop [] existingFiles uploadedFiles = returnE (existingFiles, uploadedFiles)"
| "check_loop (filePathString # rest) existingFiles uploadedFiles =
     (if \<not> truthy filePathString then check_loop rest existingFiles uploadedFiles
      else bindE (liftE (parseFilePath filePathString)) (\<lambda>(_, fileName).
        let fileNameNoExtension = strip_ext fileName in
        bindE (find_file_by_name fileNameNoExtension) (\<lambda>fileWhereName.
          case fileWhereName of
            Some f \<Rightarrow>
              bindE (log_line (Info (''   File already exists: '' @ fileName))) (\<lambda>_.
                check_loop rest (existingFiles @ [f]) uploadedFiles)
          | None \<Rightarrow>
              bindE (upload_missing filePathString fileName fileNameNoExtension) (\<lambda>file.
                check_loop rest existingFiles (uploadedFiles @ [file])))))"

text \<open>\<open>Array.isArray(filePaths) ? filePaths : [filePaths]\<close>.\<close>

definition files_array :: "json \<Rightarrow> json list" where
  "files_array filePaths = (case filePaths of JArr xs \<Rightarrow> xs | v \<Rightarrow> [v])"

text \<open>\<open>allFiles.length === 1 ? allFiles[0] : allFiles\<close>.\<close>

definition single_or_array :: "asset list \<Rightarrow> json" where
  "single_or_array allFiles =
     (if length allFiles = 1 then asset_json (hd allFiles) else JArr (map asset_json allFiles))"

definition checkFileExistsBeforeUpload :: "json \<Rightarrow> json op" where
  "checkFileExistsBeforeUpload filePaths =
     (let filesArray = files_array filePaths in
      bindE (check_loop filesArray [] []) (\<lambda>(existingFiles, uploadedFiles).
        let allFiles = existingFiles @ uploadedFiles in
        returnE (single_or_array allFiles)))"

text \<open>
  The type of the values the uploader hands back: a file entity as the upload service
  serialises it (the seven fields of \<open>asset_json\<close>, with non-negative id and size and a
  URL under \<open>/uploads/\<close>), or an array of such entities that does not have exactly one
  element.
\<close>

definition is_file_json :: "json \<Rightarrow> bool" where
  "is_file_json j =
     (case j of
        JObj [(k1, JNum i), (k2, JStr n), (k3, JStr alt), (k4, JStr cap), (k5, JStr u), (k6, JStr m), (k7, JNum z)] \<Rightarrow>
          [k1, k2, k3, k4, k5, k6, k7] = [''id'', ''name'', ''alternativeText'', ''caption'', ''url'', ''mime'', ''size''] \<and>
          0 \<le> i \<and> 0 \<le> z \<and> prefix ''/uploads/'' u
      | _ \<Rightarrow> False)"

definition media_value :: "json \<Rightarrow> bool" where
  "media_value j =
     (is_file_json j \<or> (case j of JArr xs \<Rightarrow> length xs \<noteq> 1 \<and> list_all is_file_json xs | _ \<Rightarrow> False))"

subsection \<open>What a call asks for\<close>

text \<open>
  The asset name a path entry stands for, the names a list of entries asks for (falsy
  entries skipped), and the names an ideal run would have to upload: each name not in
  the library yet, once, in order of first request.
\<close>

definition asset_key :: "json \<Rightarrow> string" where
  "asset_key p = (case parseFilePath p of Inr (_, f) \<Rightarrow> strip_ext f | Inl _ \<Rightarrow> [])"

definition wanted :: "json list \<Rightarrow> string list" where
  "wanted ps = map asset_key (filter truthy ps)"

fun new_names :: "string list \<Rightarrow> string list \<Rightarrow> string list" where
  "new_names known [] = []"
| "new_names known (n # ns) =
     (if n \<in> set known then new_names known ns else n # new_names (known @ [n]) ns)"

text \<open>Every entry is a string or skipped: the only entries \<open>parseFilePath\<close> accepts.\<close>

definition path_entries :: "json list \<Rightarrow> bool" where
  "path_entries ps \<longleftrightarrow> list_all (\<lambda>p. \<not> truthy p \<or> (\<exists>s. p = JStr s)) ps"

subsection \<open>The spec of new names\<close>

lemma set_new_names: "set (new_names known ns) = set ns - set known"
  by (induction known ns rule: new_names.induct) auto

lemma new_names_distinct: "distinct known \<Longrightarrow> distinct (known @ new_names known ns)"
  by (induction known ns rule: new_names.induct) (auto simp: set_new_names)

subsection \<open>One step of the loop\<close>

lemma wanted_Cons:
  "wanted (p # ps) = (if truthy p then asset_key p # wanted ps else wanted ps)"
  by (simp add: wanted_def)

lemma upload_missing_Inr:
  assumes "upload_missing p f nm w = (Inr a, w')"
  shows "asset_name a = nm \<and> media w' = media w @ [a]"
  using assms
  by (auto simp: upload_missing_def uploadFile_def exc_simps store_simps Let_def
           split: prod.splits sum.splits if_splits dest: getFileData_same_world)

lemma upload_missing_Inl:
  assumes "upload_missing p f nm w = (Inl e, w')"
  shows "media w' = media w"
  using assms
  by (auto simp: upload_missing_def uploadFile_def exc_simps store_simps Let_def
           split: prod.splits sum.splits if_splits dest: getFileData_same_world)

lemma check_loop_skip [simp]:
  "\<not> truthy p \<Longrightarrow> check_loop (p # ps) ex up = check_loop ps ex up"
  by simp

lemma check_loop_found:
  assumes "truthy p" and "parseFilePath p = Inr (d, f)"
    and "find (\<lambda>a. asset_name a = strip_ext f) (media w) = Some a"
  shows "check_loop (p # ps) ex up w =
           check_loop ps (ex @ [a]) up (w\<lparr>console := console w @ [Info (''   File already exists: '' @ f)]\<rparr>)"
  using assms by (simp add: exc_simps store_simps Let_def)

lemma check_loop_missing:
  assumes "truthy p" and "parseFilePath p = Inr (d, f)"
    and "find (\<lambda>a. asset_name a = strip_ext f) (media w) = None"
  shows "check_loop (p # ps) ex up w =
           bindE (upload_missing p f (strip_ext f)) (\<lambda>file. check_loop ps ex (up @ [file])) w"
  using assms by (simp add: exc_simps store_simps Let_def)

lemma check_loop_invalid:
  assumes "truthy p" and "parseFilePath p = Inl e"
  shows "check_loop (p # ps) ex up w = (Inl e, w)"
  using assms by (simp add: exc_simps store_simps Let_def)

lemma find_Some_mem: "find P xs = Some x \<Longrightarrow> x \<in> set xs \<and> P x"
  by (auto simp: find_Some_iff)

lemma find_name_Some: "find (\<lambda>a. asset_name a = n) as = Some a \<Longrightarrow> n \<in> set (map asset_name as)"
  using find_Some_mem [of "\<lambda>a. asset_name a = n" as a] by force

lemma find_name_None: "find (\<lambda>a. asset_name a = n) as = None \<Longrightarrow> n \<notin> set (map asset_name as)"
  by (auto simp: find_None_iff)

lemma parseFilePath_JStr: "\<exists>d f. parseFilePath (JStr p) = Inr (d, f)"
  by (simp add: parseFilePath_def Let_def)

lemma check_loop_found_world:
  assumes "truthy p" and "parseFilePath p = Inr (d, f)"
    and "find (\<lambda>a. asset_name a = strip_ext f) (media w) = Some a"
  obtains w1 where "media w1 = media w"
    and "check_loop (p # ps) ex up w = check_loop ps (ex @ [a]) up w1"
  by (rule that [OF _ check_loop_found [OF assms]]) simp

subsection \<open>The loop: the library only grows, by the names not in it yet\<close>

text \<open>
  Whatever the outcome, the library after the loop is the library before it followed by
  the uploaded files, whose names are a prefix of the names an ideal run uploads: an
  error stops the loop, and the files uploaded before it stay.
\<close>

lemma check_loop_media:
  "check_loop ps ex up w = (r, w') \<Longrightarrow>
   \<exists>upn. media w' = media w @ upn \<and>
         prefix (map asset_name upn) (new_names (map asset_name (media w)) (wanted ps))"
proof (induction ps arbitrary: ex up w)
  case Nil
  then show ?case by (simp add: exc_simps)
next
  case (Cons p ps)
  show ?case
  proof (cases "truthy p")
    case False
    with Cons show ?thesis by (simp add: wanted_Cons)
  next
    case True
    show ?thesis
    proof (cases "parseFilePath p")
      case (Inl e)
      have "(Inl e, w) = (r, w')"
        using Cons.prems by (simp only: check_loop_invalid [OF True Inl])
      then show ?thesis by (intro exI [of _ "[]"]) simp
    next
      case (Inr df)
      then obtain d f where df: "parseFilePath p = Inr (d, f)" by (cases df) auto
      have key: "wanted (p # ps) = strip_ext f # wanted ps"
        using True df by (simp add: wanted_Cons asset_key_def)
      show ?thesis
      proof (cases "find (\<lambda>a. asset_name a = strip_ext f) (media w)")
        case (Some a)
        obtain w1 where m1: "media w1 = media w"
          and eq: "check_loop (p # ps) ex up w = check_loop ps (ex @ [a]) up w1"
          by (rule check_loop_found_world [OF True df Some])
        have run: "check_loop ps (ex @ [a]) up w1 = (r, w')"
          using Cons.prems by (simp only: eq)
        from Cons.IH [OF run] obtain upn where
          "media w' = media w1 @ upn"
          "prefix (map asset_name upn) (new_names (map asset_name (media w1)) (wanted ps))"
          by blast
        moreover have "strip_ext f \<in> set (map asset_name (media w))"
          using Some by (rule find_name_Some)
        ultimately show ?thesis using m1 key by auto
      next
        case None
        have miss: "strip_ext f \<notin> set (map asset_name (media w))"
          using None by (rule find_name_None)
        obtain r1 w1 where up: "upload_missing p f (strip_ext f) w = (r1, w1)"
          by (cases "upload_missing p f (strip_ext f) w")
        show ?thesis
        proof (cases r1)
          case (Inl e)
          have "(Inl e, w1) = (r, w')"
            using Cons.prems up Inl
            by (simp only: check_loop_missing [OF True df None] bindE_cong_err)
          with up Inl show ?thesis using upload_missing_Inl by fastforce
        next
          case (Inr a)
          with up have a: "asset_name a = strip_ext f" "media w1 = media w @ [a]"
            using upload_missing_Inr by blast+
          have run: "check_loop ps ex (up @ [a]) w1 = (r, w')"
            using Cons.prems up Inr
            by (simp only: check_loop_missing [OF True df None] bindE_cong_state)
          from Cons.IH [OF run] obtain upn where
            "media w' = media w1 @ upn"
            "prefix (map asset_name upn) (new_names (map asset_name (media w1)) (wanted ps))"
            by blast
          with a miss key show ?thesis
            by (intro exI [of _ "a # upn"]) simp
        qed
      qed
    qed
  qed
qed

text \<open>The loop never puts a second file of the same name into the library.\<close>

lemma check_loop_distinct_names:
  assumes "distinct (map asset_name (media w))" and "check_loop ps ex up w = (r, w')"
  shows "distinct (map asset_name (media w'))"
proof -
  from check_loop_media [OF assms(2)] obtain upn where
    m: "media w' = media w @ upn" and
    p: "prefix (map asset_name upn) (new_names (map asset_name (media w)) (wanted ps))"
    by blast
  from p obtain zs where "new_names (map asset_name (media w)) (wanted ps) = map asset_name upn @ zs"
    by (auto elim: prefixE)
  with new_names_distinct [OF assms(1), of "wanted ps"]
  have "distinct (map asset_name (media w) @ map asset_name upn)" by auto
  with m show ?thesis by simp
qed

text \<open>
  On success: the found files and the uploaded files together answer every requested
  name once per request, the uploads are exactly the names that were missing, each
  once, and every returned file is in the library.
\<close>

lemma check_loop_Inr:
  "check_loop ps ex up w = (Inr (ex', up'), w') \<Longrightarrow>
   \<exists>exn upn. ex' = ex @ exn \<and> up' = up @ upn \<and> media w' = media w @ upn \<and>
     map asset_name upn = new_names (map asset_name (media w)) (wanted ps) \<and>
     mset (map asset_name (exn @ upn)) = mset (wanted ps) \<and> set exn \<subseteq> set (media w')"
proof (induction ps arbitrary: ex up w)
  case Nil
  then show ?case by (simp add: exc_simps wanted_def)
next
  case (Cons p ps)
  show ?case
  proof (cases "truthy p")
    case False
    with Cons show ?thesis by (simp add: wanted_Cons)
  next
    case True
    show ?thesis
    proof (cases "parseFilePath p")
      case (Inl e)
      have "(Inl e, w) = (Inr (ex', up'), w')"
        using Cons.prems by (simp only: check_loop_invalid [OF True Inl])
      then show ?thesis by simp
    next
      case (Inr df)
      then obtain d f where df: "parseFilePath p = Inr (d, f)" by (cases df) auto
      have key: "wanted (p # ps) = strip_ext f # wanted ps"
        using True df by (simp add: wanted_Cons asset_key_def)
      show ?thesis
      proof (cases "find (\<lambda>a. asset_name a = strip_ext f) (media w)")
        case (Some a)
        obtain w1 where m1: "media w1 = media w"
          and eq: "check_loop (p # ps) ex up w = check_loop ps (ex @ [a]) up w1"
          by (rule check_loop_found_world [OF True df Some])
        have run: "check_loop ps (ex @ [a]) up w1 = (Inr (ex', up'), w')"
          using Cons.prems by (simp only: eq)
        from Cons.IH [OF run] obtain exn upn where ih:
          "ex' = (ex @ [a]) @ exn" "up' = up @ upn" "media w' = media w1 @ upn"
          "map asset_name upn = new_names (map asset_name (media w1)) (wanted ps)"
          "mset (map asset_name (exn @ upn)) = mset (wanted ps)" "set exn \<subseteq> set (media w')"
          by blast
        have a: "a \<in> set (media w)" "asset_name a = strip_ext f"
          using find_Some_mem [OF Some] by auto
        have "strip_ext f \<in> set (map asset_name (media w))"
          using Some by (rule find_name_Some)
        with ih a m1 key show ?thesis
          by (intro exI [of _ "a # exn"] exI [of _ upn]) auto
      next
        case None
        have miss: "strip_ext f \<notin> set (map asset_name (media w))"
          using None by (rule find_name_None)
        obtain r1 w1 where up: "upload_missing p f (strip_ext f) w = (r1, w1)"
          by (cases "upload_missing p f (strip_ext f) w")
        show ?thesis
        proof (cases r1)
          case (Inl e)
          have "(Inl e, w1) = (Inr (ex', up'), w')"
            using Cons.prems up Inl
            by (simp only: check_loop_missing [OF True df None] bindE_cong_err)
          then show ?thesis by simp
        next
          case (Inr a)
          with up have a: "asset_name a = strip_ext f" "media w1 = media w @ [a]"
            using upload_missing_Inr by blast+
          have run: "check_loop ps ex (up @ [a]) w1 = (Inr (ex', up'), w')"
            using Cons.prems up Inr
            by (simp only: check_loop_missing [OF True df None] bindE_cong_state)
          from Cons.IH [OF run] obtain exn upn where ih:
            "ex' = ex @ exn" "up' = (up @ [a]) @ upn" "media w' = media w1 @ upn"
            "map asset_name upn = new_names (map asset_name (media w1)) (wanted ps)"
            "mset (map asset_name (exn @ upn)) = mset (wanted ps)" "set exn \<subseteq> set (media w')"
            by blast
          with a miss key show ?thesis
            by (intro exI [of _ exn] exI [of _ "a # upn"]) auto
        qed
      qed
    qed
  qed
qed

subsection \<open>The uploader only touches the media library and the console\<close>

lemma moves_upload_missing [intro]: "moves media_step (upload_missing p f n)"
  unfolding upload_missing_def uploadFile_def
  by (intro moves_catchE moves_bindE moves_returnE moves_throwE moves_getFileData
        moves_upload_service moves_log_line reflp_media_step transp_media_step)

lemma moves_check_loop [intro]: "moves media_step (check_loop ps ex up)"
proof (induction ps arbitrary: ex up)
  case Nil
  then show ?case by (simp add: moves_returnE)
next
  case (Cons p ps)
  show ?case
    by (simp only: check_loop.simps)
       (intro moves_if moves_bindE moves_liftE moves_find_file_by_name moves_log_line
          moves_upload_missing Cons.IH reflp_media_step transp_media_step
        | simp only: prod.case_eq_if Let_def split: option.split
        | intro allI conjI impI)+
qed

lemma moves_checkFile [intro]: "moves media_step (checkFileExistsBeforeUpload v)"
  unfolding checkFileExistsBeforeUpload_def Let_def prod.case_eq_if
  by (intro moves_bindE moves_check_loop moves_returnE reflp_media_step transp_media_step)

subsection \<open>Properties of \<open>checkFileExistsBeforeUpload\<close>\<close>

lemma checkFile_run:
  "checkFileExistsBeforeUpload v w =
     (case check_loop (files_array v) [] [] w of
        (Inl e, w') \<Rightarrow> (Inl e, w')
      | (Inr (ex, up), w') \<Rightarrow> (Inr (single_or_array (ex @ up)), w'))"
  by (simp add: checkFileExistsBeforeUpload_def exc_simps split: prod.splits sum.splits)

lemma checkFile_media:
  "checkFileExistsBeforeUpload v w = (r, w') \<Longrightarrow>
   \<exists>upn. media w' = media w @ upn \<and>
         prefix (map asset_name upn) (new_names (map asset_name (media w)) (wanted (files_array v)))"
  by (auto simp: checkFile_run split: prod.splits sum.splits dest: check_loop_media)

lemma checkFile_distinct_names:
  "distinct (map asset_name (media w)) \<Longrightarrow> checkFileExistsBeforeUpload v w = (r, w') \<Longrightarrow>
   distinct (map asset_name (media w'))"
  by (auto simp: checkFile_run split: prod.splits sum.splits dest: check_loop_distinct_names)

text \<open>
  A call for one path whose asset is in the library, given as the path or as a
  one-element array of it, answers with that file.
\<close>

lemma checkFile_one_found:
  assumes "p \<noteq> []" and "find (\<lambda>a. asset_name a = asset_key (JStr p)) (media w) = Some a"
    and "files_array v = [JStr p]"
  shows "\<exists>w1. checkFileExistsBeforeUpload v w = (Inr (asset_json a), w1)"
proof -
  obtain d f where df: "parseFilePath (JStr p) = Inr (d, f)"
    using parseFilePath_JStr by blast
  have tr: "truthy (JStr p)" using assms(1) by simp
  have "find (\<lambda>a. asset_name a = strip_ext f) (media w) = Some a"
    using assms(2) df by (simp add: asset_key_def)
  then obtain w1 where eq: "check_loop [JStr p] [] [] w = check_loop [] ([] @ [a]) [] w1"
    by (rule check_loop_found_world [OF tr df, where ps = "[]" and ex = "[]" and up = "[]"])
  show ?thesis
    unfolding checkFile_run assms(3) eq by (simp add: exc_simps single_or_array_def)
qed

text \<open>(C2)
  A path whose asset name is already in the media library is answered with that library
  file: nothing is resolved or uploaded, so the library is unchanged, whatever the local
  files or the upload service would do.
\<close>

theorem checkFile_reuses_existing:
  assumes "p \<noteq> []" and "find (\<lambda>a. asset_name a = asset_key (JStr p)) (media w) = Some a"
  shows "fst (checkFileExistsBeforeUpload (JStr p) w) = Inr (asset_json a) \<and>
         media (snd (checkFileExistsBeforeUpload (JStr p) w)) = media w"
proof -
  obtain d f where df: "parseFilePath (JStr p) = Inr (d, f)"
    using parseFilePath_JStr by blast
  have tr: "truthy (JStr p)" using assms(1) by simp
  have "find (\<lambda>a. asset_name a = strip_ext f) (media w) = Some a"
    using assms(2) df by (simp add: asset_key_def)
  then obtain w1 where m1: "media w1 = media w"
    and eq: "check_loop [JStr p] [] [] w = check_loop [] ([] @ [a]) [] w1"
    by (rule check_loop_found_world [OF tr df, where ps = "[]" and ex = "[]" and up = "[]"])
  have fa: "files_array (JStr p) = [JStr p]" by (simp add: files_array_def)
  show ?thesis
    unfolding checkFile_run fa eq by (simp add: m1 exc_simps single_or_array_def)
qed

theorem checkFile_reuses_existing_witness:
  "fst (checkFileExistsBeforeUpload (JStr ''hero/hero-01.jpg'')
          (fresh_world\<lparr>media := [\<lparr>asset_id = 7, asset_name = ''hero-01'', asset_alt = [],
             asset_caption = [], asset_file = ''hero-01.jpg'', asset_mime = ''image/jpeg'',
             asset_size = 10\<rparr>], upload_rejects := (\<lambda>_. True)\<rparr>)) =
     Inr (asset_json \<lparr>asset_id = 7, asset_name = ''hero-01'', asset_alt = [],
             asset_caption = [], asset_file = ''hero-01.jpg'', asset_mime = ''image/jpeg'',
             asset_size = 10\<rparr>)"
  using checkFile_reuses_existing [where p = "''hero/hero-01.jpg''"
      and w = "fresh_world\<lparr>media := [\<lparr>asset_id = 7, asset_name = ''hero-01'', asset_alt = [],
             asset_caption = [], asset_file = ''hero-01.jpg'', asset_mime = ''image/jpeg'',
             asset_size = 10\<rparr>], upload_rejects := (\<lambda>_. True)\<rparr>"
      and a = "\<lparr>asset_id = 7, asset_name = ''hero-01'', asset_alt = [],
             asset_caption = [], asset_file = ''hero-01.jpg'', asset_mime = ''image/jpeg'',
             asset_size = 10\<rparr>"]
  by (simp add: asset_key_def parseFilePath_def line_terminator_def)

text \<open>(C1)
  A successful call uploads exactly the requested names that were not in the library,
  each once and in order of first request, appends them to the library, answers every
  request with a file of the requested name (found files and uploads together, one per
  request), and returns them as \<open>single_or_array\<close> of the found files followed by the
  uploaded ones.
\<close>

theorem checkFile_Inr:
  assumes "checkFileExistsBeforeUpload v w = (Inr r, w')"
  shows "\<exists>ex up. media w' = media w @ up \<and>
     map asset_name up = new_names (map asset_name (media w)) (wanted (files_array v)) \<and>
     mset (map asset_name (ex @ up)) = mset (wanted (files_array v)) \<and>
     set ex \<subseteq> set (media w') \<and> r = single_or_array (ex @ up)"
proof -
  obtain res w1 where run: "check_loop (files_array v) [] [] w = (res, w1)"
    by (cases "check_loop (files_array v) [] [] w")
  with assms obtain ex up where res: "res = Inr (ex, up)" and r: "r = single_or_array (ex @ up)"
    and w1: "w1 = w'"
    by (auto simp: checkFile_run split: sum.splits)
  from check_loop_Inr [of "files_array v" "[]" "[]" w ex up w'] run res w1
  show ?thesis using r by fastforce
qed

theorem checkFile_Inr_witness:
  "\<exists>r w'. checkFileExistsBeforeUpload (JArr [JStr ''hero/a.jpg'', JNull, JStr ''hero/a.png''])
            (fresh_world\<lparr>local_files := (\<lambda>p. if p = ''data/uploads/hero/a.jpg'' then Some 5 else None)\<rparr>)
          = (Inr r, w') \<and>
     (\<exists>ex up. media w' = up \<and> map asset_name up = [''a''] \<and>
        mset (map asset_name (ex @ up)) = mset [''a'', ''a''])"
proof -
  let ?v = "JArr [JStr ''hero/a.jpg'', JNull, JStr ''hero/a.png'']"
  let ?w = "fresh_world\<lparr>local_files := (\<lambda>p. if p = ''data/uploads/hero/a.jpg'' then Some 5 else None)\<rparr>"
  have "\<exists>r w'. checkFileExistsBeforeUpload ?v ?w = (Inr r, w')"
    by (simp add: checkFileExistsBeforeUpload_def files_array_def exc_simps store_simps
        parseFilePath_def getFileData_def getFileSizeInBytes_def path_join_def path_normalize_def
        upload_missing_def uploadFile_def fresh_world_def Let_def line_terminator_def)
  then obtain r w' where eq: "checkFileExistsBeforeUpload ?v ?w = (Inr r, w')" by blast
  have names: "wanted (files_array ?v) = [''a'', ''a'']"
    by (simp add: wanted_def files_array_def asset_key_def parseFilePath_def)
  have m0: "media ?w = []" by (simp add: fresh_world_def)
  from checkFile_Inr [OF eq] obtain ex up where
    "media w' = media ?w @ up"
    "map asset_name up = new_names (map asset_name (media ?w)) (wanted (files_array ?v))"
    "mset (map asset_name (ex @ up)) = mset (wanted (files_array ?v))"
    by blast
  with names m0 have "media w' = up \<and> map asset_name up = [''a''] \<and>
    mset (map asset_name (ex @ up)) = mset [''a'', ''a'']"
    by simp
  then have ex: "\<exists>ex up. media w' = up \<and> map asset_name up = [''a''] \<and>
    mset (map asset_name (ex @ up)) = mset [''a'', ''a'']"
    by (intro exI)
  show ?thesis by (rule exI [of _ r], rule exI [of _ w'], rule conjI [OF eq ex])
qed

subsection \<open>The type of the result\<close>

lemma is_file_json_asset [simp]: "is_file_json (asset_json a)"
  by (simp add: is_file_json_def asset_json_def)

lemma media_value_single_or_array: "media_value (single_or_array fs)"
  by (auto simp: media_value_def single_or_array_def list_all_iff)

text \<open>(C24)
  Whatever a successful \<open>checkFileExistsBeforeUpload\<close> is given (one path, an array
  with \<open>null\<close> entries, an empty array), its value is a file entity or an array of file
  entities, and never an array with exactly one element.
\<close>

theorem checkFile_result_type:
  assumes "fst (checkFileExistsBeforeUpload v w) = Inr r"
  shows "media_value r"
proof -
  obtain res w' where run: "check_loop (files_array v) [] [] w = (res, w')"
    by (cases "check_loop (files_array v) [] [] w")
  with assms obtain ex up where "r = single_or_array (ex @ up)"
    by (auto simp: checkFile_run split: sum.splits)
  then show ?thesis by (simp add: media_value_single_or_array)
qed

theorem checkFile_result_type_witness:
  "\<exists>r. fst (checkFileExistsBeforeUpload (JArr [JStr ''hero/a.jpg'', JNull, JStr ''hero/a.png''])
            (fresh_world\<lparr>local_files := (\<lambda>p. if p = ''data/uploads/hero/a.jpg'' then Some 5 else None)\<rparr>))
          = Inr r \<and> media_value r"
proof -
  let ?v = "JArr [JStr ''hero/a.jpg'', JNull, JStr ''hero/a.png'']"
  let ?w = "fresh_world\<lparr>local_files := (\<lambda>p. if p = ''data/uploads/hero/a.jpg'' then Some 5 else None)\<rparr>"
  have "\<exists>r w'. checkFileExistsBeforeUpload ?v ?w = (Inr r, w')"
    by (simp add: checkFileExistsBeforeUpload_def files_array_def exc_simps store_simps
        parseFilePath_def getFileData_def getFileSizeInBytes_def path_join_def path_normalize_def
        upload_missing_def uploadFile_def fresh_world_def Let_def line_terminator_def)
  then obtain r w' where "checkFileExistsBeforeUpload ?v ?w = (Inr r, w')" by blast
  then have eq: "fst (checkFileExistsBeforeUpload ?v ?w) = Inr r" by simp
  show ?thesis using eq checkFile_result_type [OF eq] by blast
qed

end
