(* ===== verification/Sections.thy ===== *)
theory Sections
  imports MediaUploader
begin

text \<open>
  The section processor and the home-page importer of \<open>src/src/bootstrap.js\<close>.
  \<open>processSection\<close> (lines 212--262) copies a section with object spread and dispatches
  on its \<open>__component\<close> tag: a hero section has its four image fields resolved through
  \<open>checkFileExistsBeforeUpload\<close> (the two support-image fields only when they are
  non-empty arrays), a Milan Design Week section its \<open>video\<close> and \<open>thumbnail\<close>, every
  other section is passed through. \<open>importHomePage\<close> (lines 268--326) copies the SEO
  block and resolves or deletes its share image (\<open>process_seo\<close>), processes the
  sections one after the other in order (\<open>process_sections\<close>), and creates the
  home-page document, tolerating a create error whose message says the entry already
  exists (\<open>create_home_page\<close>); any other failure is logged and re-thrown.
\<close>

subsection \<open>Processing one section\<close>

text \<open>\<open>if (section.k) sectionCopy.k = await checkFileExistsBeforeUpload(section.k)\<close>.\<close>

definition media_if_truthy :: "json \<Rightarrow> string \<Rightarrow> (string \<times> json) list \<Rightarrow> (string \<times> json) list op" where
  "media_if_truthy section k sectionCopy =
     (if truthy_opt (get_field section k)
      then bindE (checkFileExistsBeforeUpload (the (get_field section k))) (\<lambda>r.
             returnE (obj_set sectionCopy k r))
      else returnE sectionCopy)"

text \<open>\<open>if (section.k && Array.isArray(section.k) && section.k.length > 0) ...\<close>.\<close>

definition media_if_nonempty_array ::
  "json \<Rightarrow> string \<Rightarrow> (string \<times> json) list \<Rightarrow> (string \<times> json) list op" where
  "media_if_nonempty_array section k sectionCopy =
     (case get_field section k of
        Some (JArr xs) \<Rightarrow>
          if xs \<noteq> [] then bindE (checkFileExistsBeforeUpload (JArr xs)) (\<lambda>r.
                             returnE (obj_set sectionCopy k r))
          else returnE sectionCopy
      | _ \<Rightarrow> returnE sectionCopy)"

definition processSection :: "json \<Rightarrow> json op" where
  "processSection section =
     (if section = JNull then throwE (TypeError ''Cannot read properties of null (reading __component)'')
      else
      let sectionCopy = js_spread section; comp = get_field section ''__component'' in
      if comp = Some (JStr ''sections.hero'') then
        bindE (log_line (Info ''   Processing Hero section...'')) (\<lambda>_.
        bindE (media_if_truthy section ''desktopHeroImage'' sectionCopy) (\<lambda>c1.
        bindE (media_if_nonempty_array section ''desktopSupportImages'' c1) (\<lambda>c2.
        bindE (media_if_truthy section ''mobileHeroImage'' c2) (\<lambda>c3.
        bindE (media_if_nonempty_array section ''mobileSupportImages'' c3) (\<lambda>c4.
        returnE (JObj c4))))))
      else if comp = Some (JStr ''sections.milan-design-week'') then
        bindE (log_line (Info ''   Processing Milan Design Week section...'')) (\<lambda>_.
        bindE (media_if_truthy section ''video'' sectionCopy) (\<lambda>c1.
        bindE (media_if_truthy section ''thumbnail'' c1) (\<lambda>c2.
        returnE (JObj c2))))
      else if comp = Some (JStr ''sections.faqs'') then
        bindE (log_line (Info ''   Processing FAQs section...'')) (\<lambda>_. returnE (JObj sectionCopy))
      else
        bindE (log_line (Info (''   Processing '' @ js_to_string_opt comp @ '' section...''))) (\<lambda>_.
        returnE (JObj sectionCopy)))"

subsection \<open>Importing the home page\<close>

text \<open>Lines 273--284: the SEO block, with its share image resolved or deleted.\<close>

definition process_seo :: "json \<Rightarrow> json op" where
  "process_seo homePage =
     (if truthy_opt (get_field homePage ''seo'') then
        bindE (log_line (Info ''   Processing SEO...'')) (\<lambda>_.
        let seo = the (get_field homePage ''seo''); seoData = js_spread seo in
        if truthy_opt (get_field seo ''shareImage'')
        then bindE (checkFileExistsBeforeUpload (the (get_field seo ''shareImage''))) (\<lambda>r.
               returnE (JObj (obj_set seoData ''shareImage'' r)))
        else returnE (JObj (obj_del seoData ''shareImage'')))
      else returnE JNull)"

text \<open>
  \<open>homePage.sections\<close> as the \<open>for\<close> loop reads it through \<open>.length\<close> and indexing:
  \<open>null\<close> or \<open>undefined\<close> throws; an array or a string is iterated; any other value
  has no \<open>length\<close>, so the loop body never runs.
\<close>

definition section_items :: "json \<Rightarrow> json list option" where
  "section_items homePage =
     (case get_field homePage ''sections'' of
        None \<Rightarrow> None
      | Some JNull \<Rightarrow> None
      | Some (JArr xs) \<Rightarrow> Some xs
      | Some (JStr s) \<Rightarrow> Some (map (\<lambda>c. JStr [c]) s)
      | Some _ \<Rightarrow> Some [])"

text \<open>Lines 290--295: one section after the other, each result pushed in order.\<close>

fun process_sections :: "nat \<Rightarrow> nat \<Rightarrow> json list \<Rightarrow> json list op" where
  "process_sections i n [] = returnE []"
| "process_sections i n (section # rest) =
     (if section = JNull then throwE (TypeError ''Cannot read properties of null (reading __component)'')
      else
        bindE (log_line (Info (''   ['' @ show_nat (Suc i) @ ''/'' @ show_nat n @ ''] Processing '' @
                               js_to_string_opt (get_field section ''__component'') @ ''...''))) (\<lambda>_.
        bindE (processSection section) (\<lambda>processedSection.
        bindE (process_sections (Suc i) n rest) (\<lambda>processedSections.
        returnE (processedSection # processedSections)))))"

text \<open>Lines 306--321: create the single home-page document; an existing entry is tolerated.\<close>

definition home_page_uid :: string where
  "home_page_uid = ''api::home-page.home-page''"

definition create_home_page :: "json \<Rightarrow> unit op" where
  "create_home_page homePageData =
     catchE
       (bindE (create_document home_page_uid homePageData) (\<lambda>_.
          log_line (Info ''   Home Page created successfully!'')))
       (\<lambda>error.
          if error_message error \<noteq> [] \<and> js_includes (error_message error) ''already exists'' then
            bindE (log_line (Info ''   Home page already exists, updating...'')) (\<lambda>_.
            log_line (Warn ''   Home page entry already exists. Clear database to reimport.''))
          else throwE error)"

text \<open>The \<open>try\<close> block of \<open>importHomePage\<close>, lines 272--321.\<close>

definition import_body :: "json \<Rightarrow> unit op" where
  "import_body homePage =
     (if homePage = JNull then throwE (TypeError ''Cannot read properties of null (reading seo)'')
      else
      bindE (process_seo homePage) (\<lambda>seoData.
      case section_items homePage of
        None \<Rightarrow> throwE (TypeError ''Cannot read properties of undefined (reading length)'')
      | Some sections \<Rightarrow>
          bindE (log_line (Info (''   Processing '' @ show_nat (length sections) @ '' sections...''))) (\<lambda>_.
          bindE (process_sections 0 (length sections) sections) (\<lambda>processedSections.
          let homePageData = JObj [(''seo'', seoData), (''sections'', JArr processedSections)] in
          bindE (log_line (Info ''   Creating home-page entry...'')) (\<lambda>_.
          create_home_page homePageData)))))"

definition importHomePage :: "json \<Rightarrow> unit op" where
  "importHomePage homePage =
     bindE (log_line (Info ''Importing Home Page...'')) (\<lambda>_.
     catchE (import_body homePage)
       (\<lambda>error. bindE (log_line (ErrWith ''   Failed to import Home Page:'' error)) (\<lambda>_.
                 throwE error)))"

subsection \<open>The shape of a processed section\<close>

text \<open>The fields \<open>processSection\<close> may replace, by variant.\<close>

definition media_fields :: "json \<Rightarrow> string list" where
  "media_fields section =
     (let comp = get_field section ''__component'' in
      if comp = Some (JStr ''sections.hero'') then
        [''desktopHeroImage'', ''desktopSupportImages'', ''mobileHeroImage'', ''mobileSupportImages'']
      else if comp = Some (JStr ''sections.milan-design-week'') then [''video'', ''thumbnail'']
      else [])"

text \<open>
  A copy in progress: the keys of the spread section in their order, the values of the
  fields outside \<open>fields\<close> unchanged, and well-formedness kept.
\<close>

definition copy_inv :: "json \<Rightarrow> string list \<Rightarrow> (string \<times> json) list \<Rightarrow> bool" where
  "copy_inv section touched c \<longleftrightarrow>
     map fst c = map fst (js_spread section) \<and>
     (\<forall>k. k \<notin> set touched \<longrightarrow> map_of c k = map_of (js_spread section) k) \<and>
     (json_wf (JObj (js_spread section)) \<longrightarrow> json_wf (JObj c))"

lemma copy_inv_start: "copy_inv s F (js_spread s)"
  by (simp add: copy_inv_def)

lemma checkFile_wf: "checkFileExistsBeforeUpload v w = (Inr r, w') \<Longrightarrow> json_wf r"
  by (auto simp: checkFile_run single_or_array_def list_all_iff split: prod.splits sum.splits)

lemma get_field_key: "get_field s k = Some v \<Longrightarrow> k \<in> set (map fst (js_spread s))"
  by (cases s) (auto dest!: map_of_SomeD intro: rev_image_eqI)

lemma copy_inv_set:
  assumes inv: "copy_inv s F c" and "k \<in> set F" and "get_field s k = Some v" and "json_wf r"
  shows "copy_inv s F (obj_set c k r)"
proof -
  have "k \<in> set (map fst c)" using inv get_field_key [OF assms(3)] by (simp add: copy_inv_def)
  then have keys: "map fst (obj_set c k r) = map fst c" by (simp add: keys_obj_set)
  show ?thesis using assms keys by (auto simp: copy_inv_def wf_obj_set)
qed

lemma media_if_truthy_inv:
  assumes "copy_inv s F c" and "k \<in> set F" and "media_if_truthy s k c w = (Inr c', w')"
  shows "copy_inv s F c'"
proof (cases "truthy_opt (get_field s k)")
  case True
  then obtain v where v: "get_field s k = Some v" by (cases "get_field s k") auto
  from assms(3) True obtain r w1 where r: "checkFileExistsBeforeUpload v w = (Inr r, w1)"
    and c': "c' = obj_set c k r"
    by (auto simp: media_if_truthy_def v bindE_Inr_conv returnE_def)
  show ?thesis unfolding c' using assms(1,2) v checkFile_wf [OF r] by (rule copy_inv_set)
next
  case False
  with assms show ?thesis by (simp add: media_if_truthy_def returnE_def)
qed

lemma media_if_nonempty_array_inv:
  assumes "copy_inv s F c" and "k \<in> set F" and "media_if_nonempty_array s k c w = (Inr c', w')"
  shows "copy_inv s F c'"
proof (cases "\<exists>xs. get_field s k = Some (JArr xs) \<and> xs \<noteq> []")
  case True
  then obtain xs where v: "get_field s k = Some (JArr xs)" and ne: "xs \<noteq> []" by blast
  from assms(3) v ne obtain r w1 where r: "checkFileExistsBeforeUpload (JArr xs) w = (Inr r, w1)"
    and c': "c' = obj_set c k r"
    by (auto simp: media_if_nonempty_array_def bindE_Inr_conv returnE_def)
  show ?thesis unfolding c' using assms(1,2) v checkFile_wf [OF r] by (rule copy_inv_set)
next
  case False
  with assms show ?thesis
    by (auto simp: media_if_nonempty_array_def returnE_def split: option.splits json.splits)
qed

lemma log_line_Inr_state: "log_line l w = (r, w1) \<Longrightarrow> w1 = w\<lparr>console := console w @ [l]\<rparr>"
  by (simp add: log_line_apply)

lemma processSection_copy_inv:
  assumes run: "processSection s w = (Inr r, w')"
  shows "\<exists>fs. r = JObj fs \<and> copy_inv s (media_fields s) fs"
proof -
  have ne: "s \<noteq> JNull" using run by (auto simp: processSection_def exc_simps)
  let ?c = "get_field s ''__component''"
  consider (hero) "?c = Some (JStr ''sections.hero'')"
    | (milan) "?c = Some (JStr ''sections.milan-design-week'')"
    | (other) "?c \<noteq> Some (JStr ''sections.hero'')" "?c \<noteq> Some (JStr ''sections.milan-design-week'')"
    by blast
  then show ?thesis
  proof cases
    case hero
    have F: "media_fields s =
      [''desktopHeroImage'', ''desktopSupportImages'', ''mobileHeroImage'', ''mobileSupportImages'']"
      by (simp add: media_fields_def hero)
    from run ne hero obtain w0 c1 w1 c2 w2 c3 w3 c4 w4 where
      s1: "media_if_truthy s ''desktopHeroImage'' (js_spread s) w0 = (Inr c1, w1)" and
      s2: "media_if_nonempty_array s ''desktopSupportImages'' c1 w1 = (Inr c2, w2)" and
      s3: "media_if_truthy s ''mobileHeroImage'' c2 w2 = (Inr c3, w3)" and
      s4: "media_if_nonempty_array s ''mobileSupportImages'' c3 w3 = (Inr c4, w4)" and
      r: "r = JObj c4"
      by (auto simp: processSection_def Let_def bindE_Inr_conv returnE_def)
    have "copy_inv s (media_fields s) c1"
      using copy_inv_start _ s1 by (rule media_if_truthy_inv) (simp add: F)
    then have "copy_inv s (media_fields s) c2"
      using _ s2 by (rule media_if_nonempty_array_inv) (simp add: F)
    then have "copy_inv s (media_fields s) c3"
      using _ s3 by (rule media_if_truthy_inv) (simp add: F)
    then have "copy_inv s (media_fields s) c4"
      using _ s4 by (rule media_if_nonempty_array_inv) (simp add: F)
    with r show ?thesis by blast
  next
    case milan
    have F: "media_fields s = [''video'', ''thumbnail'']"
      by (simp add: media_fields_def milan)
    from run ne milan obtain w0 c1 w1 c2 w2 where
      s1: "media_if_truthy s ''video'' (js_spread s) w0 = (Inr c1, w1)" and
      s2: "media_if_truthy s ''thumbnail'' c1 w1 = (Inr c2, w2)" and
      r: "r = JObj c2"
      by (auto simp: processSection_def Let_def bindE_Inr_conv returnE_def)
    have "copy_inv s (media_fields s) c1"
      using copy_inv_start _ s1 by (rule media_if_truthy_inv) (simp add: F)
    then have "copy_inv s (media_fields s) c2"
      using _ s2 by (rule media_if_truthy_inv) (simp add: F)
    with r show ?thesis by blast
  next
    case other
    from run ne other have "r = JObj (js_spread s)"
      by (auto simp: processSection_def Let_def bindE_Inr_conv returnE_def split: if_splits)
    then show ?thesis using copy_inv_start by blast
  qed
qed

text \<open>(C6)
  A processed section is an object with exactly the keys of the input section (as
  object spread gives them), in the same order; every field other than the variant's
  media fields keeps its value; and a well-formed section stays well-formed.
\<close>

theorem processSection_shape:
  "processSection s w = (Inr r, w') \<Longrightarrow> \<exists>fs. r = JObj fs \<and> copy_inv s (media_fields s) fs"
  by (rule processSection_copy_inv)

theorem processSection_shape_witness:
  "\<exists>r w'. processSection (JObj [(''__component'', JStr ''sections.hero''), (''heroCopy'', JStr ''Ocean''),
            (''desktopHeroImage'', JStr ''hero/hero-01.jpg'')])
          (fresh_world\<lparr>local_files := (\<lambda>p. if p = ''data/uploads/hero/hero-01.jpg'' then Some 9 else None)\<rparr>)
          = (Inr r, w') \<and>
     (\<exists>fs. r = JObj fs \<and> map fst fs = [''__component'', ''heroCopy'', ''desktopHeroImage''] \<and>
        map_of fs ''heroCopy'' = Some (JStr ''Ocean''))"
proof -
  let ?s = "JObj [(''__component'', JStr ''sections.hero''), (''heroCopy'', JStr ''Ocean''),
            (''desktopHeroImage'', JStr ''hero/hero-01.jpg'')]"
  let ?w = "fresh_world\<lparr>local_files := (\<lambda>p. if p = ''data/uploads/hero/hero-01.jpg'' then Some 9 else None)\<rparr>"
  have "\<exists>r w'. processSection ?s ?w = (Inr r, w')"
    by (simp add: processSection_def media_if_truthy_def media_if_nonempty_array_def
        checkFileExistsBeforeUpload_def files_array_def exc_simps store_simps
        parseFilePath_def getFileData_def getFileSizeInBytes_def path_join_def path_normalize_def
        upload_missing_def uploadFile_def fresh_world_def Let_def)
  then obtain r w' where eq: "processSection ?s ?w = (Inr r, w')" by blast
  from processSection_shape [OF eq] obtain fs where "r = JObj fs" "copy_inv ?s (media_fields ?s) fs"
    by blast
  then have "r = JObj fs \<and> map fst fs = [''__component'', ''heroCopy'', ''desktopHeroImage''] \<and>
        map_of fs ''heroCopy'' = Some (JStr ''Ocean'')"
    by (simp add: copy_inv_def media_fields_def)
  then have ex: "\<exists>fs. r = JObj fs \<and> map fst fs = [''__component'', ''heroCopy'', ''desktopHeroImage''] \<and>
        map_of fs ''heroCopy'' = Some (JStr ''Ocean'')"
    by (intro exI)
  show ?thesis by (rule exI [of _ r], rule exI [of _ w'], rule conjI [OF eq ex])
qed

text \<open>(C7)
  A section that is neither a hero nor a Milan Design Week section is returned as its
  own object-spread copy (for a JSON object: equal to the input) and the platform state
  changes only by one console line: no media is touched.
\<close>

theorem processSection_passthrough:
  assumes "s \<noteq> JNull"
    and "get_field s ''__component'' \<noteq> Some (JStr ''sections.hero'')"
    and "get_field s ''__component'' \<noteq> Some (JStr ''sections.milan-design-week'')"
  shows "\<exists>l. processSection s w = (Inr (JObj (js_spread s)), w\<lparr>console := console w @ [l]\<rparr>)"
proof (cases "get_field s ''__component'' = Some (JStr ''sections.faqs'')")
  case True
  with assms show ?thesis
    by (intro exI [of _ "Info ''   Processing FAQs section...''"])
       (simp add: processSection_def Let_def exc_simps log_line_apply)
next
  case False
  with assms show ?thesis
    by (intro exI [of _ "Info (''   Processing '' @ js_to_string_opt (get_field s ''__component'') @
                               '' section...'')"])
       (simp add: processSection_def Let_def exc_simps log_line_apply)
qed

theorem processSection_passthrough_witness:
  "\<exists>l. processSection (JObj [(''__component'', JStr ''sections.faqs''), (''title'', JStr ''FAQ''),
        (''items'', JArr [JObj [(''question'', JStr ''Q1''), (''answer'', JStr ''A1'')],
                          JObj [(''question'', JStr ''Q2''), (''answer'', JStr ''A2'')]])]) fresh_world =
      (Inr (JObj [(''__component'', JStr ''sections.faqs''), (''title'', JStr ''FAQ''),
        (''items'', JArr [JObj [(''question'', JStr ''Q1''), (''answer'', JStr ''A1'')],
                          JObj [(''question'', JStr ''Q2''), (''answer'', JStr ''A2'')]])]),
       fresh_world\<lparr>console := console fresh_world @ [l]\<rparr>)"
  using processSection_passthrough [of "JObj [(''__component'', JStr ''sections.faqs''), (''title'', JStr ''FAQ''),
        (''items'', JArr [JObj [(''question'', JStr ''Q1''), (''answer'', JStr ''A1'')],
                          JObj [(''question'', JStr ''Q2''), (''answer'', JStr ''A2'')]])]" fresh_world]
  by simp

subsection \<open>What the importer may change\<close>

lemma moves_media_if_truthy [intro]: "moves media_step (media_if_truthy s k c)"
  unfolding media_if_truthy_def
  by (intro moves_if moves_bindE moves_checkFile moves_returnE reflp_media_step transp_media_step)

lemma moves_media_if_nonempty_array [intro]: "moves media_step (media_if_nonempty_array s k c)"
  unfolding media_if_nonempty_array_def
  by (auto split: option.split json.split
      intro!: moves_bindE moves_checkFile moves_returnE reflp_media_step transp_media_step)

lemma moves_processSection [intro]: "moves media_step (processSection s)"
  unfolding processSection_def Let_def
  by (intro moves_if moves_bindE moves_returnE moves_throwE moves_log_line
        moves_media_if_truthy moves_media_if_nonempty_array reflp_media_step transp_media_step)

lemma moves_process_seo [intro]: "moves media_step (process_seo h)"
  unfolding process_seo_def Let_def
  by (intro moves_if moves_bindE moves_returnE moves_log_line moves_checkFile
        reflp_media_step transp_media_step)

lemma moves_process_sections [intro]: "moves media_step (process_sections i n xs)"
  by (induction i n xs rule: process_sections.induct)
     (simp_all add: moves_returnE moves_throwE moves_bindE moves_log_line moves_processSection)

lemma moves_media_import: "moves media_step m \<Longrightarrow> moves import_step m"
  using moves_mono media_step_import_step by blast

lemma moves_create_home_page [intro]: "moves import_step (create_home_page d)"
  unfolding create_home_page_def
  by (intro moves_catchE moves_bindE moves_if moves_throwE moves_create_document
        moves_media_import [OF moves_log_line] reflp_import_step transp_import_step)

lemma moves_import_body [intro]: "moves import_step (import_body h)"
  unfolding import_body_def Let_def
  by (auto split: option.split
      intro!: moves_bindE moves_throwE moves_create_home_page
        moves_media_import [OF moves_log_line] moves_media_import [OF moves_process_seo]
        moves_media_import [OF moves_process_sections])

lemma moves_importHomePage [intro]: "moves import_step (importHomePage h)"
  unfolding importHomePage_def
  by (intro moves_catchE moves_bindE moves_throwE moves_import_body
        moves_media_import [OF moves_log_line] reflp_import_step transp_import_step)

subsection \<open>Creating the home-page document\<close>

lemma create_home_page_run:
  "create_home_page d w =
     (case create_rejects w home_page_uid of
        None \<Rightarrow> (Inr (), w\<lparr>documents := documents w @ [(home_page_uid, show_nat (next_doc_id w), d)],
                           next_doc_id := Suc (next_doc_id w),
                           console := console w @ [Info ''   Home Page created successfully!'']\<rparr>)
      | Some msg \<Rightarrow>
          if js_includes msg ''already exists'' then
            (Inr (), w\<lparr>console := console w @
               [Info ''   Home page already exists, updating...'',
                Warn ''   Home page entry already exists. Clear database to reimport.'']\<rparr>)
          else (Inl (DocumentCreateFailed home_page_uid msg), w))"
proof (cases "create_rejects w home_page_uid")
  case None
  then show ?thesis by (simp add: create_home_page_def exc_simps store_simps)
next
  case (Some msg)
  have "js_includes msg ''already exists'' \<Longrightarrow> msg \<noteq> []" by auto
  with Some show ?thesis by (auto simp: create_home_page_def exc_simps store_simps)
qed

text \<open>(C5)
  Creating the home-page document: when the platform accepts, the document is appended;
  when it rejects with a message containing \<open>already exists\<close>, the import carries on
  normally and no document is added; any other rejection is re-thrown.
\<close>

theorem create_home_page_outcome:
  "fst (create_home_page d w) =
     (case create_rejects w home_page_uid of
        None \<Rightarrow> Inr ()
      | Some msg \<Rightarrow> if sublist ''already exists'' msg then Inr ()
                    else Inl (DocumentCreateFailed home_page_uid msg)) \<and>
   documents (snd (create_home_page d w)) =
     (case create_rejects w home_page_uid of
        None \<Rightarrow> documents w @ [(home_page_uid, show_nat (next_doc_id w), d)]
      | Some msg \<Rightarrow> documents w)"
  by (simp add: create_home_page_run js_includes_sublist split: option.split)

subsection \<open>The importer and the documents\<close>

lemma media_step_documents: "moves media_step m \<Longrightarrow> m w = (r, w') \<Longrightarrow> documents w' = documents w"
  by (auto dest: movesD simp: media_step_def)

lemma media_step_next_doc_id: "moves media_step m \<Longrightarrow> m w = (r, w') \<Longrightarrow> next_doc_id w' = next_doc_id w"
  by (auto dest: movesD simp: media_step_def)

lemma media_step_create_rejects:
  "moves media_step m \<Longrightarrow> m w = (r, w') \<Longrightarrow> create_rejects w' = create_rejects w"
  by (auto dest: movesD simp: media_step_def seed_step_def)

lemma create_home_page_Inl: "create_home_page d w = (Inl e, w') \<Longrightarrow> documents w' = documents w"
  by (auto simp: create_home_page_run split: option.splits if_splits)

lemma import_body_Inl:
  assumes run: "import_body h w = (Inl e, w')"
  shows "documents w' = documents w"
proof (cases "h = JNull")
  case True
  with run show ?thesis by (simp add: import_body_def throwE_def)
next
  case False
  obtain r1 w1 where seo: "process_seo h w = (r1, w1)" by (cases "process_seo h w")
  have d1: "documents w1 = documents w" by (rule media_step_documents [OF moves_process_seo seo])
  show ?thesis
  proof (cases r1)
    case (Inl e1)
    with run False seo d1 show ?thesis by (simp add: import_body_def bindE_def)
  next
    case (Inr seoData)
    show ?thesis
    proof (cases "section_items h")
      case None
      with run False seo Inr d1 show ?thesis by (simp add: import_body_def bindE_def throwE_def)
    next
      case (Some secs)
      let ?w2 = "w1\<lparr>console := console w1 @ [Info (''   Processing '' @ show_nat (length secs) @ '' sections...'')]\<rparr>"
      obtain r3 w3 where ps: "process_sections 0 (length secs) secs ?w2 = (r3, w3)"
        by (cases "process_sections 0 (length secs) secs ?w2")
      have d3: "documents w3 = documents w"
        using media_step_documents [OF moves_process_sections ps] d1 by simp
      show ?thesis
      proof (cases r3)
        case (Inl e3)
        with run False seo Inr Some ps d3 show ?thesis
          by (simp add: import_body_def bindE_def log_line_apply)
      next
        case (Inr ys)
        let ?d = "JObj [(''seo'', seoData), (''sections'', JArr ys)]"
        let ?w4 = "w3\<lparr>console := console w3 @ [Info ''   Creating home-page entry...'']\<rparr>"
        from run False seo \<open>r1 = Inr seoData\<close> Some ps Inr
        have "create_home_page ?d ?w4 = (Inl e, w')"
          by (simp add: import_body_def bindE_def log_line_apply Let_def)
        then have "documents w' = documents ?w4" by (rule create_home_page_Inl)
        with d3 show ?thesis by simp
      qed
    qed
  qed
qed

lemma importHomePage_Inl_documents:
  assumes "importHomePage h w = (Inl e, w')"
  shows "documents w' = documents w"
proof -
  let ?w1 = "w\<lparr>console := console w @ [Info ''Importing Home Page...'']\<rparr>"
  obtain r w2 where body: "import_body h ?w1 = (r, w2)" by (cases "import_body h ?w1")
  show ?thesis
  proof (cases r)
    case (Inl e1)
    with assms body have "w' = w2\<lparr>console := console w2 @ [ErrWith ''   Failed to import Home Page:'' e1]\<rparr>"
      by (auto simp: importHomePage_def bindE_def catchE_def log_line_apply throwE_def)
    moreover have "documents w2 = documents ?w1" using body Inl by (blast intro: import_body_Inl)
    ultimately show ?thesis by simp
  next
    case (Inr x)
    with assms body show ?thesis by (simp add: importHomePage_def bindE_def catchE_def log_line_apply)
  qed
qed

text \<open>(C4)
  The scenario of a hero section whose desktop image is in neither the media library nor
  the asset directory: the import fails with \<open>File not found: data/uploads/<path>\<close>
  and no document is created.
\<close>

theorem importHomePage_missing_image:
  assumes plain: "plain_path p"
    and not_in_library: "asset_key (JStr p) \<notin> set (map asset_name (media w))"
    and no_file: "local_files w (''data/uploads/'' @ p) = None"
  shows "fst (importHomePage (JObj [(''sections'', JArr [JObj [(''__component'', JStr ''sections.hero''),
            (''desktopHeroImage'', JStr p)]])]) w) = Inl (FileNotFound (''data/uploads/'' @ p)) \<and>
         documents (snd (importHomePage (JObj [(''sections'', JArr [JObj [(''__component'', JStr ''sections.hero''),
            (''desktopHeroImage'', JStr p)]])]) w)) = documents w"
proof -
  let ?h = "JObj [(''sections'', JArr [JObj [(''__component'', JStr ''sections.hero''),
            (''desktopHeroImage'', JStr p)]])]"
  obtain d f where df: "parseFilePath (JStr p) = Inr (d, f)"
    using parseFilePath_JStr by blast
  have path: "path_join [''data'', ''uploads'', d, f] = ''data/uploads/'' @ p"
    using plain df by (rule asset_path_plain)
  have ne: "p \<noteq> []" using plain_path_last [OF plain] by simp
  have "strip_ext f \<notin> asset_name ` set (media w)"
    using not_in_library df by (simp add: asset_key_def)
  then have find: "\<And>as. as = media w \<Longrightarrow> find (\<lambda>a. asset_name a = strip_ext f) as = None"
    unfolding find_None_iff by (metis image_eqI)
  have gfd: "\<And>u. local_files u = local_files w \<Longrightarrow>
      getFileData (JStr p) u = (Inl (FileNotFound (''data/uploads/'' @ p)), u)"
    using getFileData_missing [OF df] path no_file by simp
  have "fst (importHomePage ?h w) = Inl (FileNotFound (''data/uploads/'' @ p))"
    using ne by (simp add: importHomePage_def import_body_def process_seo_def section_items_def
        processSection_def media_if_truthy_def media_if_nonempty_array_def
        checkFileExistsBeforeUpload_def files_array_def upload_missing_def
        exc_simps store_simps Let_def df find gfd)
  moreover from this obtain w' where "importHomePage ?h w = (Inl (FileNotFound (''data/uploads/'' @ p)), w')"
    by (cases "importHomePage ?h w") auto
  then have "documents (snd (importHomePage ?h w)) = documents w"
    using importHomePage_Inl_documents by simp
  ultimately show ?thesis by simp
qed

theorem importHomePage_missing_image_witness:
  "fst (importHomePage (JObj [(''sections'', JArr [JObj [(''__component'', JStr ''sections.hero''),
            (''desktopHeroImage'', JStr ''hero/a.jpg'')]])]) fresh_world) =
     Inl (FileNotFound ''data/uploads/hero/a.jpg'')"
  using importHomePage_missing_image [of "''hero/a.jpg''" fresh_world]
  by (simp add: plain_path_def fresh_world_def)

subsection \<open>A successful import\<close>

lemma map_of_zip_notin: "k \<notin> set ks \<Longrightarrow> map_of (zip ks vs) k = None"
  by (auto simp: map_of_eq_None_iff dest: set_zip_leftD)

lemma spread_component: "map_of (js_spread s) ''__component'' = get_field s ''__component''"
proof -
  have "show_nat n \<noteq> ''__component''" for n
    by (rule show_nat_not_key) simp
  then have "''__component'' \<notin> show_nat ` A" for A
    by (metis imageE)
  then show ?thesis by (cases s) (simp_all add: map_of_zip_notin)
qed

lemma processSection_component:
  assumes "processSection s w = (Inr r, w')"
  shows "get_field r ''__component'' = get_field s ''__component''"
proof -
  from processSection_copy_inv [OF assms] obtain fs where
    r: "r = JObj fs" and inv: "copy_inv s (media_fields s) fs" by blast
  have "''__component'' \<notin> set (media_fields s)" by (simp add: media_fields_def Let_def)
  with inv have "map_of fs ''__component'' = map_of (js_spread s) ''__component''"
    by (simp add: copy_inv_def)
  with r show ?thesis by (simp add: spread_component)
qed

lemma process_sections_components:
  "process_sections i n xs w = (Inr ys, w') \<Longrightarrow>
   map (\<lambda>s. get_field s ''__component'') ys = map (\<lambda>s. get_field s ''__component'') xs"
proof (induction xs arbitrary: i w ys)
  case Nil
  then show ?case by (simp add: returnE_def)
next
  case (Cons x xs)
  from Cons.prems obtain w0 r w1 rs where
    x: "processSection x w0 = (Inr r, w1)" and
    rest: "process_sections (Suc i) n xs w1 = (Inr rs, w')" and ys: "ys = r # rs"
    by (auto simp: bindE_Inr_conv returnE_def throwE_def split: if_splits)
  show ?case using processSection_component [OF x] Cons.IH [OF rest] ys by simp
qed

lemma import_body_Inr:
  assumes "import_body h w = (Inr (), w')"
  obtains seo w1 xs ys w3 where
    "process_seo h w = (Inr seo, w1)" and "section_items h = Some xs" and
    "process_sections 0 (length xs) xs
       (w1\<lparr>console := console w1 @ [Info (''   Processing '' @ show_nat (length xs) @ '' sections...'')]\<rparr>)
       = (Inr ys, w3)" and
    "create_home_page (JObj [(''seo'', seo), (''sections'', JArr ys)])
       (w3\<lparr>console := console w3 @ [Info ''   Creating home-page entry...'']\<rparr>) = (Inr (), w')"
  using assms
  by (auto simp: import_body_def bindE_Inr_conv Let_def log_line_apply throwE_def
      split: if_splits option.splits)

lemma importHomePage_Inr:
  assumes "importHomePage h w = (Inr (), w')"
  shows "import_body h (w\<lparr>console := console w @ [Info ''Importing Home Page...'']\<rparr>) = (Inr (), w')"
  using assms
  by (auto simp: importHomePage_def bindE_def catchE_def log_line_apply throwE_def
      split: prod.splits sum.splits)

lemma create_home_page_documents_bound:
  "length (documents (snd (create_home_page d w))) \<le> Suc (length (documents w))"
  by (simp add: create_home_page_run split: option.split)

lemma importHomePage_documents_bound:
  assumes run: "importHomePage h w = (r, w')"
  shows "length (documents w') \<le> Suc (length (documents w))"
proof (cases r)
  case (Inl e)
  then show ?thesis using importHomePage_Inl_documents run by simp
next
  case (Inr u)
  let ?w0 = "w\<lparr>console := console w @ [Info ''Importing Home Page...'']\<rparr>"
  from Inr run have "importHomePage h w = (Inr (), w')" by simp
  from importHomePage_Inr [OF this] obtain seo w1 xs ys w3 where
    seo: "process_seo h ?w0 = (Inr seo, w1)" and
    ps: "process_sections 0 (length xs) xs
       (w1\<lparr>console := console w1 @ [Info (''   Processing '' @ show_nat (length xs) @ '' sections...'')]\<rparr>)
       = (Inr ys, w3)" and
    cr: "create_home_page (JObj [(''seo'', seo), (''sections'', JArr ys)])
       (w3\<lparr>console := console w3 @ [Info ''   Creating home-page entry...'']\<rparr>) = (Inr (), w')"
    by (rule import_body_Inr)
  have "documents w3 = documents w"
    using media_step_documents [OF moves_process_seo seo] media_step_documents [OF moves_process_sections ps]
    by simp
  then show ?thesis
    using create_home_page_documents_bound [of "JObj [(''seo'', seo), (''sections'', JArr ys)]"
        "w3\<lparr>console := console w3 @ [Info ''   Creating home-page entry...'']\<rparr>"] cr
    by simp
qed

text \<open>(C3)
  A successful import with the platform accepting the create appends exactly one
  home-page document, \<open>{seo, sections}\<close>, under the next document id, whose sections
  carry the fixture's sections' component tags in the fixture's order.
\<close>

theorem importHomePage_creates_document:
  assumes run: "importHomePage h w = (Inr (), w')"
    and accepts: "create_rejects w home_page_uid = None"
  shows "\<exists>seo secs xs. section_items h = Some xs \<and>
           documents w' = documents w @
             [(home_page_uid, show_nat (next_doc_id w), JObj [(''seo'', seo), (''sections'', JArr secs)])] \<and>
           map (\<lambda>s. get_field s ''__component'') secs = map (\<lambda>s. get_field s ''__component'') xs"
proof -
  let ?w0 = "w\<lparr>console := console w @ [Info ''Importing Home Page...'']\<rparr>"
  from importHomePage_Inr [OF run] obtain seo w1 xs ys w3 where
    seo: "process_seo h ?w0 = (Inr seo, w1)" and xs: "section_items h = Some xs" and
    ps: "process_sections 0 (length xs) xs
       (w1\<lparr>console := console w1 @ [Info (''   Processing '' @ show_nat (length xs) @ '' sections...'')]\<rparr>)
       = (Inr ys, w3)" and
    cr: "create_home_page (JObj [(''seo'', seo), (''sections'', JArr ys)])
       (w3\<lparr>console := console w3 @ [Info ''   Creating home-page entry...'']\<rparr>) = (Inr (), w')"
    by (rule import_body_Inr)
  have w1: "documents w1 = documents w" "next_doc_id w1 = next_doc_id w" "create_rejects w1 = create_rejects w"
    using media_step_documents [OF moves_process_seo seo] media_step_next_doc_id [OF moves_process_seo seo]
      media_step_create_rejects [OF moves_process_seo seo] by simp_all
  have w3: "documents w3 = documents w" "next_doc_id w3 = next_doc_id w" "create_rejects w3 = create_rejects w"
    using media_step_documents [OF moves_process_sections ps] media_step_next_doc_id [OF moves_process_sections ps]
      media_step_create_rejects [OF moves_process_sections ps] w1 by simp_all
  have "documents w' = documents w @
          [(home_page_uid, show_nat (next_doc_id w), JObj [(''seo'', seo), (''sections'', JArr ys)])]"
    using cr w3 accepts by (simp add: create_home_page_run) (erule subst, simp)
  moreover have "map (\<lambda>s. get_field s ''__component'') ys = map (\<lambda>s. get_field s ''__component'') xs"
    by (rule process_sections_components [OF ps])
  ultimately show ?thesis using xs by blast
qed

theorem importHomePage_creates_document_witness:
  "\<exists>w'. importHomePage (JObj [(''seo'', JNull), (''sections'', JArr
          [JObj [(''__component'', JStr ''sections.mission''), (''taglineText'', JStr ''Blue'')],
           JObj [(''__component'', JStr ''sections.faqs''), (''title'', JStr ''FAQ'')]])]) fresh_world
        = (Inr (), w') \<and>
     (\<exists>seo secs. documents w' = [(home_page_uid, ''1'', JObj [(''seo'', seo), (''sections'', JArr secs)])] \<and>
        map (\<lambda>s. get_field s ''__component'') secs =
          [Some (JStr ''sections.mission''), Some (JStr ''sections.faqs'')])"
proof -
  let ?h = "JObj [(''seo'', JNull), (''sections'', JArr
          [JObj [(''__component'', JStr ''sections.mission''), (''taglineText'', JStr ''Blue'')],
           JObj [(''__component'', JStr ''sections.faqs''), (''title'', JStr ''FAQ'')]])]"
  have "\<exists>w'. importHomePage ?h fresh_world = (Inr (), w')"
    by (simp add: importHomePage_def import_body_def process_seo_def section_items_def
        processSection_def exc_simps store_simps create_home_page_run Let_def fresh_world_def)
  then obtain w' where eq: "importHomePage ?h fresh_world = (Inr (), w')" by blast
  have acc: "create_rejects fresh_world home_page_uid = None" by (simp add: fresh_world_def)
  from importHomePage_creates_document [OF eq acc] obtain seo secs xs where
    "section_items ?h = Some xs"
    "documents w' = documents fresh_world @
       [(home_page_uid, show_nat (next_doc_id fresh_world), JObj [(''seo'', seo), (''sections'', JArr secs)])]"
    "map (\<lambda>s. get_field s ''__component'') secs = map (\<lambda>s. get_field s ''__component'') xs"
    by blast
  then have "documents w' = [(home_page_uid, ''1'', JObj [(''seo'', seo), (''sections'', JArr secs)])] \<and>
        map (\<lambda>s. get_field s ''__component'') secs =
          [Some (JStr ''sections.mission''), Some (JStr ''sections.faqs'')]"
    by (auto simp: section_items_def fresh_world_def show_nat.simps digit_char_def)
  then have ex: "\<exists>seo secs. documents w' = [(home_page_uid, ''1'', JObj [(''seo'', seo), (''sections'', JArr secs)])] \<and>
        map (\<lambda>s. get_field s ''__component'') secs =
          [Some (JStr ''sections.mission''), Some (JStr ''sections.faqs'')]"
    by (intro exI)
  show ?thesis by (rule exI [of _ w'], rule conjI [OF eq ex])
qed

end
