(* ===== verification/Permissions.thy ===== *)
theory Permissions
  imports Platform
begin

text \<open>
  The public-permission set-up of \<open>src/src/bootstrap.js\<close>, \<open>setPublicPermissions\<close>
  (lines 50--80). The function looks the public role up, and when it exists issues one
  \<open>create\<close> query per (controller, action) pair \<^emph>\<open>without awaiting them one by one\<close>,
  collecting the promises and awaiting them together with \<open>Promise.all\<close>. So every grant
  is attempted even when an earlier one fails, and the function then rejects with a
  failure, keeping the grants that succeeded. \<open>attempt\<close> models a started promise (the
  query runs, its outcome is kept as a value) and \<open>promise_all\<close> the combination of
  the outcomes, the earliest issued rejection winning.
\<close>

definition attempt :: "('e, 's, 'a) exc \<Rightarrow> ('e, 's, 'e + 'a) exc" where
  "attempt m = (\<lambda>s. case m s of (r, s') \<Rightarrow> (Inr r, s'))"

fun promise_all :: "('e + 'a) list \<Rightarrow> 'e + 'a list" where
  "promise_all [] = Inr []"
| "promise_all (Inl e # rs) = Inl e"
| "promise_all (Inr x # rs) = (case promise_all rs of Inl e \<Rightarrow> Inl e | Inr xs \<Rightarrow> Inr (x # xs))"

text \<open>
  The argument \<open>newPermissions\<close> is an object literal from controller name to its
  actions; \<open>Object.keys\<close> visits its keys in insertion order, so it is an association
  list. The action string is the template \<open>api::${controller}.${controller}.${action}\<close>.
\<close>

type_synonym permission_map = "(string \<times> string list) list"

definition action_name :: "string \<Rightarrow> string \<Rightarrow> string" where
  "action_name c a = ''api::'' @ c @ ''.'' @ c @ ''.'' @ a"

definition perm_actions :: "permission_map \<Rightarrow> string list" where
  "perm_actions np = concat (map (\<lambda>(c, as). map (action_name c) as) np)"

definition setPublicPermissions :: "permission_map \<Rightarrow> unit op" where
  "setPublicPermissions np =
     bindE (find_role_by_type ''public'') (\<lambda>publicRole.
       case publicRole of
         None \<Rightarrow> log_line (Warn ''  Public role not found, skipping permissions setup'')
       | Some r \<Rightarrow>
           bindE (mapE (\<lambda>a. attempt (create_permission a (role_id r))) (perm_actions np)) (\<lambda>ps.
           bindE (liftE (promise_all ps)) (\<lambda>_.
             log_line (Info ''Public permissions configured''))))"

subsection \<open>Issuing the grants\<close>


lemma attempt_apply [exc_simps]: "attempt m s = (Inr (fst (m s)), snd (m s))"
  by (simp add: attempt_def split: prod.splits)

lemma moves_attempt [intro]: "moves R m \<Longrightarrow> moves R (attempt m)"
  by (simp add: moves_def attempt_apply)

definition grant_outcome :: "world \<Rightarrow> string \<Rightarrow> error + unit" where
  "grant_outcome w a = (if permission_rejects w a then Inl (PermissionCreateFailed a) else Inr ())"

text \<open>
  Issuing the creates touches only the grants: each accepted action is added once for
  the role, and each outcome depends on the action alone.
\<close>

lemma issue_grants:
  "mapE (\<lambda>a. attempt (create_permission a rid)) acts w =
     (Inr (map (grant_outcome w) acts),
      w\<lparr>permissions := permissions w +
          mset (map (\<lambda>a. (a, rid)) (filter (\<lambda>a. \<not> permission_rejects w a) acts))\<rparr>)"
proof (induction acts arbitrary: w)
  case Nil
  then show ?case by (simp add: returnE_def)
next
  case (Cons a acts)
  show ?case
  proof (cases "permission_rejects w a")
    case True
    then show ?thesis
      using Cons.IH [of w] by (simp add: bindE_def returnE_def attempt_apply create_permission_def grant_outcome_def)
  next
    case False
    let ?w1 = "w\<lparr>permissions := add_mset (a, rid) (permissions w)\<rparr>"
    have o: "grant_outcome ?w1 = grant_outcome w" by (simp add: grant_outcome_def fun_eq_iff)
    show ?thesis
      using False Cons.IH [of ?w1] o
      by (simp add: bindE_def returnE_def attempt_apply create_permission_def grant_outcome_def)
  qed
qed

lemma promise_all_grants:
  "promise_all (map (grant_outcome w) acts) =
     (case find (permission_rejects w) acts of
        None \<Rightarrow> Inr (map (\<lambda>_. ()) acts)
      | Some a \<Rightarrow> Inl (PermissionCreateFailed a))"
  by (induction acts) (auto simp: grant_outcome_def split: option.splits sum.splits)

lemma setPublicPermissions_run:
  "setPublicPermissions np w =
     (case find (\<lambda>r. role_type r = ''public'') (roles w) of
        None \<Rightarrow> (Inr (), w\<lparr>console := console w @
                   [Warn ''  Public role not found, skipping permissions setup'']\<rparr>)
      | Some r \<Rightarrow>
          (let w1 = w\<lparr>permissions := permissions w +
                      mset (map (\<lambda>a. (a, role_id r))
                              (filter (\<lambda>a. \<not> permission_rejects w a) (perm_actions np)))\<rparr>
           in case find (permission_rejects w) (perm_actions np) of
                None \<Rightarrow> (Inr (), w1\<lparr>console := console w1 @ [Info ''Public permissions configured'']\<rparr>)
              | Some a \<Rightarrow> (Inl (PermissionCreateFailed a), w1)))"
  by (simp add: setPublicPermissions_def bindE_def find_role_by_type_apply issue_grants
      promise_all_grants liftE_apply log_line_apply Let_def
      split: option.splits)

lemma moves_setPublicPermissions [intro]: "moves perm_step (setPublicPermissions np)"
  unfolding setPublicPermissions_def
  by (intro moves_bindE moves_case_option moves_find_role_by_type moves_liftE moves_mapE
      moves_log_line_perm reflp_perm_step transp_perm_step moves_create_permission moves_attempt)

text \<open>(C8)
  Every branch of \<open>setPublicPermissions\<close>: without a public role nothing is granted and
  the call succeeds; with one, every action of the map whose create the platform accepts
  is granted to the public role (once per occurrence), also when another create fails,
  and the call fails exactly when some create fails, with the first failing action.
\<close>

theorem setPublicPermissions_outcome:
  "fst (setPublicPermissions np w) =
     (case find (\<lambda>r. role_type r = ''public'') (roles w) of
        None \<Rightarrow> Inr ()
      | Some r \<Rightarrow> (case find (permission_rejects w) (perm_actions np) of
                    None \<Rightarrow> Inr ()
                  | Some a \<Rightarrow> Inl (PermissionCreateFailed a))) \<and>
   permissions (snd (setPublicPermissions np w)) =
     (case find (\<lambda>r. role_type r = ''public'') (roles w) of
        None \<Rightarrow> permissions w
      | Some r \<Rightarrow> permissions w + mset (map (\<lambda>a. (a, role_id r))
                   (filter (\<lambda>a. \<not> permission_rejects w a) (perm_actions np))))"
  by (simp add: setPublicPermissions_run Let_def split: option.splits)

end
