(* ===== verification/Bootstrap.thy ===== *)
theory Bootstrap
  imports Sections Permissions
begin

text \<open>
  The entry points of \<open>src/src/bootstrap.js\<close>: the run-once guard \<open>isFirstRun\<close>
  (lines 35--44), \<open>importSeedData\<close> (lines 331--346), which grants the fixed public read
  permissions and imports the home page, the exported \<open>seedPelagicApp\<close> (lines 12--29),
  which runs the import only when the guard says so and swallows its failure, and the
  unused helper \<open>createEntry\<close> (lines 196--206). The fixture \<open>homePage\<close> of
  \<open>data/data.json\<close> is the parameter \<open>h\<close>.
\<close>

definition init_key :: "string \<Rightarrow> store_key" where
  "init_key env = (env, ''type'', ''setup'', ''initHasRun'')"

definition isFirstRun :: "bool op" where
  "isFirstRun =
     bindE (getsE environment) (\<lambda>env.
     bindE (store_get (init_key env)) (\<lambda>initHasRun.
     bindE (store_set (init_key env) (JBool True)) (\<lambda>_.
       returnE (\<not> truthy_opt initHasRun))))"

definition seed_permissions :: permission_map where
  "seed_permissions =
     [(''home-page'', [''find'', ''findOne'']),
      (''global-setting'', [''find'', ''findOne'']),
      (''journal-article'', [''find'', ''findOne'']),
      (''journal-page'', [''find'', ''findOne''])]"

definition importSeedData :: "json \<Rightarrow> unit op" where
  "importSeedData h =
     bindE (log_line (Info ''Starting seed data import...'')) (\<lambda>_.
     bindE (setPublicPermissions seed_permissions) (\<lambda>_.
     bindE (importHomePage h) (\<lambda>_.
       log_line (Info ''Seed data import complete''))))"

definition seed_import :: "json \<Rightarrow> unit op" where
  "seed_import h =
     catchE
       (bindE (log_line (Info ''Setting up Pelagic Earth CMS...'')) (\<lambda>_.
        bindE (importSeedData h) (\<lambda>_.
          log_line (Info ''Pelagic CMS bootstrap complete!''))))
       (\<lambda>e. bindE (log_line (Err ''Could not import seed data'')) (\<lambda>_.
             log_line (ErrObj e)))"

definition already_imported :: log where
  "already_imported = Info '' Seed data has already been imported. Clear database to reimport.''"

definition seedPelagicApp :: "json \<Rightarrow> unit op" where
  "seedPelagicApp h =
     bindE isFirstRun (\<lambda>shouldImportSeedData.
       if shouldImportSeedData then seed_import h
       else log_line already_imported)"

definition createEntry :: "string \<Rightarrow> json \<Rightarrow> unit op" where
  "createEntry model entry =
     catchE
       (bindE (create_document (''api::'' @ model @ ''.'' @ model) entry) (\<lambda>_.
          log_line (Info (''   Created '' @ model @ '' entry''))))
       (\<lambda>e. bindE (log_line (ErrWith (''   Failed to create '' @ model @ '' entry:'') e)) (\<lambda>_.
              throwE e))"

definition set_flag :: "world \<Rightarrow> world" where
  "set_flag w = w\<lparr>plugin_store := (plugin_store w)(init_key (environment w) \<mapsto> JBool True)\<rparr>"

text \<open>
  Platform start-ups. Every start of the platform runs the bootstrap hook once;
  \<open>restarts n h\<close> is \<open>n\<close> start-ups in sequence against the same database. For start-ups
  that overlap, the guard is split at its two awaits, the read of the flag and its write:
  \<open>guard_step\<close> is one such step of one process and \<open>startups\<close> interleaves the steps
  of two processes sharing the store.
\<close>

primrec restarts :: "nat \<Rightarrow> json \<Rightarrow> world \<Rightarrow> world" where
  "restarts 0 h w = w"
| "restarts (Suc n) h w = restarts n h (snd (seedPelagicApp h w))"

datatype guard_pc = Boot | HasRead "json option" | Decided bool

fun guard_step :: "guard_pc \<Rightarrow> world \<Rightarrow> (guard_pc \<times> world) option" where
  "guard_step Boot w = Some (HasRead (plugin_store w (init_key (environment w))), w)"
| "guard_step (HasRead v) w = Some (Decided (\<not> truthy_opt v), set_flag w)"
| "guard_step (Decided b) w = None"

inductive startups :: "world \<times> guard_pc \<times> guard_pc \<Rightarrow> world \<times> guard_pc \<times> guard_pc \<Rightarrow> bool" where
  first: "guard_step p w = Some (p', w') \<Longrightarrow> startups (w, p, q) (w', p', q)"
| second: "guard_step q w = Some (q', w') \<Longrightarrow> startups (w, p, q) (w', p, q')"


subsection \<open>The run-once guard\<close>

lemma isFirstRun_run:
  "isFirstRun w =
     (Inr (\<not> truthy_opt (plugin_store w (init_key (environment w)))),
      w\<lparr>plugin_store := (plugin_store w)(init_key (environment w) \<mapsto> JBool True)\<rparr>)"
  by (simp add: isFirstRun_def bindE_def getsE_def store_get_apply store_set_apply returnE_def)

text \<open>(C11)
  Invoking the run-once guard twice in a row answers ``do not run'' the second time,
  whatever the store held before, and the first call has set the flag.
\<close>

theorem isFirstRun_twice:
  "fst (isFirstRun (snd (isFirstRun w))) = Inr False \<and>
   plugin_store (snd (isFirstRun w)) (init_key (environment w)) = Some (JBool True)"
  by (simp add: isFirstRun_run)

lemma set_flag_simps [simp]:
  "environment (set_flag w) = environment w"
  "plugin_store (set_flag w) (init_key (environment w)) = Some (JBool True)"
  by (simp_all add: set_flag_def)

subsection \<open>The entry point\<close>

lemma media_step_seed_step: "media_step w w' \<Longrightarrow> seed_step w w'"
  by (simp add: media_step_def)

lemma moves_importSeedData [intro]: "moves seed_step (importSeedData h)"
  unfolding importSeedData_def
  by (intro moves_bindE transp_seed_step
      moves_mono [OF moves_log_line media_step_seed_step]
      moves_mono [OF moves_setPublicPermissions perm_step_seed_step]
      moves_mono [OF moves_importHomePage import_step_seed_step])

lemma moves_seed_import [intro]: "moves seed_step (seed_import h)"
  unfolding seed_import_def
  by (intro moves_bindE moves_catchE transp_seed_step moves_importSeedData
      moves_mono [OF moves_log_line media_step_seed_step])

lemma seed_import_never_fails: "fst (seed_import h w) = Inr ()"
  unfolding seed_import_def by (rule catchE_total) (simp add: bindE_def log_line_apply)

lemma seedPelagicApp_run:
  "seedPelagicApp h w =
     (if truthy_opt (plugin_store w (init_key (environment w)))
      then (Inr (), (set_flag w)\<lparr>console := console w @ [already_imported]\<rparr>)
      else seed_import h (set_flag w))"
  by (simp add: seedPelagicApp_def bindE_def isFirstRun_run log_line_apply set_flag_def)

text \<open>
  Every failure of the import (missing files, refused uploads, grants or creates) is
  caught by the \<open>try\<close> of \<open>seedPelagicApp\<close>. The plugin-store calls of the guard run
  outside that \<open>try\<close>; the model takes them to succeed (see \<open>Platform\<close>), so under that
  assumption the hook always resolves.
\<close>

lemma seedPelagicApp_never_fails: "fst (seedPelagicApp h w) = Inr ()"
  by (simp add: seedPelagicApp_run seed_import_never_fails)

lemma seedPelagicApp_seed_step: "seed_step (set_flag w) (snd (seedPelagicApp h w))"
proof (cases "truthy_opt (plugin_store w (init_key (environment w)))")
  case True
  then show ?thesis by (simp add: seedPelagicApp_run seed_step_def set_flag_def)
next
  case False
  obtain r w' where run: "seed_import h (set_flag w) = (r, w')" by (cases "seed_import h (set_flag w)")
  with False show ?thesis by (simp add: seedPelagicApp_run movesD [OF moves_seed_import run])
qed

lemma set_flag_flagged: "plugin_store w (init_key (environment w)) = Some (JBool True) \<Longrightarrow> set_flag w = w"
  by (simp add: set_flag_def fun_upd_idem)

lemma seedPelagicApp_flagged:
  "plugin_store w (init_key (environment w)) = Some (JBool True) \<Longrightarrow>
   seedPelagicApp h w = (Inr (), w\<lparr>console := console w @ [already_imported]\<rparr>)"
  by (simp add: seedPelagicApp_run set_flag_flagged)

lemma seedPelagicApp_sets_flag:
  "environment (snd (seedPelagicApp h w)) = environment w \<and>
   plugin_store (snd (seedPelagicApp h w)) (init_key (environment w)) = Some (JBool True)"
  using seedPelagicApp_seed_step [of w h] by (simp add: seed_step_def)

lemma restarts_flagged:
  "plugin_store w (init_key (environment w)) = Some (JBool True) \<Longrightarrow>
   restarts n h w = w\<lparr>console := console w @ replicate n already_imported\<rparr>"
proof (induction n arbitrary: w)
  case 0
  then show ?case by simp
next
  case (Suc n)
  let ?w1 = "w\<lparr>console := console w @ [already_imported]\<rparr>"
  have "restarts (Suc n) h w = restarts n h ?w1"
    using Suc.prems by (simp add: seedPelagicApp_flagged)
  also have "\<dots> = ?w1\<lparr>console := console ?w1 @ replicate n already_imported\<rparr>"
    using Suc.prems by (intro Suc.IH) simp
  finally show ?case by (simp add: replicate_append_same)
qed

text \<open>(C10)
  Sequential start-ups import at most once: after the first start-up, whatever it did
  (imported, failed half-way, or found the flag already set), every further start-up only
  writes the ``already imported'' line. In particular an import that failed is never
  retried, because the flag is written before the import runs.
\<close>

theorem restarts_import_once:
  "restarts (Suc n) h w =
     (snd (seedPelagicApp h w))\<lparr>console := console (snd (seedPelagicApp h w)) @ replicate n already_imported\<rparr>"
  using seedPelagicApp_sets_flag [of h w] by (simp add: restarts_flagged)

theorem restarts_import_once_witness:
  "restarts 3 (JObj [(''sections'', JArr [])]) fresh_world =
     (snd (seedPelagicApp (JObj [(''sections'', JArr [])]) fresh_world))\<lparr>console :=
        console (snd (seedPelagicApp (JObj [(''sections'', JArr [])]) fresh_world)) @
        [already_imported, already_imported]\<rparr>"
  using restarts_import_once [of 2 "JObj [(''sections'', JArr [])]" fresh_world]
  by (simp add: numeral_3_eq_3 numeral_2_eq_2)

subsection \<open>Overlapping start-ups\<close>

text \<open>
  The run-once guard split at its awaits is the guard: its read step followed by its
  write step does exactly what \<open>isFirstRun\<close> does, answer and store included.
\<close>

lemma guard_steps_refine:
  "isFirstRun w = (Inr b, w') \<longleftrightarrow>
   (\<exists>p w1. guard_step Boot w = Some (p, w1) \<and> guard_step p w1 = Some (Decided b, w'))"
  by (auto simp: isFirstRun_run set_flag_def)








text \<open>(C12)
  The guard is not atomic: when two start-ups overlap on a database whose flag is not
  set, the interleaving read, read, write, write lets both guards answer ``run'', so the
  seed import runs twice.
\<close>

theorem startups_race_double_import:
  assumes "\<not> truthy_opt (plugin_store w (init_key (environment w)))"
  shows "startups\<^sup>*\<^sup>* (w, Boot, Boot) (set_flag w, Decided True, Decided True)"
proof -
  let ?v = "plugin_store w (init_key (environment w))"
  have "startups (w, Boot, Boot) (w, HasRead ?v, Boot)" by (rule startups.first) simp
  moreover have "startups (w, HasRead ?v, Boot) (w, HasRead ?v, HasRead ?v)"
    by (rule startups.second) simp
  moreover have "startups (w, HasRead ?v, HasRead ?v) (set_flag w, Decided True, HasRead ?v)"
    by (rule startups.first) (simp add: assms)
  moreover have "startups (set_flag w, Decided True, HasRead ?v) (set_flag w, Decided True, Decided True)"
    by (rule startups.second) (simp add: assms set_flag_flagged)
  ultimately show ?thesis
    by (meson rtranclp.rtrancl_into_rtrancl rtranclp.rtrancl_refl)
qed

theorem startups_race_double_import_witness:
  "\<not> truthy_opt (plugin_store fresh_world (init_key (environment fresh_world))) \<and>
   startups\<^sup>*\<^sup>* (fresh_world, Boot, Boot) (set_flag fresh_world, Decided True, Decided True)"
proof -
  have h: "\<not> truthy_opt (plugin_store fresh_world (init_key (environment fresh_world)))"
    by (simp add: fresh_world_def)
  show ?thesis using h startups_race_double_import [OF h] by blast
qed

subsection \<open>The seed data import\<close>

text \<open>(C14)
  Without a public role the permission seeder only warns and grants nothing, and the
  home-page import still runs: \<open>importSeedData\<close> is then the home-page import after the
  two console lines.
\<close>

theorem importSeedData_no_public_role:
  assumes "find (\<lambda>r. role_type r = ''public'') (roles w) = None"
  shows "importSeedData h w =
           bindE (importHomePage h) (\<lambda>_. log_line (Info ''Seed data import complete''))
             (w\<lparr>console := console w @ [Info ''Starting seed data import...'',
                  Warn ''  Public role not found, skipping permissions setup'']\<rparr>)"
  using assms
  by (simp add: importSeedData_def bindE_def log_line_apply setPublicPermissions_run)

theorem importSeedData_no_public_role_witness:
  "find (\<lambda>r. role_type r = ''public'') (roles (fresh_world\<lparr>roles := []\<rparr>)) = None \<and>
   permissions (snd (importSeedData (JObj [(''sections'', JArr [])]) (fresh_world\<lparr>roles := []\<rparr>))) = {#}"
proof -
  let ?w = "fresh_world\<lparr>roles := []\<rparr>" and ?h = "JObj [(''sections'', JArr [])]"
  have n: "find (\<lambda>r. role_type r = ''public'') (roles ?w) = None" by simp
  have "permissions (snd (importSeedData ?h ?w)) =
        permissions (snd (bindE (importHomePage ?h) (\<lambda>_. log_line (Info ''Seed data import complete''))
             (?w\<lparr>console := console ?w @ [Info ''Starting seed data import...'',
                  Warn ''  Public role not found, skipping permissions setup'']\<rparr>)))"
    by (simp only: importSeedData_no_public_role [OF n])
  also have "\<dots> = {#}"
    by (simp add: importHomePage_def import_body_def process_seo_def section_items_def
        bindE_def catchE_def log_line_apply throwE_def returnE_def create_home_page_run
        Let_def fresh_world_def)
  finally show ?thesis using n by blast
qed

end
