(* ===== verification/SeedScript.thy ===== *)
theory SeedScript
  imports Bootstrap
begin

text \<open>
  The manual seed script \<open>src/scripts/seed.js\<close>: \<open>main\<close> (lines 22--55) compiles and
  loads a platform instance, runs the bootstrap hook once, destroys the instance and
  exits with code 0; anything thrown on the way is logged and the exit code is 1. The
  three platform calls \<open>compileStrapi\<close> (line 28), \<open>createStrapi(...).load\<close> (line 32)
  and \<open>app.destroy\<close> (line 46) are parameters: \<open>None\<close> when they succeed, \<open>Some e\<close>
  when they throw \<open>e\<close>. The script's \<open>bootstrap\<close> is the exported \<open>seedPelagicApp\<close>.
  Setting the log level (line 35) only filters the platform's own logger, which the model
  does not record. The exit code is the value \<open>main\<close> returns.
\<close>

definition platform_call :: "error option \<Rightarrow> unit op" where
  "platform_call r = (case r of None \<Rightarrow> returnE () | Some e \<Rightarrow> throwE e)"

definition seed_main :: "error option \<Rightarrow> error option \<Rightarrow> error option \<Rightarrow> json \<Rightarrow> nat op" where
  "seed_main compile load destroy h =
     catchE
       (bindE (log_line (Info ''Starting Pelagic CMS seed script...'')) (\<lambda>_.
        bindE (log_line (Info ''Compiling Strapi...'')) (\<lambda>_.
        bindE (platform_call compile) (\<lambda>_.
        bindE (log_line (Info ''Creating Strapi instance...'')) (\<lambda>_.
        bindE (platform_call load) (\<lambda>_.
        bindE (log_line (Info ''Running seed function...'')) (\<lambda>_.
        bindE (seedPelagicApp h) (\<lambda>_.
        bindE (log_line (Info ''Seed script completed successfully!'')) (\<lambda>_.
        bindE (log_line (Info ''Destroying Strapi instance...'')) (\<lambda>_.
        bindE (platform_call destroy) (\<lambda>_.
        bindE (log_line (Info ''All done! You can now start Strapi with: npm run develop'')) (\<lambda>_.
          returnE 0))))))))))))
       (\<lambda>error. bindE (log_line (Err ''Seed script failed:'')) (\<lambda>_.
                bindE (log_line (ErrObj error)) (\<lambda>_. returnE 1)))"

lemma platform_call_apply [exc_simps]:
  "platform_call r w = (case r of None \<Rightarrow> (Inr (), w) | Some e \<Rightarrow> (Inl e, w))"
  by (simp add: platform_call_def returnE_def throwE_def split: option.splits)

lemma seedPelagicApp_Inr: "\<exists>w'. seedPelagicApp h w = (Inr (), w')"
  using seedPelagicApp_never_fails [of h w] by (metis prod.collapse)

text \<open>
  The seed script's exit code: 1 exactly when compiling, loading or destroying the
  platform throws, and 0 otherwise, also when the seed import itself failed (the
  bootstrap hook swallows that failure) or was skipped because the run-once flag was
  already set. The guard's store calls are taken to succeed (see \<open>Platform\<close>); in the
  program a store failure there would also give 1.
\<close>

lemma seed_main_exit_code:
  "fst (seed_main compile load destroy h w) =
     Inr (if compile = None \<and> load = None \<and> destroy = None then 0 else 1)"
proof (cases "compile = None \<and> load = None")
  case True
  obtain w' where s: "seedPelagicApp h (w\<lparr>console := console w @
      [Info ''Starting Pelagic CMS seed script...'', Info ''Compiling Strapi...'',
       Info ''Creating Strapi instance...'', Info ''Running seed function...'']\<rparr>) = (Inr (), w')"
    using seedPelagicApp_Inr by blast
  show ?thesis
    using True s by (cases destroy)
      (simp_all add: seed_main_def bindE_def catchE_def log_line_apply platform_call_apply returnE_def)
next
  case False
  then show ?thesis
    by (cases compile; cases load)
      (simp_all add: seed_main_def bindE_def catchE_def log_line_apply platform_call_apply returnE_def)
qed

text \<open>
  A run in which the platform refuses to create the home page: the script reports
  success and exits with 0 although no document was created; the failure only shows as
  a console line.
\<close>

theorem seed_main_hides_failed_import:
  "let w = fresh_world\<lparr>create_rejects := (\<lambda>u. if u = home_page_uid then Some ''database is locked'' else None)\<rparr>;
       r = seed_main None None None (JObj [(''sections'', JArr [])]) w
   in fst r = Inr 0 \<and> documents (snd r) = [] \<and>
      ErrObj (DocumentCreateFailed home_page_uid ''database is locked'') \<in> set (console (snd r))"
  by (simp add: seed_main_def seedPelagicApp_run seed_import_def importSeedData_def
      setPublicPermissions_run importHomePage_def import_body_def process_seo_def section_items_def
      create_home_page_def create_document_def seed_permissions_def perm_actions_def action_name_def
      bindE_def catchE_def log_line_apply platform_call_apply returnE_def throwE_def
      set_flag_def init_key_def Let_def fresh_world_def home_page_uid_def)

end
