(* ===== verification/AdminPreview.thy ===== *)
theory AdminPreview
  imports Platform
begin

text \<open>
  The admin panel configuration \<open>src/config/admin.js\<close>: the preview-path function
  \<open>getPreviewPathname\<close> (lines 4--31), the configuration factory (lines 33--89) reading
  \<open>CLIENT_URL\<close> and \<open>PREVIEW_SECRET\<close> with their defaults, and the preview \<open>handler\<close>
  (lines 58--85), which looks the document up and builds the draft-mode URL
  \<open>${clientUrl}/api/draft?secret=${previewSecret}&path=${encodeURIComponent(pathname)}\<close>.
  Strings are byte strings (UTF-8 already applied), so \<open>encodeURIComponent\<close> and
  \<open>decodeURIComponent\<close> are modelled from ECMA-262 on bytes: every byte outside the
  unreserved set \<open>A-Z a-z 0-9 - _ . ! ~ * ' ( )\<close> becomes \<open>%XX\<close> with upper-case hex
  digits; decoding accepts either case and fails on a malformed escape. The query of the
  URL is read the way \<open>URLSearchParams\<close> splits it, on \<open>&\<close> and on the first \<open>=\<close>
  (without the \<open>+\<close> and percent decoding, which the property below does not need).
\<close>

subsection \<open>Preview paths\<close>

definition getPreviewPathname :: "string \<Rightarrow> json option \<Rightarrow> string option" where
  "getPreviewPathname uid document =
     (if uid = ''api::home-page.home-page'' then Some ''/''
      else if uid = ''api::journal-article.journal-article'' then
        (let slug = (case document of None \<Rightarrow> None | Some d \<Rightarrow> get_field d ''slug'') in
         if \<not> truthy_opt slug then Some ''/journal''
         else Some (''/journal/'' @ js_to_string (the slug)))
      else if uid = ''api::journal-page.journal-page'' then Some ''/journal''
      else if uid = ''api::global-setting.global-setting'' then None
      else None)"

subsection \<open>URI components\<close>

definition hex_digit :: "nat \<Rightarrow> char" where
  "hex_digit n = ''0123456789ABCDEF'' ! n"

definition hex_value :: "char \<Rightarrow> nat option" where
  "hex_value c = map_of (zip ''0123456789ABCDEFabcdef'' ([0..<16] @ [10..<16])) c"

definition uri_unreserved :: "char \<Rightarrow> bool" where
  "uri_unreserved c \<longleftrightarrow>
     c \<in> set ''ABCDEFGHIJKLMNOPQRSTUVWXYZabcdefghijklmnopqrstuvwxyz0123456789-_.!~*'()''"

definition encode_byte :: "char \<Rightarrow> string" where
  "encode_byte c =
     (if uri_unreserved c then [c]
      else [CHR ''%'', hex_digit (of_char c div 16), hex_digit (of_char c mod 16)])"

definition encodeURIComponent :: "string \<Rightarrow> string" where
  "encodeURIComponent s = concat (map encode_byte s)"

fun decodeURIComponent :: "string \<Rightarrow> string option" where
  "decodeURIComponent [] = Some []"
| "decodeURIComponent (c # s) =
     (if c = CHR ''%'' then
        (case s of
           a # b # rest \<Rightarrow>
             (case (hex_value a, hex_value b, decodeURIComponent rest) of
                (Some x, Some y, Some r) \<Rightarrow> Some (char_of (16 * x + y) # r)
              | _ \<Rightarrow> None)
         | _ \<Rightarrow> None)
      else map_option (Cons c) (decodeURIComponent s))"

definition query_params :: "string \<Rightarrow> (string \<times> string) list" where
  "query_params q =
     map (\<lambda>kv. (takeWhile (\<lambda>c. c \<noteq> CHR ''='') kv, drop 1 (dropWhile (\<lambda>c. c \<noteq> CHR ''='') kv)))
       (split_on CHR ''&'' q)"

definition url_query :: "string \<Rightarrow> string" where
  "url_query u = drop 1 (dropWhile (\<lambda>c. c \<noteq> CHR ''?'') u)"

subsection \<open>Configuration and handler\<close>

type_synonym env = "string \<Rightarrow> string option"

definition env_or :: "env \<Rightarrow> string \<Rightarrow> string \<Rightarrow> string" where
  "env_or e name dflt = (case e name of Some v \<Rightarrow> v | None \<Rightarrow> dflt)"

record preview_config =
  client_url :: string
  preview_secret :: string
  allowed_origins :: string

definition admin_preview_config :: "env \<Rightarrow> preview_config" where
  "admin_preview_config e =
     (let clientUrl = env_or e ''CLIENT_URL'' ''http://localhost:3000'';
          previewSecret = env_or e ''PREVIEW_SECRET'' ''your-secret-key-change-in-production''
      in \<lparr>client_url = clientUrl, preview_secret = previewSecret, allowed_origins = clientUrl\<rparr>)"

text \<open>
  \<open>env.bool(name, default)\<close> of Strapi's environment helper: the default when the
  variable is unset, otherwise whether it is exactly the string \<open>true\<close>.
\<close>

definition env_bool :: "env \<Rightarrow> string \<Rightarrow> bool \<Rightarrow> bool" where
  "env_bool e name dflt = (case e name of None \<Rightarrow> dflt | Some v \<Rightarrow> v = ''true'')"

text \<open>
  The whole object the factory returns: \<open>env(name)\<close> without a default is \<open>undefined\<close>
  (\<open>None\<close>) when the variable is unset.
\<close>

record admin_settings =
  auth_secret :: "string option"
  api_token_salt :: "string option"
  transfer_token_salt :: "string option"
  flag_nps :: bool
  flag_promote_ee :: bool
  preview_enabled :: bool
  preview_settings :: preview_config

definition admin_exports :: "env \<Rightarrow> admin_settings" where
  "admin_exports e =
     \<lparr>auth_secret = e ''ADMIN_JWT_SECRET'', api_token_salt = e ''API_TOKEN_SALT'',
      transfer_token_salt = e ''TRANSFER_TOKEN_SALT'',
      flag_nps = env_bool e ''FLAG_NPS'' True, flag_promote_ee = env_bool e ''FLAG_PROMOTE_EE'' True,
      preview_enabled = True, preview_settings = admin_preview_config e\<rparr>"

definition preview_url :: "preview_config \<Rightarrow> string \<Rightarrow> string" where
  "preview_url cfg pathname =
     client_url cfg @ ''/api/draft?secret='' @ preview_secret cfg @ ''&path='' @ encodeURIComponent pathname"

definition preview_handler :: "preview_config \<Rightarrow> string \<Rightarrow> string \<Rightarrow> string option op" where
  "preview_handler cfg uid documentId =
     catchE
       (bindE (find_document uid documentId) (\<lambda>document.
          if document = None then returnE None
          else (case getPreviewPathname uid document of
                  None \<Rightarrow> returnE None
                | Some pathname \<Rightarrow>
                    if pathname = [] then returnE None
                    else returnE (Some (preview_url cfg pathname)))))
       (\<lambda>error. bindE (log_line (ErrWith (''Preview handler error for '' @ uid @ '':'') error)) (\<lambda>_.
                  returnE None))"

subsection \<open>Encoding round trip\<close>

lemma hex_value_hex_digit [simp]: "n < 16 \<Longrightarrow> hex_value (hex_digit n) = Some n"
proof -
  have "\<forall>n\<in>set [0..<16]. hex_value (hex_digit n) = Some n"
    by (simp add: hex_value_def hex_digit_def upt_rec)
  then show "n < 16 \<Longrightarrow> ?thesis" by simp
qed

lemma hex_digit_mem: "n < 16 \<Longrightarrow> hex_digit n \<in> set ''0123456789ABCDEF''"
  unfolding hex_digit_def by (rule nth_mem) simp

lemma of_char_hex_parts: "of_char c div 16 < (16::nat)" "of_char c mod 16 < (16::nat)"
  using nat_of_char_less_256 [of c]
  by (simp_all add: less_mult_imp_div_less [where n=16, simplified])

lemma encodeURIComponent_Cons: "encodeURIComponent (c # s) = encode_byte c @ encodeURIComponent s"
  by (simp add: encodeURIComponent_def)

lemma encodeURIComponent_reserved:
  assumes "\<not> uri_unreserved c" and "c \<notin> set ''%0123456789ABCDEF''"
  shows "c \<notin> set (encodeURIComponent s)"
proof
  assume "c \<in> set (encodeURIComponent s)"
  then obtain x where "x \<in> set s" and x: "c \<in> set (encode_byte x)"
    by (auto simp: encodeURIComponent_def)
  show False
  proof (cases "uri_unreserved x")
    case True
    with x assms(1) show False by (simp add: encode_byte_def)
  next
    case False
    with x have "c = CHR ''%'' \<or> c = hex_digit (of_char x div 16) \<or> c = hex_digit (of_char x mod 16)"
      by (simp add: encode_byte_def)
    with assms(2) hex_digit_mem [OF of_char_hex_parts(1) [of x]] hex_digit_mem [OF of_char_hex_parts(2) [of x]]
    show False by auto
  qed
qed

text \<open>Percent-encoding is reversible on every byte string.\<close>

lemma decode_encode: "decodeURIComponent (encodeURIComponent s) = Some s"
proof (induction s)
  case Nil
  then show ?case by (simp add: encodeURIComponent_def)
next
  case (Cons c s)
  have "char_of (16 * (of_char c div 16) + of_char c mod 16 :: nat) = c"
    by (simp add: char_of_char)
  moreover have "\<not> uri_unreserved CHR ''%''" by (simp add: uri_unreserved_def)
  ultimately show ?case
    using Cons.IH of_char_hex_parts [of c]
    by (auto simp: encodeURIComponent_Cons encode_byte_def)
qed

subsection \<open>Preview paths and URLs\<close>

lemma getPreviewPathname_abs: "getPreviewPathname uid d = Some p \<Longrightarrow> \<exists>q. p = CHR ''/'' # q"
  by (auto simp: getPreviewPathname_def Let_def split: if_splits)

text \<open>(C18)
  Exactly the home page, journal articles and the journal page have a preview, and
  every preview path is absolute; an article with a truthy string slug \<open>s\<close> is previewed
  at \<open>/journal/s\<close>, and one without a slug at the journal listing.
\<close>

theorem getPreviewPathname_routes:
  "(getPreviewPathname uid d = None \<longleftrightarrow>
      uid \<notin> {''api::home-page.home-page'', ''api::journal-article.journal-article'',
              ''api::journal-page.journal-page''}) \<and>
   (\<forall>p. getPreviewPathname uid d = Some p \<longrightarrow> hd p = CHR ''/'') \<and>
   (\<forall>s. s \<noteq> [] \<longrightarrow> getPreviewPathname ''api::journal-article.journal-article''
          (Some (JObj [(''slug'', JStr s)])) = Some (''/journal/'' @ s)) \<and>
   getPreviewPathname ''api::journal-article.journal-article'' (Some (JObj [])) = Some ''/journal''"
proof -
  have "\<forall>p. getPreviewPathname uid d = Some p \<longrightarrow> hd p = CHR ''/''"
    using getPreviewPathname_abs by fastforce
  then show ?thesis
    by (auto simp: getPreviewPathname_def Let_def)
qed

theorem getPreviewPathname_routes_witness:
  "getPreviewPathname ''api::home-page.home-page'' None = Some ''/'' \<and>
   getPreviewPathname ''api::journal-article.journal-article''
     (Some (JObj [(''slug'', JStr ''deep-sea'')])) = Some ''/journal/deep-sea'' \<and>
   getPreviewPathname ''api::global-setting.global-setting'' None = None"
proof -
  note r = getPreviewPathname_routes [of "''api::global-setting.global-setting''" None]
  have "getPreviewPathname ''api::global-setting.global-setting'' None = None"
    using r by simp
  moreover have "getPreviewPathname ''api::journal-article.journal-article''
     (Some (JObj [(''slug'', JStr ''deep-sea'')])) = Some ''/journal/deep-sea''"
    using r by simp
  ultimately show ?thesis by (simp add: getPreviewPathname_def)
qed

lemma preview_handler_run:
  "preview_handler cfg uid did w =
     (Inr (case fst (find_document uid did w) of
             Inr (Some d) \<Rightarrow> map_option (preview_url cfg) (getPreviewPathname uid (Some d))
           | _ \<Rightarrow> None), w)"
proof -
  have ne: "getPreviewPathname uid d = Some p \<Longrightarrow> p \<noteq> []" for d p
    using getPreviewPathname_abs by blast
  show ?thesis
    by (auto simp: preview_handler_def catchE_def bindE_def returnE_def find_document_apply
        dest: ne split: option.splits)
qed

lemma encodeURIComponent_no_amp: "CHR ''&'' \<notin> set (encodeURIComponent p)"
  by (rule encodeURIComponent_reserved) (simp_all add: uri_unreserved_def)

lemma url_query_preview_url:
  "CHR ''?'' \<notin> set (client_url cfg) \<Longrightarrow>
   url_query (preview_url cfg p) = ''secret='' @ preview_secret cfg @ CHR ''&'' # ''path='' @ encodeURIComponent p"
  by (subgoal_tac "\<forall>x\<in>set (client_url cfg). x \<noteq> CHR ''?''")
     (simp_all add: url_query_def preview_url_def dropWhile_append2, blast)

lemma query_params_preview_url:
  assumes "CHR ''?'' \<notin> set (client_url cfg)" and "CHR ''&'' \<notin> set (preview_secret cfg)"
  shows "query_params (url_query (preview_url cfg p)) =
           [(''secret'', preview_secret cfg), (''path'', encodeURIComponent p)]"
proof -
  have amp: "CHR ''&'' \<notin> set (encodeURIComponent p)" by (rule encodeURIComponent_no_amp)
  have q: "url_query (preview_url cfg p) =
             ''secret='' @ preview_secret cfg @ CHR ''&'' # ''path='' @ encodeURIComponent p"
    using assms(1) by (rule url_query_preview_url)
  have s: "split_on CHR ''&'' (url_query (preview_url cfg p)) =
             [''secret='' @ preview_secret cfg, ''path='' @ encodeURIComponent p]"
  proof -
    have "split_on CHR ''&'' ((''secret='' @ preview_secret cfg) @ CHR ''&'' # ''path='' @ encodeURIComponent p) =
          (''secret='' @ preview_secret cfg) # split_on CHR ''&'' (''path='' @ encodeURIComponent p)"
      by (rule split_on_append_sep) (simp add: assms(2))
    moreover have "split_on CHR ''&'' (''path='' @ encodeURIComponent p) = [''path='' @ encodeURIComponent p]"
      by (rule split_on_no_sep) (simp add: amp)
    ultimately show ?thesis unfolding q by simp
  qed
  show ?thesis by (simp add: query_params_def s)
qed

text \<open>(C17)
  For a client URL without \<open>?\<close> and a secret without \<open>&\<close>, a preview link is produced
  only for a stored document of a previewable type, it starts with the client URL, and
  its query is exactly \<open>secret\<close> with the configured secret and \<open>path\<close> with a value that
  decodes to the document's preview path.
\<close>

theorem preview_handler_url:
  assumes "CHR ''?'' \<notin> set (client_url cfg)" and "CHR ''&'' \<notin> set (preview_secret cfg)"
    and "fst (preview_handler cfg uid did w) = Inr (Some url)"
  shows "\<exists>d p. fst (find_document uid did w) = Inr (Some d) \<and> getPreviewPathname uid (Some d) = Some p \<and>
           prefix (client_url cfg) url \<and>
           query_params (url_query url) = [(''secret'', preview_secret cfg), (''path'', encodeURIComponent p)] \<and>
           decodeURIComponent (encodeURIComponent p) = Some p"
proof -
  obtain d p where d: "fst (find_document uid did w) = Inr (Some d)"
    and p: "getPreviewPathname uid (Some d) = Some p" and u: "url = preview_url cfg p"
    using assms(3) by (auto simp: preview_handler_run find_document_apply split: option.splits)
  have "prefix (client_url cfg) url" by (simp add: u preview_url_def)
  moreover have "decodeURIComponent (encodeURIComponent p) = Some p"
    by (rule decode_encode)
  ultimately show ?thesis
    using d p u query_params_preview_url [OF assms(1,2)] by blast
qed

theorem preview_handler_url_witness:
  "fst (preview_handler (admin_preview_config (\<lambda>_. None)) ''api::journal-article.journal-article'' ''7''
        (fresh_world\<lparr>documents := [(''api::journal-article.journal-article'', ''7'',
                                    JObj [(''slug'', JStr ''deep-sea'')])]\<rparr>))
     = Inr (Some ''http://localhost:3000/api/draft?secret=your-secret-key-change-in-production&path=%2Fjournal%2Fdeep-sea'') \<and>
   query_params (url_query ''http://localhost:3000/api/draft?secret=your-secret-key-change-in-production&path=%2Fjournal%2Fdeep-sea'') =
     [(''secret'', ''your-secret-key-change-in-production''), (''path'', ''%2Fjournal%2Fdeep-sea'')]"
proof -
  let ?cfg = "admin_preview_config (\<lambda>_. None)" and ?uid = "''api::journal-article.journal-article''"
    and ?w = "fresh_world\<lparr>documents := [(''api::journal-article.journal-article'', ''7'',
                                    JObj [(''slug'', JStr ''deep-sea'')])]\<rparr>"
    and ?url = "''http://localhost:3000/api/draft?secret=your-secret-key-change-in-production&path=%2Fjournal%2Fdeep-sea''"
  have enc: "encodeURIComponent ''/journal/deep-sea'' = ''%2Fjournal%2Fdeep-sea''"
    by (simp add: encodeURIComponent_def encode_byte_def uri_unreserved_def hex_digit_def)
  have h: "fst (preview_handler ?cfg ?uid ''7'' ?w) = Inr (Some ?url)"
    by (simp add: preview_handler_run find_document_apply getPreviewPathname_def preview_url_def
        admin_preview_config_def env_or_def Let_def enc)
  have c: "CHR ''?'' \<notin> set (client_url ?cfg)" "CHR ''&'' \<notin> set (preview_secret ?cfg)"
    by (simp_all add: admin_preview_config_def env_or_def Let_def)
  from preview_handler_url [OF c h] obtain d p where
    "fst (find_document ?uid ''7'' ?w) = Inr (Some d)" and "getPreviewPathname ?uid (Some d) = Some p"
    and q: "query_params (url_query ?url) = [(''secret'', preview_secret ?cfg), (''path'', encodeURIComponent p)]"
    by blast
  then have "p = ''/journal/deep-sea''"
    by (auto simp: find_document_apply getPreviewPathname_def Let_def)
  with q h show ?thesis by (simp add: enc admin_preview_config_def env_or_def Let_def)
qed

text \<open>(C21)
  The secret is spliced into the query without encoding: for every configuration whose
  secret contains \<open>&path=\<close>, the query of every preview link carries a \<open>path\<close> parameter
  taken from the secret before the real one, and that injected value is the one a
  first-match lookup of \<open>path\<close> (as \<open>URLSearchParams.get\<close>) returns.
\<close>

theorem preview_secret_injection:
  assumes "CHR ''?'' \<notin> set (client_url cfg)"
    and "preview_secret cfg = s1 @ ''&path='' @ s2"
    and "CHR ''&'' \<notin> set s1" and "CHR ''&'' \<notin> set s2"
  shows "query_params (url_query (preview_url cfg p)) =
           [(''secret'', s1), (''path'', s2), (''path'', encodeURIComponent p)] \<and>
         map_of (query_params (url_query (preview_url cfg p))) ''path'' = Some s2"
proof -
  have amp: "CHR ''&'' \<notin> set (encodeURIComponent p)" by (rule encodeURIComponent_no_amp)
  have q: "url_query (preview_url cfg p) =
             (''secret='' @ s1) @ CHR ''&'' # (''path='' @ s2) @ CHR ''&'' # ''path='' @ encodeURIComponent p"
    using url_query_preview_url [OF assms(1)] assms(2) by simp
  have "split_on CHR ''&'' (url_query (preview_url cfg p)) =
          [''secret='' @ s1, ''path='' @ s2, ''path='' @ encodeURIComponent p]"
    unfolding q using assms(3,4) amp
    by (simp add: split_on_append_sep split_on_no_sep)
  then show ?thesis by (simp add: query_params_def)
qed

theorem preview_secret_injection_witness:
  "let cfg = admin_preview_config (\<lambda>n. if n = ''PREVIEW_SECRET'' then Some ''s3cret&path=/admin'' else None)
   in CHR ''?'' \<notin> set (client_url cfg) \<and> preview_secret cfg = ''s3cret'' @ ''&path='' @ ''/admin'' \<and>
      query_params (url_query (preview_url cfg ''/'')) =
        [(''secret'', ''s3cret''), (''path'', ''/admin''), (''path'', encodeURIComponent ''/'')] \<and>
      map_of (query_params (url_query (preview_url cfg ''/''))) ''path'' = Some ''/admin''"
proof -
  let ?cfg = "admin_preview_config (\<lambda>n. if n = ''PREVIEW_SECRET'' then Some ''s3cret&path=/admin'' else None)"
  have c: "CHR ''?'' \<notin> set (client_url ?cfg)"
    by (simp add: admin_preview_config_def env_or_def Let_def)
  have s: "preview_secret ?cfg = ''s3cret'' @ ''&path='' @ ''/admin''"
    by (simp add: admin_preview_config_def env_or_def Let_def)
  have a: "CHR ''&'' \<notin> set ''s3cret''" "CHR ''&'' \<notin> set ''/admin''" by simp_all
  show ?thesis using preview_secret_injection [OF c s a, of "''/''"] c s by (simp add: Let_def)
qed

text \<open>
  Without \<open>PREVIEW_SECRET\<close> in the environment the preview secret is the constant of
  the source, known to anyone who reads the repository.
\<close>

lemma preview_default_secret:
  "preview_secret (admin_preview_config (\<lambda>_. None)) = ''your-secret-key-change-in-production''"
  by (simp add: admin_preview_config_def env_or_def Let_def)

subsection \<open>The rest of the configuration\<close>

text \<open>
  The admin configuration takes its secrets from the environment without defaults (an
  unset variable leaves the secret undefined), keeps each feature flag on when its
  variable is unset and turns it off for every value but the exact string \<open>true\<close> (so
  \<open>1\<close> or \<open>TRUE\<close> turn it off), always enables preview, and allows exactly the client
  URL as the preview origin, the same URL its preview links start with.
\<close>

lemma admin_exports_settings:
  "auth_secret (admin_exports e) = e ''ADMIN_JWT_SECRET'' \<and>
   (flag_nps (admin_exports e) \<longleftrightarrow> e ''FLAG_NPS'' \<in> {None, Some ''true''}) \<and>
   (flag_promote_ee (admin_exports e) \<longleftrightarrow> e ''FLAG_PROMOTE_EE'' \<in> {None, Some ''true''}) \<and>
   preview_enabled (admin_exports e) \<and>
   allowed_origins (preview_settings (admin_exports e)) = client_url (preview_settings (admin_exports e)) \<and>
   prefix (client_url (preview_settings (admin_exports e))) (preview_url (preview_settings (admin_exports e)) p)"
  by (auto simp: admin_exports_def env_bool_def admin_preview_config_def preview_url_def Let_def
      split: option.split)

end
