(* ===== verification/Schema.thy ===== *)
theory Schema
  imports Sections
begin

text \<open>
  The generated component schemas \<open>src/types/generated/components.d.ts\<close>: for each
  component of the \<open>ComponentSchemas\<close> registry (lines 324--345) its attributes
  (lines 3--322), each a media attribute (single or multiple), a nested component
  (single or repeatable) or a scalar (string, text, rich text, e-mail, boolean,
  enumeration, relation). The table is compared with the fields \<open>processSection\<close>
  resolves through the media uploader.
\<close>

datatype attr_kind = Media bool | Component string bool | Scalar

type_synonym schema = "(string \<times> (string \<times> attr_kind) list) list"

definition component_schemas :: schema where
  "component_schemas =
     [(''sections.applications'',
        [(''applications'', Component ''shared.application-card'' True), (''title'', Scalar)]),
      (''sections.contact'',
        [(''blocks'', Component ''shared.contact-block'' True), (''title'', Scalar)]),
      (''sections.faqs'',
        [(''items'', Component ''shared.faq-item'' True), (''title'', Scalar)]),
      (''sections.hero'',
        [(''desktopHeroImage'', Media False), (''desktopSupportImages'', Media True),
         (''heroCopy'', Scalar), (''mobileHeroImage'', Media False), (''mobileSupportImages'', Media True)]),
      (''sections.impact'',
        [(''calloutLabel'', Scalar), (''calloutNumber'', Scalar), (''description'', Scalar),
         (''testimonialName'', Scalar),
         (''testimonialQuote'', Scalar), (''title'', Scalar)]),
      (''sections.milan-design-week'',
        [(''buttonLabel'', Scalar), (''buttonUrl'', Scalar), (''description'', Scalar),
         (''thumbnail'', Media False),
         (''title'', Scalar), (''video'', Media False)]),
      (''sections.mission'', [(''body'', Scalar), (''taglineText'', Scalar)]),
      (''sections.overview'',
        [(''description'', Scalar), (''items'', Component ''shared.overview-item'' True),
         (''title'', Scalar)]),
      (''sections.product'',
        [(''buttonAction'', Scalar), (''buttonLabel'', Scalar), (''description'', Scalar),
         (''externalUrl'', Scalar),
         (''internalLink'', Scalar), (''title'', Scalar)]),
      (''sections.small-gallery'', [(''items'', Component ''shared.responsive-image'' True)]),
      (''shared.application-card'',
        [(''description'', Scalar), (''image'', Media False), (''title'', Scalar)]),
      (''shared.contact-block'',
        [(''description'', Scalar), (''email'', Scalar),
         (''externalLink'', Component ''shared.external-link'' False), (''label'', Scalar)]),
      (''shared.external-link'', [(''label'', Scalar), (''openInNewTab'', Scalar), (''url'', Scalar)]),
      (''shared.faq-item'', [(''answer'', Scalar), (''email'', Scalar), (''question'', Scalar)]),
      (''shared.image-pair'',
        [(''caption'', Scalar), (''left_image'', Media False), (''right_image'', Media False)]),
      (''shared.image-text'',
        [(''alignment'', Scalar), (''body'', Scalar), (''image'', Media False), (''title'', Scalar)]),
      (''shared.media-block'', [(''caption'', Scalar), (''image'', Media False)]),
      (''shared.overview-item'', [(''description'', Scalar), (''title'', Scalar)]),
      (''shared.responsive-image'', [(''desktopImage'', Media False), (''mobileImage'', Media False)]),
      (''shared.rich-text'', [(''content'', Scalar)]),
      (''shared.seo'', [(''metaDescription'', Scalar), (''metaTitle'', Scalar), (''shareImage'', Media False)]),
      (''shared.video-block'',
        [(''caption'', Scalar), (''thumbnail'', Media False), (''videoMedia'', Media False),
         (''videoUrl'', Scalar)])]"

definition attributes :: "string \<Rightarrow> (string \<times> attr_kind) list" where
  "attributes c = (case map_of component_schemas c of Some as \<Rightarrow> as | None \<Rightarrow> [])"

definition section_components :: "string list" where
  "section_components = filter (\<lambda>c. prefix ''sections.'' c) (map fst component_schemas)"

fun is_media :: "attr_kind \<Rightarrow> bool" where
  "is_media (Media _) = True"
| "is_media _ = False"

definition top_media :: "string \<Rightarrow> string list" where
  "top_media c = map fst (filter (\<lambda>fk. is_media (snd fk)) (attributes c))"



subsection \<open>The schema against \<open>processSection\<close>\<close>

lemma section_components_list:
  "section_components =
     [''sections.applications'', ''sections.contact'', ''sections.faqs'', ''sections.hero'',
      ''sections.impact'', ''sections.milan-design-week'', ''sections.mission'', ''sections.overview'',
      ''sections.product'', ''sections.small-gallery'']"
  by (simp add: section_components_def component_schemas_def)

lemma section_media_table:
  "map (\<lambda>c. (c, filter (\<lambda>fk. is_media (snd fk)) (attributes c))) section_components =
     [(''sections.applications'', []), (''sections.contact'', []), (''sections.faqs'', []),
      (''sections.hero'', [(''desktopHeroImage'', Media False), (''desktopSupportImages'', Media True),
                          (''mobileHeroImage'', Media False), (''mobileSupportImages'', Media True)]),
      (''sections.impact'', []),
      (''sections.milan-design-week'', [(''thumbnail'', Media False), (''video'', Media False)]),
      (''sections.mission'', []), (''sections.overview'', []), (''sections.product'', []),
      (''sections.small-gallery'', [])]"
  by (simp add: section_components_list attributes_def component_schemas_def)


lemma section_media_attributes:
  assumes "c \<in> set section_components" and "(k, kind) \<in> set (attributes c)" and "is_media kind"
  shows "(c, k, kind) \<in> set
           [(''sections.hero'', ''desktopHeroImage'', Media False),
            (''sections.hero'', ''desktopSupportImages'', Media True),
            (''sections.hero'', ''mobileHeroImage'', Media False),
            (''sections.hero'', ''mobileSupportImages'', Media True),
            (''sections.milan-design-week'', ''thumbnail'', Media False),
            (''sections.milan-design-week'', ''video'', Media False)]"
proof -
  define F where "F = filter (\<lambda>fk. is_media (snd fk)) (attributes c)"
  have "(c, F) \<in> set (map (\<lambda>c. (c, filter (\<lambda>fk. is_media (snd fk)) (attributes c))) section_components)"
    using assms(1) unfolding F_def by simp
  then have cF: "(c, F) \<in> set
     [(''sections.applications'', []), (''sections.contact'', []), (''sections.faqs'', []),
      (''sections.hero'', [(''desktopHeroImage'', Media False), (''desktopSupportImages'', Media True),
                          (''mobileHeroImage'', Media False), (''mobileSupportImages'', Media True)]),
      (''sections.impact'', []),
      (''sections.milan-design-week'', [(''thumbnail'', Media False), (''video'', Media False)]),
      (''sections.mission'', []), (''sections.overview'', []), (''sections.product'', []),
      (''sections.small-gallery'', [])]"
    by (simp only: section_media_table)
  have "(k, kind) \<in> set F" using assms(2,3) unfolding F_def by simp
  with cF show ?thesis
    by (simp only: list.set insert_iff empty_iff prod.inject) (elim disjE conjE; simp)
qed


lemmas section_run_simps =
  processSection_def media_if_truthy_def media_if_nonempty_array_def Let_def
  bindE_def returnE_def log_line_apply

text \<open>(C19)
  \<open>processSection\<close> resolves every media attribute the schema gives a section
  component: for each section component and each of its top-level media attributes
  (single or multiple), a section holding a path to a file already in the media library in
  that attribute (a one-element list for a multiple attribute) comes back with the
  library file in that attribute and every other field as it was.
\<close>

theorem processSection_resolves_schema_media:
  assumes "c \<in> set section_components" and "(k, kind) \<in> set (attributes c)" and "is_media kind"
    and "p \<noteq> []" and "find (\<lambda>a. asset_name a = asset_key (JStr p)) (media w) = Some a"
  shows "\<exists>w'. processSection
                 (JObj [(''__component'', JStr c), (k, if kind = Media True then JArr [JStr p] else JStr p)]) w =
               (Inr (JObj [(''__component'', JStr c), (k, asset_json a)]), w')"
proof -
  let ?v = "if kind = Media True then JArr [JStr p] else JStr p"
  have fa: "files_array ?v = [JStr p]" by (simp add: files_array_def)
  have found: "\<exists>w1. checkFileExistsBeforeUpload ?v (w\<lparr>console := console w @ [l]\<rparr>) = (Inr (asset_json a), w1)"
    for l using checkFile_one_found [OF assms(4) _ fa] assms(5) by simp
  obtain w1 where h1: "checkFileExistsBeforeUpload ?v
      (w\<lparr>console := console w @ [Info ''   Processing Hero section...'']\<rparr>) = (Inr (asset_json a), w1)"
    using found by blast
  obtain w2 where h2: "checkFileExistsBeforeUpload ?v
      (w\<lparr>console := console w @ [Info ''   Processing Milan Design Week section...'']\<rparr>) = (Inr (asset_json a), w2)"
    using found by blast
  have "(c, k, kind) \<in> set
           [(''sections.hero'', ''desktopHeroImage'', Media False),
            (''sections.hero'', ''desktopSupportImages'', Media True),
            (''sections.hero'', ''mobileHeroImage'', Media False),
            (''sections.hero'', ''mobileSupportImages'', Media True),
            (''sections.milan-design-week'', ''thumbnail'', Media False),
            (''sections.milan-design-week'', ''video'', Media False)]"
    using assms(1-3) by (rule section_media_attributes)
  then show ?thesis
    using h1 h2 assms(4)
    by (simp only: list.set insert_iff empty_iff prod.inject) (elim disjE conjE; simp add: section_run_simps)
qed

theorem processSection_resolves_schema_media_witness:
  "\<exists>w'. processSection
          (JObj [(''__component'', JStr ''sections.hero''), (''mobileSupportImages'', JArr [JStr ''hero/s.jpg''])])
          (fresh_world\<lparr>media := [\<lparr>asset_id = 4, asset_name = ''s'', asset_alt = ''s'', asset_caption = ''s'',
                                  asset_file = ''s.jpg'', asset_mime = ''image/jpeg'', asset_size = 9\<rparr>]\<rparr>) =
        (Inr (JObj [(''__component'', JStr ''sections.hero''),
                    (''mobileSupportImages'', asset_json \<lparr>asset_id = 4, asset_name = ''s'', asset_alt = ''s'',
                       asset_caption = ''s'', asset_file = ''s.jpg'', asset_mime = ''image/jpeg'', asset_size = 9\<rparr>)]), w')"
proof -
  have c: "''sections.hero'' \<in> set section_components" by (simp add: section_components_list)
  have k: "(''mobileSupportImages'', Media True) \<in> set (attributes ''sections.hero'')"
    by (simp add: attributes_def component_schemas_def)
  have f: "find (\<lambda>a. asset_name a = asset_key (JStr ''hero/s.jpg''))
             (media (fresh_world\<lparr>media := [\<lparr>asset_id = 4, asset_name = ''s'', asset_alt = ''s'', asset_caption = ''s'',
                                  asset_file = ''s.jpg'', asset_mime = ''image/jpeg'', asset_size = 9\<rparr>]\<rparr>)) =
           Some \<lparr>asset_id = 4, asset_name = ''s'', asset_alt = ''s'', asset_caption = ''s'',
                  asset_file = ''s.jpg'', asset_mime = ''image/jpeg'', asset_size = 9\<rparr>"
    by (simp add: asset_key_def parseFilePath_def line_terminator_def)
  show ?thesis using processSection_resolves_schema_media [OF c k _ _ f] by simp
qed



end
