(* ===== verification/Middlewares.thy ===== *)
theory Middlewares
  imports JsValue
begin

text \<open>
  The middleware stack \<open>src/config/middlewares.js\<close>: an ordered list of Strapi middleware
  names, one of which (\<open>strapi::security\<close>) carries a configuration for helmet's
  Content-Security-Policy. The list is data; what it means is the order in which the
  platform runs the middlewares and the policy the browser enforces. The policy is
  modelled with the pieces of the CSP Level 3 algorithm it needs: the source expressions
  of the configuration (keywords such as \<open>'self'\<close>, scheme sources such as \<open>https:\<close>, host
  sources such as \<open>http://localhost:1337\<close>), the defaults the platform's security
  middleware adds to the configuration (\<open>connect-src\<close>, \<open>img-src\<close> and \<open>media-src\<close>, and
  \<open>upgrade-insecure-requests\<close> switched off), helmet's \<open>useDefaults\<close> merge (its
  documented default directives), each layer's directive replaced by a directive of the
  same name from the layer above, the fallback of fetch directives to \<open>default-src\<close>, and the match of a source
  list against a resource: a URL given by scheme and host (with port), inline code, or
  \<open>eval\<close>.
\<close>

subsection \<open>The configuration as written\<close>

definition sq :: "string \<Rightarrow> string" where
  "sq s = CHR 0x27 # s @ [CHR 0x27]"

type_synonym directives = "(string \<times> string list) list"

record csp_config =
  use_defaults :: bool
  csp_directives :: directives

datatype middleware = MwName string | MwSecurity csp_config

definition media_sources :: "string list" where
  "media_sources = [sq ''self'', ''data:'', ''blob:'', ''http://localhost:1337'', ''https:'']"

definition security_csp :: csp_config where
  "security_csp =
     \<lparr>use_defaults = True,
      csp_directives =
        [(''img-src'', [sq ''self'', ''data:'', ''blob:'', ''http://localhost:1337'', ''https:'']),
         (''media-src'', [sq ''self'', ''data:'', ''blob:'', ''http://localhost:1337'', ''https:'']),
         (''script-src'', [sq ''self'', sq ''unsafe-inline'', sq ''unsafe-eval'']),
         (''style-src'', [sq ''self'', sq ''unsafe-inline''])]\<rparr>"

definition middlewares :: "middleware list" where
  "middlewares =
     [MwName ''strapi::logger'', MwName ''strapi::errors'', MwSecurity security_csp,
      MwName ''strapi::cors'', MwName ''strapi::poweredBy'', MwName ''strapi::query'',
      MwName ''strapi::body'', MwName ''strapi::session'', MwName ''strapi::favicon'',
      MwName ''strapi::public'']"

fun mw_name :: "middleware \<Rightarrow> string" where
  "mw_name (MwName n) = n"
| "mw_name (MwSecurity c) = ''strapi::security''"

subsection \<open>Content-Security-Policy semantics\<close>

datatype csp_source =
    SrcSelf | SrcNone | SrcUnsafeInline | SrcUnsafeEval
  | SrcScheme string | SrcHost string string

text \<open>A source expression of the configuration, read as CSP parses it.\<close>

definition parse_source :: "string \<Rightarrow> csp_source" where
  "parse_source s =
     (if s = sq ''self'' then SrcSelf
      else if s = sq ''none'' then SrcNone
      else if s = sq ''unsafe-inline'' then SrcUnsafeInline
      else if s = sq ''unsafe-eval'' then SrcUnsafeEval
      else if s \<noteq> [] \<and> last s = CHR '':'' then SrcScheme (butlast s)
      else if js_includes s ''://''
           then SrcHost (takeWhile (\<lambda>c. c \<noteq> CHR '':'') s) (drop 3 (dropWhile (\<lambda>c. c \<noteq> CHR '':'') s))
      else SrcHost [] s)"

datatype resource = Url string string | InlineCode | EvalCode

text \<open>
  Whether a source matches a resource loaded by a page of origin \<open>page\<close>: \<open>'self'\<close> the
  page's own origin, a scheme source every URL of that scheme, a host source its host, with
  an \<open>http\<close> source also matching the \<open>https\<close> upgrade, and a scheme-less host source
  matching that host over \<open>http\<close> and \<open>https\<close>.
\<close>

fun src_matches :: "string \<times> string \<Rightarrow> csp_source \<Rightarrow> resource \<Rightarrow> bool" where
  "src_matches page SrcSelf (Url sc h) = ((sc, h) = page)"
| "src_matches page (SrcScheme s) (Url sc h) = (sc = s)"
| "src_matches page (SrcHost s hp) (Url sc h) =
     (h = hp \<and> (if s = [] then sc \<in> {''http'', ''https''}
               else sc = s \<or> (s = ''http'' \<and> sc = ''https'')))"
| "src_matches page SrcUnsafeInline InlineCode = True"
| "src_matches page SrcUnsafeEval EvalCode = True"
| "src_matches page _ _ = False"

text \<open>Helmet's default directives (the ones \<open>useDefaults: true\<close> starts from).\<close>

definition helmet_defaults :: directives where
  "helmet_defaults =
     [(''default-src'', [sq ''self'']), (''base-uri'', [sq ''self'']),
      (''font-src'', [sq ''self'', ''https:'', ''data:'']), (''form-action'', [sq ''self'']),
      (''frame-ancestors'', [sq ''self'']), (''img-src'', [sq ''self'', ''data:'']),
      (''object-src'', [sq ''none'']), (''script-src'', [sq ''self'']),
      (''script-src-attr'', [sq ''none'']), (''style-src'', [sq ''self'', ''https:'', sq ''unsafe-inline'']),
      (''upgrade-insecure-requests'', [])]"

text \<open>
  The defaults of the platform's security middleware, merged under the configuration
  before helmet sees it: three directives, and \<open>upgradeInsecureRequests: null\<close>, which
  removes that directive from helmet's defaults.
\<close>

definition strapi_security_defaults :: directives where
  "strapi_security_defaults =
     [(''connect-src'', [sq ''self'', ''https:'']),
      (''img-src'', [sq ''self'', ''data:'', ''blob:'', ''market-assets.strapi.io'']),
      (''media-src'', [sq ''self'', ''data:'', ''blob:'', ''market-assets.strapi.io''])]"

definition strapi_disabled :: "string list" where
  "strapi_disabled = [''upgrade-insecure-requests'']"

definition overlay :: "directives \<Rightarrow> directives \<Rightarrow> directives" where
  "overlay a b = a @ filter (\<lambda>d. fst d \<notin> set (map fst a)) b"

definition effective_policy :: "csp_config \<Rightarrow> directives" where
  "effective_policy c =
     filter (\<lambda>d. fst d \<notin> set strapi_disabled)
       (if use_defaults c
        then overlay (overlay (csp_directives c) strapi_security_defaults) helmet_defaults
        else overlay (csp_directives c) strapi_security_defaults)"

definition fetch_directives :: "string list" where
  "fetch_directives =
     [''script-src'', ''style-src'', ''img-src'', ''media-src'', ''font-src'', ''object-src'',
      ''connect-src'', ''frame-src'', ''worker-src'', ''manifest-src'']"

definition csp_allows :: "directives \<Rightarrow> string \<times> string \<Rightarrow> string \<Rightarrow> resource \<Rightarrow> bool" where
  "csp_allows pol page d r =
     (case map_of pol d of
        Some srcs \<Rightarrow> list_ex (\<lambda>s. src_matches page (parse_source s) r) srcs
      | None \<Rightarrow>
          if d \<in> set fetch_directives then
            (case map_of pol ''default-src'' of
               Some srcs \<Rightarrow> list_ex (\<lambda>s. src_matches page (parse_source s) r) srcs
             | None \<Rightarrow> True)
          else True)"

text \<open>The policy the security middleware of the stack sends.\<close>

definition stack_policy :: "middleware list \<Rightarrow> directives option" where
  "stack_policy ms =
     (case find (\<lambda>m. mw_name m = ''strapi::security'') ms of
        Some (MwSecurity c) \<Rightarrow> Some (effective_policy c)
      | _ \<Rightarrow> None)"

subsection \<open>Properties of the stack\<close>

lemma parse_source_config:
  "parse_source (sq ''self'') = SrcSelf"
  "parse_source (sq ''none'') = SrcNone"
  "parse_source (sq ''unsafe-inline'') = SrcUnsafeInline"
  "parse_source (sq ''unsafe-eval'') = SrcUnsafeEval"
  "parse_source ''data:'' = SrcScheme ''data''"
  "parse_source ''blob:'' = SrcScheme ''blob''"
  "parse_source ''https:'' = SrcScheme ''https''"
  "parse_source ''http://localhost:1337'' = SrcHost ''http'' ''localhost:1337''"
  by (simp_all add: parse_source_def sq_def)

lemma effective_policy_security:
  "effective_policy security_csp =
     csp_directives security_csp @
     [(''connect-src'', [sq ''self'', ''https:'']),
      (''default-src'', [sq ''self'']), (''base-uri'', [sq ''self'']),
      (''font-src'', [sq ''self'', ''https:'', ''data:'']), (''form-action'', [sq ''self'']),
      (''frame-ancestors'', [sq ''self'']), (''object-src'', [sq ''none'']),
      (''script-src-attr'', [sq ''none''])]"
  by (simp add: effective_policy_def overlay_def security_csp_def strapi_security_defaults_def
      helmet_defaults_def strapi_disabled_def)

lemma map_of_policy_media:
  "map_of (effective_policy security_csp) ''img-src'' = Some media_sources"
  "map_of (effective_policy security_csp) ''media-src'' = Some media_sources"
  unfolding effective_policy_security by (simp_all add: security_csp_def media_sources_def)

lemma media_sources_match:
  "list_ex (\<lambda>s. src_matches page (parse_source s) r) media_sources \<longleftrightarrow>
     (case r of
        Url sc h \<Rightarrow> (sc, h) = page \<or> sc \<in> {''data'', ''blob'', ''https''} \<or>
                     (h = ''localhost:1337'' \<and> sc = ''http'')
      | _ \<Rightarrow> False)"
proof (cases r)
  case (Url sc h)
  then show ?thesis
    by (simp add: media_sources_def parse_source_config) blast
qed (simp_all add: media_sources_def parse_source_config)

text \<open>(C25)
  Images and media may be loaded from the page's own origin, from \<open>data:\<close> and \<open>blob:\<close>
  URLs, from the local upload server \<open>localhost:1337\<close> (over \<open>http\<close> or \<open>https\<close>) and from
  every \<open>https\<close> host, and from nothing else; neither admits inline code or \<open>eval\<close>.
\<close>

theorem stack_policy_media_sources:
  assumes "stack_policy middlewares = Some P" and "d \<in> {''img-src'', ''media-src''}"
  shows "csp_allows P page d r \<longleftrightarrow>
           (case r of
              Url sc h \<Rightarrow> (sc, h) = page \<or> sc \<in> {''data'', ''blob'', ''https''} \<or>
                           (h = ''localhost:1337'' \<and> sc = ''http'')
            | _ \<Rightarrow> False)"
proof -
  have P: "P = effective_policy security_csp"
    using assms(1) by (simp add: middlewares_def stack_policy_def)
  have "d = ''img-src'' \<or> d = ''media-src''" using assms(2) by simp
  then have d: "map_of P d = Some media_sources"
    unfolding P by (elim disjE) (simp_all only: map_of_policy_media)
  show ?thesis
    unfolding csp_allows_def d option.case by (rule media_sources_match)
qed

theorem stack_policy_media_sources_witness:
  "stack_policy middlewares = Some (effective_policy security_csp) \<and>
   csp_allows (effective_policy security_csp) (''https'', ''cms.example'') ''img-src''
     (Url ''https'' ''cdn.example'') \<and>
   \<not> csp_allows (effective_policy security_csp) (''https'', ''cms.example'') ''media-src''
     (Url ''http'' ''cdn.example'')"
proof -
  have s: "stack_policy middlewares = Some (effective_policy security_csp)"
    by (simp add: middlewares_def stack_policy_def)
  note img = stack_policy_media_sources [OF s, of "''img-src''" "(''https'', ''cms.example'')"]
  note med = stack_policy_media_sources [OF s, of "''media-src''" "(''https'', ''cms.example'')"]
  show ?thesis using s img med by simp
qed

lemma map_of_policy_scripts:
  "map_of (effective_policy security_csp) ''script-src'' = Some [sq ''self'', sq ''unsafe-inline'', sq ''unsafe-eval'']"
  "map_of (effective_policy security_csp) ''style-src'' = Some [sq ''self'', sq ''unsafe-inline'']"
  unfolding effective_policy_security by (simp_all add: security_csp_def)

lemma stack_policy_security: "stack_policy middlewares = Some P \<Longrightarrow> P = effective_policy security_csp"
  by (simp add: middlewares_def stack_policy_def)

text \<open>(C26)
  Scripts may come from the page's own origin only, but inline scripts and \<open>eval\<close> are
  admitted on every page; styles may come from the page's own origin or be inline. So the
  policy gives no protection against injected inline scripts, which helmet's default
  \<open>script-src 'self'\<close> would block.
\<close>

theorem stack_policy_script_sources:
  assumes "stack_policy middlewares = Some P"
  shows "(csp_allows P page ''script-src'' r \<longleftrightarrow>
            (case r of Url sc h \<Rightarrow> (sc, h) = page | InlineCode \<Rightarrow> True | EvalCode \<Rightarrow> True)) \<and>
         (csp_allows P page ''style-src'' r \<longleftrightarrow>
            (case r of Url sc h \<Rightarrow> (sc, h) = page | InlineCode \<Rightarrow> True | EvalCode \<Rightarrow> False))"
proof -
  have P: "P = effective_policy security_csp" using assms by (rule stack_policy_security)
  show ?thesis
    unfolding P csp_allows_def map_of_policy_scripts option.case
    by (cases r) (simp_all add: parse_source_config)
qed

theorem stack_policy_script_sources_witness:
  "stack_policy middlewares = Some (effective_policy security_csp) \<and>
   csp_allows (effective_policy security_csp) (''https'', ''cms.example'') ''script-src'' InlineCode \<and>
   \<not> csp_allows (effective_policy security_csp) (''https'', ''cms.example'') ''script-src''
     (Url ''https'' ''cdn.example'')"
proof -
  have s: "stack_policy middlewares = Some (effective_policy security_csp)"
    by (simp add: middlewares_def stack_policy_def)
  note c = stack_policy_script_sources [OF s, of "(''https'', ''cms.example'')"]
  show ?thesis using s c [of InlineCode] c [of "Url ''https'' ''cdn.example''"] by simp
qed

end
