(* ===== verification/Spec2Isabelle.thy ===== *)
theory Spec2Isabelle
  imports SeedScript AdminPreview Schema Middlewares
begin

text \<open>
  A verification development of the Pelagic Strapi CMS repository: the seed routine
  \<open>src/src/bootstrap.js\<close> that fills a fresh database with the home page of
  \<open>data/data.json\<close>, the manual seed script \<open>src/scripts/seed.js\<close>, the admin preview
  configuration \<open>src/config/admin.js\<close> and the generated component schemas
  \<open>src/types/generated/components.d.ts\<close> and the middleware stack
  \<open>src/config/middlewares.js\<close>. JavaScript code is embedded shallowly: JSON
  values are the datatype \<open>json\<close>, objects association lists in key order; every
  \<open>async\<close> function is a value of the exception-state monad \<open>('e, 's, 'a) exc\<close> over the
  platform state \<open>world\<close>, \<open>await\<close> is \<open>bindE\<close>, \<open>throw\<close> is \<open>throwE\<close> and
  \<open>try\<close>/\<open>catch\<close> is \<open>catchE\<close>, so every error path of the code is an \<open>Inl\<close> of the
  datatype \<open>error\<close>. Loops are structural recursion on the list they iterate; there is
  no unbounded loop in the code, so no fuel is needed, except the schema walk below.

  \<^bold>\<open>Theories, bottom up.\<close>
  \<^item> \<open>Prelude\<close>: the monad (\<open>returnE\<close>, \<open>throwE\<close>, \<open>bindE\<close>, \<open>catchE\<close>, \<open>modifyE\<close>,
    \<open>getsE\<close>, \<open>mapE\<close>), its evaluation rules (collection \<open>exc_simps\<close>), the invariant
    combinator \<open>keeps\<close> and the frame combinator \<open>moves R m\<close> (every run of \<open>m\<close> relates
    its start and end state by \<open>R\<close>) with their composition rules.
  \<^item> \<open>JsValue\<close>: JSON values and the JavaScript operations the code uses: truthiness,
    property read, assignment and \<open>delete\<close> on objects (\<open>obj_set\<close>, \<open>obj_del\<close>), object
    spread, \<open>String(v)\<close>, \<open>split\<close>/\<open>join\<close> (with their round trip), \<open>includes\<close>, the
    extension-stripping \<open>replace(/\..*$/, '')\<close> (\<open>strip_ext\<close>, proved equal to the
    ECMA-262 regular-expression semantics \<open>replace_ext_ref\<close>) and \<open>toLowerCase\<close>.
  \<^item> \<open>Platform\<close>: the Strapi services the code calls, as a state record \<open>world\<close> (plugin
    store, roles, permission grants as a multiset, media library, documents, local files,
    console) with failure oracles (\<open>upload_rejects\<close>, \<open>permission_rejects\<close>,
    \<open>create_rejects\<close>) so that every rejection of an upload, a grant or a create is a
    branch; the reads and the plugin store always succeed (see \<^bold>\<open>Not modelled\<close>);
    the operations \<open>upload_service\<close>, \<open>find_file_by_name\<close>, \<open>find_role_by_type\<close>,
    \<open>create_permission\<close>, \<open>create_document\<close>, \<open>find_document\<close>, \<open>store_get\<close>,
    \<open>store_set\<close>, \<open>log_line\<close>; and the frame relations \<open>seed_step\<close>, \<open>media_step\<close>,
    \<open>import_step\<close>, \<open>perm_step\<close> saying which part of the state a component may change.
  \<^item> \<open>FilePath\<close>: \<open>parseFilePath\<close>, \<open>getFileSizeInBytes\<close>, \<open>getFileData\<close> (lines
    85--125), with Node's \<open>path.join\<close> and the \<open>mime-types\<close> lookup modelled from their
    documentation. Lemmas: the split at the last \<open>/\<close> and its round trip
    (\<open>parseFilePath_split\<close>); a plain fixture path resolves to exactly
    \<open>data/uploads/<path>\<close> (\<open>getFileData_plain\<close>); for every plain path \<open>q\<close>, the
    fixture path \<open>../../q\<close> reads \<open>q\<close> outside the root (\<open>getFileData_escapes_root\<close>).
  \<^item> \<open>MediaUploader\<close>: \<open>uploadFile\<close> and \<open>checkFileExistsBeforeUpload\<close> (lines 131--191),
    its loop \<open>check_loop\<close> with the found/uploaded accumulators, the rethrowing catch
    \<open>upload_missing\<close> and the single-or-array result. Lemmas: the exact outcome of a
    successful call (which names are uploaded, once each, in which order, and the
    found-first result order), reuse of existing assets, and the type of the result
    (\<open>media_value\<close>: a file entity or an array that never has one element).
  \<^item> \<open>Sections\<close>: \<open>processSection\<close> (lines 212--262) and \<open>importHomePage\<close> (lines
    268--326) with the SEO block, the sequential sections loop and the create that
    tolerates an existing entry. Lemmas: the shape invariant \<open>copy_inv\<close> of section
    copies, pass-through of other sections, every outcome of the create, the missing-file
    scenario and the successful import (one document, sections in fixture order).
  \<^item> \<open>Permissions\<close>: \<open>setPublicPermissions\<close> (lines 50--80) with the \<open>Promise.all\<close>
    fan-out as \<open>attempt\<close>/\<open>promise_all\<close>: every create is issued, the first rejection
    in issue order is reported, successful grants stay.
  \<^item> \<open>Bootstrap\<close>: \<open>isFirstRun\<close>, \<open>importSeedData\<close>, \<open>seedPelagicApp\<close> (its \<open>try\<close> block
    is \<open>seed_import\<close>) and \<open>createEntry\<close>. Start-ups are modelled twice: \<open>restarts n\<close> runs
    the hook \<open>n\<close> times in sequence; \<open>guard_step\<close> splits the guard at its two awaits and
    the inductive relation \<open>startups\<close> interleaves two start-ups on one store. Lemmas:
    the guard answers ``no'' the second time, sequential start-ups import at most once
    (and never retry a failed import), the split guard does what \<open>isFirstRun\<close> does;
    by rule induction over \<open>startups\<close>, when the first start-up passes its guard before
    the second begins, the second answers ``no'' in every interleaving
    (\<open>startups_serial_once\<close>), while overlapping ones can both import
    (\<open>startups_race_double_import\<close>).
  \<^item> \<open>SeedScript\<close>: \<open>main\<close> of \<open>seed.js\<close> as \<open>seed_main\<close>, the three platform calls
    (compile, load, destroy) as parameters; the exit code is 1 exactly when one of them
    throws, also when the import failed (under the store assumption below).
  \<^item> \<open>AdminPreview\<close>: the whole admin configuration \<open>admin_exports\<close> (secrets, salts,
    flags through \<open>env.bool\<close>, preview settings), \<open>getPreviewPathname\<close> and the preview
    handler, with \<open>encodeURIComponent\<close>/\<open>decodeURIComponent\<close> on bytes (ECMA-262) and the
    query split of \<open>URLSearchParams\<close>. Lemmas: routes, the decoding round trip and the
    structure of the preview URL; for every secret containing \<open>&path=\<close> the injected
    \<open>path\<close> comes first and is the one a first-match lookup returns.
  \<^item> \<open>Schema\<close>: the component registry of \<open>components.d.ts\<close> as a table; for every
    section component and each of its top-level media attributes, \<open>processSection\<close>
    resolves a library path in that attribute (\<open>processSection_resolves_schema_media\<close>),
    and every section whose media sits only in nested components (application cards,
    small gallery) is returned unchanged (\<open>processSection_keeps_nested_media\<close>). The nesting walk
    \<open>nested_media\<close> takes the registry's length as fuel, enough since a chain of nested
    components without repetition is no longer than the registry.
  \<^item> \<open>Middlewares\<close>: the stack of \<open>middlewares.js\<close> and its security configuration,
    with the Content-Security-Policy it yields: source expressions parsed as CSP Level 3
    parses them, the platform's security defaults and helmet's \<open>useDefaults\<close> merge
    under the configuration, and the match of a source list against a URL, inline code
    or \<open>eval\<close>. Lemmas: which origins may serve images and media
    (\<open>stack_policy_media_sources\<close>); scripts come from the own origin only but inline
    scripts and \<open>eval\<close> are admitted (\<open>stack_policy_script_sources\<close>).
  \<^item> \<open>Spec2Isabelle\<close> (this theory): the first start-up across components
    (\<open>seed_first_run_grants\<close>: grants made before the import survive its failure) and
    the bounds of one start-up (\<open>seedPelagicApp_bounds\<close>: at most one document and eight
    grants).

  \<^bold>\<open>Not modelled.\<close> The Strapi platform itself (its document store, query engine, upload
  pipeline, permission model, authentication) is the oracle-driven \<open>world\<close>, not code;
  failures of its reads (the \<open>findOne\<close> queries) and of the plugin store's \<open>get\<close> and
  \<open>set\<close> are not branches of the model, so the results about the run-once guard and the
  seed script's exit code hold for a store that answers; in the program the guard's
  store calls run outside the \<open>try\<close> of \<open>seedPelagicApp\<close>, and their failure would
  make the hook reject and the seed script exit with 1;
  the merge of the security configuration with the platform's defaults is taken as
  ``a configured directive replaces the default one of the same name'';
  file contents and streams (only sizes and existence of local files are kept); what
  the platform does with the admin secrets and with the middlewares other than the
  security one (the stack keeps their names in order; their behaviour is the platform's); the fixture
  \<open>data/data.json\<close>, which is data outside \<open>src/\<close> and enters as the parameter \<open>h\<close>;
  helmet's headers other than the Content-Security-Policy; console output is kept as a list of lines,
  with the emoji prefixes of the messages dropped. Timing is not modelled: the concurrent
  \<open>Promise.all\<close> is modelled in issue order, and overlapping start-ups only through the
  guard, which is where they interact.
\<close>

subsection \<open>The first start-up, across the components\<close>

definition seed_grants :: "nat \<Rightarrow> (string \<times> nat) multiset" where
  "seed_grants rid = mset (map (\<lambda>a. (a, rid)) (perm_actions seed_permissions))"

lemma import_step_permissions: "import_step w w' \<Longrightarrow> permissions w' = permissions w"
  by (simp add: import_step_def)

lemma importSeedData_grants:
  assumes role: "find (\<lambda>r. role_type r = ''public'') (roles w) = Some r"
    and ok: "find (permission_rejects w) (perm_actions seed_permissions) = None"
  shows "permissions (snd (importSeedData h w)) = permissions w + seed_grants (role_id r)"
proof -
  let ?w1 = "w\<lparr>console := console w @ [Info ''Starting seed data import...'']\<rparr>"
  let ?w2 = "?w1\<lparr>permissions := permissions w + seed_grants (role_id r),
                console := console w @ [Info ''Starting seed data import...'', Info ''Public permissions configured'']\<rparr>"
  have none: "\<forall>a\<in>set (perm_actions seed_permissions). \<not> permission_rejects w a"
    using ok by (simp add: find_None_iff)
  then have flt: "filter (\<lambda>a. \<not> permission_rejects w a) (perm_actions seed_permissions) = perm_actions seed_permissions"
    by (simp add: filter_id_conv)
  have sp: "setPublicPermissions seed_permissions ?w1 = (Inr (), ?w2)"
    using role ok flt by (simp add: setPublicPermissions_run seed_grants_def Let_def)
  obtain res w3 where ih: "importHomePage h ?w2 = (res, w3)" by (cases "importHomePage h ?w2")
  have p3: "permissions w3 = permissions ?w2"
    by (rule import_step_permissions, rule movesD [OF moves_importHomePage ih])
  show ?thesis
    using sp ih p3 by (cases res) (simp_all add: importSeedData_def bindE_def log_line_apply)
qed

text \<open>(C9)
  On a first start-up with a public role and a platform that accepts every grant, the
  bootstrap grants the public role read access (\<open>find\<close>, \<open>findOne\<close>) on the four
  content types, once each, and keeps these grants whatever happens to the home-page
  import afterwards (a failed import is not rolled back); and the run-once flag is set.
\<close>

theorem seed_first_run_grants:
  assumes "\<not> truthy_opt (plugin_store w (init_key (environment w)))"
    and "find (\<lambda>r. role_type r = ''public'') (roles w) = Some r"
    and "\<forall>a\<in>set (perm_actions seed_permissions). \<not> permission_rejects w a"
  shows "permissions (snd (seedPelagicApp h w)) = permissions w + seed_grants (role_id r) \<and>
         plugin_store (snd (seedPelagicApp h w)) (init_key (environment w)) = Some (JBool True)"
proof -
  let ?w = "set_flag w"
  let ?w1 = "?w\<lparr>console := console w @ [Info ''Setting up Pelagic Earth CMS...'']\<rparr>"
  have role: "find (\<lambda>r. role_type r = ''public'') (roles ?w1) = Some r"
    using assms(2) by (simp add: set_flag_def)
  have ok: "find (permission_rejects ?w1) (perm_actions seed_permissions) = None"
    using assms(3) by (simp add: set_flag_def find_None_iff)
  obtain res w2 where isd: "importSeedData h ?w1 = (res, w2)" by (cases "importSeedData h ?w1")
  have p2: "permissions w2 = permissions w + seed_grants (role_id r)"
    using importSeedData_grants [OF role ok, of h] isd by (simp add: set_flag_def)
  have "permissions (snd (seed_import h ?w)) = permissions w2"
    using isd by (cases res) (simp_all add: seed_import_def catchE_def bindE_def log_line_apply set_flag_def)
  then show ?thesis
    using assms(1) p2 seedPelagicApp_sets_flag [of h w] by (simp add: seedPelagicApp_run)
qed

theorem seed_first_run_grants_witness:
  "permissions (snd (seedPelagicApp (JObj [(''sections'', JNull)]) fresh_world)) =
     mset [(''api::home-page.home-page.find'', 2), (''api::home-page.home-page.findOne'', 2),
           (''api::global-setting.global-setting.find'', 2), (''api::global-setting.global-setting.findOne'', 2),
           (''api::journal-article.journal-article.find'', 2), (''api::journal-article.journal-article.findOne'', 2),
           (''api::journal-page.journal-page.find'', 2), (''api::journal-page.journal-page.findOne'', 2)]"
proof -
  have f: "\<not> truthy_opt (plugin_store fresh_world (init_key (environment fresh_world)))"
    by (simp add: fresh_world_def)
  have r: "find (\<lambda>r. role_type r = ''public'') (roles fresh_world) = Some \<lparr>role_id = 2, role_type = ''public''\<rparr>"
    by (simp add: fresh_world_def)
  have a: "\<forall>a\<in>set (perm_actions seed_permissions). \<not> permission_rejects fresh_world a"
    by (simp add: fresh_world_def)
  show ?thesis
    using seed_first_run_grants [OF f r a, of "JObj [(''sections'', JNull)]"]
    by (simp add: seed_grants_def perm_actions_def seed_permissions_def action_name_def fresh_world_def)
qed

subsection \<open>What one start-up can add\<close>

lemma setPublicPermissions_size:
  "size (permissions (snd (setPublicPermissions np w))) \<le> size (permissions w) + length (perm_actions np)"
proof -
  have k: "size {#x \<in># mset xs. P x#} \<le> length xs" for P and xs :: "string list"
    by (metis size_filter_mset_lesseq size_mset)
  show ?thesis by (simp add: setPublicPermissions_run Let_def k split: option.split)
qed

lemma perm_step_documents: "perm_step w w' \<Longrightarrow> documents w' = documents w"
  by (simp add: perm_step_def)

lemma length_seed_actions: "length (perm_actions seed_permissions) = 8"
  by (simp add: perm_actions_def seed_permissions_def)

lemma importSeedData_bounds:
  assumes run: "importSeedData h w = (r, w')"
  shows "length (documents w') \<le> Suc (length (documents w)) \<and>
         size (permissions w') \<le> size (permissions w) + 8"
proof -
  let ?w1 = "w\<lparr>console := console w @ [Info ''Starting seed data import...'']\<rparr>"
  obtain r2 w2 where sp: "setPublicPermissions seed_permissions ?w1 = (r2, w2)"
    by (cases "setPublicPermissions seed_permissions ?w1")
  have d2: "documents w2 = documents w"
    using perm_step_documents [OF movesD [OF moves_setPublicPermissions sp]] by simp
  have p2: "size (permissions w2) \<le> size (permissions w) + 8"
    using setPublicPermissions_size [of seed_permissions ?w1] sp by (simp add: length_seed_actions)
  show ?thesis
  proof (cases r2)
    case (Inl e)
    then have "w' = w2" using run sp by (simp add: importSeedData_def bindE_def log_line_apply)
    with d2 p2 show ?thesis by simp
  next
    case (Inr u)
    obtain r3 w3 where ih: "importHomePage h w2 = (r3, w3)" by (cases "importHomePage h w2")
    have d3: "length (documents w3) \<le> Suc (length (documents w2))"
      by (rule importHomePage_documents_bound [OF ih])
    have p3: "permissions w3 = permissions w2"
      by (rule import_step_permissions, rule movesD [OF moves_importHomePage ih])
    have "documents w' = documents w3 \<and> permissions w' = permissions w3"
      using run sp ih Inr by (cases r3) (auto simp: importSeedData_def bindE_def log_line_apply)
    with d2 p2 d3 p3 show ?thesis by simp
  qed
qed

text \<open>(C23)
  One start-up adds at most one document and at most eight permission grants (two
  actions on four content types), whatever the platform accepts or refuses and whether
  or not the flag was set.
\<close>

theorem seedPelagicApp_bounds:
  "length (documents (snd (seedPelagicApp h w))) \<le> Suc (length (documents w)) \<and>
   size (permissions (snd (seedPelagicApp h w))) \<le> size (permissions w) + 8"
proof (cases "truthy_opt (plugin_store w (init_key (environment w)))")
  case True
  then show ?thesis by (simp add: seedPelagicApp_run set_flag_def)
next
  case False
  let ?w1 = "(set_flag w)\<lparr>console := console w @ [Info ''Setting up Pelagic Earth CMS...'']\<rparr>"
  obtain r w2 where isd: "importSeedData h ?w1 = (r, w2)" by (cases "importSeedData h ?w1")
  have b: "length (documents w2) \<le> Suc (length (documents w)) \<and> size (permissions w2) \<le> size (permissions w) + 8"
    using importSeedData_bounds [OF isd] by (simp add: set_flag_def)
  have "documents (snd (seed_import h (set_flag w))) = documents w2 \<and>
        permissions (snd (seed_import h (set_flag w))) = permissions w2"
    using isd by (cases r) (simp_all add: seed_import_def catchE_def bindE_def log_line_apply set_flag_def)
  with b False show ?thesis by (simp add: seedPelagicApp_run)
qed

end
